theory Spec2Isabelle
  imports Main "HOL-Library.AList"
begin

section \<open>Byte strings, keys and the two global stores\<close>

text \<open>
  The client (client.go) is written against the course library \<^verbatim>\<open>userlib\<close> (symmetric
  encryption, HMAC, public-key encryption, signatures, HashKDF, Argon2, a random source, the
  Datastore and the Keystore) and against \<^verbatim>\<open>encoding/json\<close> and \<^verbatim>\<open>google/uuid\<close>. These
  libraries are not part of the repository. They are modelled here in the symbolic
  style of protocol verification: a byte string is a term that records how it was built, so
  that two byte strings are equal exactly when they were built the same way (no collisions,
  no forgeries, a ciphertext opens only under its own key). A Go \<^verbatim>\<open>string\<close> and a literal
  \<^verbatim>\<open>[]byte\<close> are both sequences of bytes and are both written as an Isabelle \<^typ>\<open>string\<close>.
\<close>

datatype akey =
    PKEEncKey int      \<comment> \<open>public half of the \<open>n\<close>-th pair made by \<^verbatim>\<open>PKEKeyGen\<close>\<close>
  | PKEDecKey int
  | DSSignKey int      \<comment> \<open>private half of the \<open>n\<close>-th pair made by \<^verbatim>\<open>DSKeyGen\<close>\<close>
  | DSVerifyKey int
  | NoKey              \<comment> \<open>the zero value of a key struct\<close>

datatype bytes =
    Raw string                        \<comment> \<open>literal bytes: \<^verbatim>\<open>[]byte(s)\<close>, never a JSON document\<close>
  | Rand int                          \<comment> \<open>the \<open>n\<close>-th draw of 16 random bytes (\<^verbatim>\<open>RandomBytes(16)\<close>, \<^verbatim>\<open>uuid.New()\<close>)\<close>
  | Argon2 bytes bytes                \<comment> \<open>\<^verbatim>\<open>Argon2Key(password, salt, 16)\<close>\<close>
  | Hkdf bytes bytes                  \<comment> \<open>the first 16 bytes of \<^verbatim>\<open>HashKDF(key, purpose)\<close>\<close>
  | Ciphertext bytes bytes bytes      \<comment> \<open>\<^verbatim>\<open>SymEnc(key, iv, plaintext)\<close>\<close>
  | Tag bytes bytes                   \<comment> \<open>\<^verbatim>\<open>HMACEval(key, msg)\<close>\<close>
  | PKECiphertext int bytes           \<comment> \<open>\<^verbatim>\<open>PKEEnc\<close> under the \<open>n\<close>-th public key\<close>
  | Signature int bytes               \<comment> \<open>\<^verbatim>\<open>DSSign\<close> under the \<open>n\<close>-th signing key\<close>
  | JUser string akey akey            \<comment> \<open>\<^verbatim>\<open>json.Marshal\<close> of a User (\<^verbatim>\<open>sourceKey\<close> is unexported)\<close>
  | JAccess bytes bytes bytes bytes bytes bytes bool
  | JInvitationList "(bytes \<times> bytes) list option"
  | JInvitationMeta bytes bytes
  | JInvitation bytes bytes
  | JMeta bytes bytes bytes
  | JFile string bytes
  | JEnvelope bytes bytes             \<comment> \<open>\<^verbatim>\<open>json.Marshal\<close> of the map with keys "Msg" and "Tag"\<close>

type_synonym UUID = bytes

type_synonym 'a result = "string + 'a"

text \<open>
  An error is the message the Go code passes to \<^verbatim>\<open>errors.New\<close> (\<open>Inl\<close>); a run-time panic is an
  error whose message starts with \<open>panic\<close>. \<^verbatim>\<open>strings.ToTitle\<close> upper-cases its argument.
\<close>

record User =
  Username :: string
  RSAkey :: akey
  Sigkey :: akey
  sourceKey :: bytes

record Access =
  MetaUUID :: UUID
  MetaSourcekey :: bytes
  InvitationUUID :: UUID
  InvitationSourcekey :: bytes
  InvitationList :: UUID
  ListKey :: bytes
  IsOwner :: bool

text \<open>A Go map is \<open>None\<close> when it is nil; its iteration order is the order of the list.\<close>

record InvitationList =
  Invitations :: "(UUID \<times> bytes) list option"

record InvitationMeta =
  InvitationUUID :: UUID
  InvitationSourcekey :: bytes

record Invitation =
  MetaUUID :: UUID
  MetaSourcekey :: bytes

record Meta =
  Start :: UUID
  Last :: UUID
  FileSourcekey :: bytes

record File =
  Contents :: string
  Next :: UUID

record world =
  datastore :: "UUID \<rightharpoonup> bytes"
  keystore :: "string \<rightharpoonup> akey"
  rng :: int                          \<comment> \<open>number of draws made from the random source so far\<close>

definition LENGTH :: nat where "LENGTH = 16"
definition ENCRYPT :: string where "ENCRYPT = ''encrypt''"
definition MAC :: string where "MAC = ''mac''"
definition ACCESS :: string where "ACCESS = ''access''"

definition uuid_Nil :: UUID where
  "uuid_Nil = Raw (replicate 16 (CHR 0x00))"

text \<open>\<open>len16 b\<close>: the byte string \<open>b\<close> is exactly 16 bytes long. Ciphertexts (at least 32 bytes),
  tags (64), public-key ciphertexts and signatures (256) and the JSON documents of this
  program (each longer than 16 characters) are not.\<close>

fun len16 :: "bytes \<Rightarrow> bool" where
  "len16 (Raw s) = (length s = 16)"
| "len16 (Rand n) = True"
| "len16 (Argon2 p s) = True"
| "len16 (Hkdf k p) = True"
| "len16 _ = False"

subsection \<open>userlib\<close>

definition Argon2Key :: "bytes \<Rightarrow> bytes \<Rightarrow> nat \<Rightarrow> bytes" where
  "Argon2Key password salt keyLen = Argon2 password salt"

text \<open>\<^verbatim>\<open>HashKDF\<close> rejects a key that is not 16 bytes long. The client only ever uses the first
  16 bytes of the 64 it returns, which is what \<open>Hkdf\<close> stands for.\<close>

definition HashKDF :: "bytes \<Rightarrow> bytes \<Rightarrow> bytes result" where
  "HashKDF key purpose =
     (if len16 key then Inr (Hkdf key purpose)
      else Inl ''The input as key for HashKDF should be a 16-byte key.'')"

definition HMACEval :: "bytes \<Rightarrow> bytes \<Rightarrow> bytes result" where
  "HMACEval key msg =
     (if len16 key then Inr (Tag key msg)
      else Inl ''The input as key for HMAC should be a 16-byte key.'')"

definition HMACEqual :: "bytes \<Rightarrow> bytes \<Rightarrow> bool" where
  "HMACEqual a b = (a = b)"

text \<open>Every key given to \<^verbatim>\<open>SymEnc\<close> and \<^verbatim>\<open>SymDec\<close> is an output of \<open>GetTwoHASHKDFKeys\<close>
  below, hence 16 bytes, and every IV is 16 random bytes. \<^verbatim>\<open>SymDec\<close> of anything but a
  ciphertext made under the same key gives undecodable bytes or panics: \<open>None\<close>.\<close>

definition SymEnc :: "bytes \<Rightarrow> bytes \<Rightarrow> bytes \<Rightarrow> bytes" where
  "SymEnc key iv plaintext = Ciphertext key iv plaintext"

fun SymDec :: "bytes \<Rightarrow> bytes \<Rightarrow> bytes option" where
  "SymDec key (Ciphertext k iv plaintext) = (if k = key then Some plaintext else None)"
| "SymDec key _ = None"

fun PKEEnc :: "akey \<Rightarrow> bytes \<Rightarrow> bytes result" where
  "PKEEnc (PKEEncKey n) plaintext = Inr (PKECiphertext n plaintext)"
| "PKEEnc _ plaintext = Inl ''PKEEnc: not a pke public key''"

fun PKEDec :: "akey \<Rightarrow> bytes \<Rightarrow> bytes result" where
  "PKEDec (PKEDecKey n) (PKECiphertext m plaintext) =
     (if m = n then Inr plaintext else Inl ''crypto/rsa: decryption error'')"
| "PKEDec (PKEDecKey n) _ = Inl ''crypto/rsa: decryption error''"
| "PKEDec _ _ = Inl ''PKEDec: not a pke private key''"

fun DSSign :: "akey \<Rightarrow> bytes \<Rightarrow> bytes result" where
  "DSSign (DSSignKey n) msg = Inr (Signature n msg)"
| "DSSign _ msg = Inl ''DSSign: not a signing key''"

fun DSVerify :: "akey \<Rightarrow> bytes \<Rightarrow> bytes \<Rightarrow> unit result" where
  "DSVerify (DSVerifyKey n) msg sig =
     (if sig = Signature n msg then Inr () else Inl ''crypto/rsa: verification error'')"
| "DSVerify _ msg sig = Inl ''DSVerify: not a verification key''"

definition DatastoreGet :: "UUID \<Rightarrow> world \<Rightarrow> bytes option" where
  "DatastoreGet key s = datastore s key"

definition DatastoreSet :: "UUID \<Rightarrow> bytes \<Rightarrow> world \<Rightarrow> world" where
  "DatastoreSet key v s = s\<lparr>datastore := (datastore s)(key \<mapsto> v)\<rparr>"

definition KeystoreGet :: "string \<Rightarrow> world \<Rightarrow> akey option" where
  "KeystoreGet key s = keystore s key"

text \<open>The Keystore is write-once: \<^verbatim>\<open>KeystoreSet\<close> on a taken name returns an error and
  leaves the entry as it is. \<open>InitUser\<close> ignores that error.\<close>

definition KeystoreSet :: "string \<Rightarrow> akey \<Rightarrow> world \<Rightarrow> world" where
  "KeystoreSet key v s =
     (case keystore s key of
        Some _ \<Rightarrow> s
      | None \<Rightarrow> s\<lparr>keystore := (keystore s)(key \<mapsto> v)\<rparr>)"

text \<open>One draw from the random source: \<^verbatim>\<open>RandomBytes(16)\<close> or \<^verbatim>\<open>uuid.New()\<close>.\<close>

definition RandomBytes :: "world \<Rightarrow> bytes \<times> world" where
  "RandomBytes s = (Rand (rng s), s\<lparr>rng := rng s + 1\<rparr>)"

definition uuid_New :: "world \<Rightarrow> UUID \<times> world" where
  "uuid_New s = (Rand (rng s), s\<lparr>rng := rng s + 1\<rparr>)"

definition uuid_FromBytes :: "bytes \<Rightarrow> UUID result" where
  "uuid_FromBytes b = (if len16 b then Inr b else Inl ''invalid UUID (got bytes)'')"

definition PKEKeyGen :: "world \<Rightarrow> (akey \<times> akey) \<times> world" where
  "PKEKeyGen s = ((PKEEncKey (rng s), PKEDecKey (rng s)), s\<lparr>rng := rng s + 1\<rparr>)"

definition DSKeyGen :: "world \<Rightarrow> (akey \<times> akey) \<times> world" where
  "DSKeyGen s = ((DSSignKey (rng s), DSVerifyKey (rng s)), s\<lparr>rng := rng s + 1\<rparr>)"

subsection \<open>encoding/json\<close>

text \<open>
  \<^verbatim>\<open>json.Unmarshal\<close> into a struct accepts any JSON object: it fills the fields whose names
  occur in the object and leaves the others at their zero value. Bytes that are not a JSON
  document are rejected.
\<close>

fun isJSON :: "bytes \<Rightarrow> bool" where
  "isJSON (JUser u r g) = True"
| "isJSON (JAccess a b c d e f g) = True"
| "isJSON (JInvitationList l) = True"
| "isJSON (JInvitationMeta a b) = True"
| "isJSON (JInvitation a b) = True"
| "isJSON (JMeta a b c) = True"
| "isJSON (JFile a b) = True"
| "isJSON (JEnvelope a b) = True"
| "isJSON _ = False"

definition jsonError :: string where
  "jsonError = ''invalid character looking for beginning of value''"

text \<open>
  \<^verbatim>\<open>json.Marshal\<close> writes a Go \<^verbatim>\<open>string\<close> coerced to valid UTF-8: the encoder walks the bytes
  with \<^verbatim>\<open>utf8.DecodeRuneInString\<close> and replaces every byte that does not start a valid encoding
  by U+FFFD, which \<^verbatim>\<open>json.Unmarshal\<close> reads back as the bytes EF BF BD. A \<^verbatim>\<open>[]byte\<close> is written in
  base64 and is read back as it was. \<^verbatim>\<open>Username\<close> is the only \<^verbatim>\<open>string\<close> field of the structs.
\<close>

definition firstByte :: "char \<Rightarrow> nat \<times> nat \<times> nat"
  \<comment> \<open>table \<^verbatim>\<open>first\<close> of \<^verbatim>\<open>unicode/utf8\<close>: the width and the range accepted for the second byte\<close>
where
  "firstByte c =
     (let b = of_char c :: nat in
      if b < 0x80 then (1, 0, 0)
      else if b < 0xC2 then (0, 0, 0)
      else if b < 0xE0 then (2, 0x80, 0xBF)
      else if b = 0xE0 then (3, 0xA0, 0xBF)
      else if b = 0xED then (3, 0x80, 0x9F)
      else if b < 0xF0 then (3, 0x80, 0xBF)
      else if b = 0xF0 then (4, 0x90, 0xBF)
      else if b < 0xF4 then (4, 0x80, 0xBF)
      else if b = 0xF4 then (4, 0x80, 0x8F)
      else (0, 0, 0))"

definition between :: "nat \<Rightarrow> nat \<Rightarrow> char \<Rightarrow> bool" where
  "between lo hi c = (lo \<le> of_char c \<and> of_char c \<le> hi)"

definition DecodeRuneInString :: "string \<Rightarrow> nat"
  \<comment> \<open>the width of the valid encoding at the head; 0 stands for \<^verbatim>\<open>(RuneError, 1)\<close>\<close>
where
  "DecodeRuneInString s =
     (case s of
        [] \<Rightarrow> 0
      | c # r \<Rightarrow>
     (case firstByte c of (n, lo, hi) \<Rightarrow>
        if n = 0 then 0
        else if n = 1 then 1
        else if length s < n then 0
        else if \<not> between lo hi (s ! 1) then 0
        else if n = 2 then 2
        else if \<not> between 0x80 0xBF (s ! 2) then 0
        else if n = 3 then 3
        else if \<not> between 0x80 0xBF (s ! 3) then 0
        else 4))"

fun coerce :: "nat \<Rightarrow> string \<Rightarrow> string"
  \<comment> \<open>\<open>k\<close> bytes of an accepted encoding are still to be copied\<close>
where
  "coerce k [] = []"
| "coerce k (c # r) =
     (if 0 < k then c # coerce (k - 1) r
      else if DecodeRuneInString (c # r) = 0
        then [CHR 0xEF, CHR 0xBF, CHR 0xBD] @ coerce 0 r
      else c # coerce (DecodeRuneInString (c # r) - 1) r)"

definition toValidUTF8 :: "string \<Rightarrow> string" where
  "toValidUTF8 s = coerce 0 s"

definition marshalUser :: "User \<Rightarrow> bytes" where
  "marshalUser u = JUser (toValidUTF8 (Username u)) (RSAkey u) (Sigkey u)"

definition marshalAccess :: "Access \<Rightarrow> bytes" where
  "marshalAccess a =
     JAccess (Access.MetaUUID a) (Access.MetaSourcekey a) (Access.InvitationUUID a)
       (Access.InvitationSourcekey a) (InvitationList a) (ListKey a) (IsOwner a)"

definition marshalInvitationList :: "InvitationList \<Rightarrow> bytes" where
  "marshalInvitationList l = JInvitationList (Invitations l)"

definition marshalInvitationMeta :: "InvitationMeta \<Rightarrow> bytes" where
  "marshalInvitationMeta m =
     JInvitationMeta (InvitationMeta.InvitationUUID m) (InvitationMeta.InvitationSourcekey m)"

definition marshalInvitation :: "Invitation \<Rightarrow> bytes" where
  "marshalInvitation i = JInvitation (Invitation.MetaUUID i) (Invitation.MetaSourcekey i)"

definition marshalMeta :: "Meta \<Rightarrow> bytes" where
  "marshalMeta m = JMeta (Start m) (Last m) (FileSourcekey m)"

definition marshalFile :: "File \<Rightarrow> bytes" where
  "marshalFile f = JFile (Contents f) (Next f)"

definition zeroAccess :: Access where
  "zeroAccess = \<lparr>Access.MetaUUID = uuid_Nil, Access.MetaSourcekey = Raw [],
     Access.InvitationUUID = uuid_Nil, Access.InvitationSourcekey = Raw [],
     InvitationList = uuid_Nil, ListKey = Raw [], IsOwner = False\<rparr>"

definition zeroUser :: User where
  "zeroUser = \<lparr>Username = [], RSAkey = NoKey, Sigkey = NoKey, sourceKey = Raw []\<rparr>"

fun unmarshalUser :: "bytes \<Rightarrow> User result" where
  "unmarshalUser (JUser u r g) = Inr (zeroUser\<lparr>Username := u, RSAkey := r, Sigkey := g\<rparr>)"
| "unmarshalUser b = (if isJSON b then Inr zeroUser else Inl jsonError)"

fun unmarshalAccess :: "bytes \<Rightarrow> Access result" where
  "unmarshalAccess (JAccess mu mk iu ik il lk ow) =
     Inr \<lparr>Access.MetaUUID = mu, Access.MetaSourcekey = mk, Access.InvitationUUID = iu,
          Access.InvitationSourcekey = ik, InvitationList = il, ListKey = lk, IsOwner = ow\<rparr>"
| "unmarshalAccess (JInvitationMeta iu ik) =
     Inr (zeroAccess\<lparr>Access.InvitationUUID := iu, Access.InvitationSourcekey := ik\<rparr>)"
| "unmarshalAccess (JInvitation mu mk) =
     Inr (zeroAccess\<lparr>Access.MetaUUID := mu, Access.MetaSourcekey := mk\<rparr>)"
| "unmarshalAccess b = (if isJSON b then Inr zeroAccess else Inl jsonError)"

fun unmarshalInvitationList :: "bytes \<Rightarrow> InvitationList result" where
  "unmarshalInvitationList (JInvitationList l) = Inr \<lparr>Invitations = l\<rparr>"
| "unmarshalInvitationList b =
     (if isJSON b then Inr \<lparr>Invitations = None\<rparr> else Inl jsonError)"

fun unmarshalInvitationMeta :: "bytes \<Rightarrow> InvitationMeta result" where
  "unmarshalInvitationMeta (JInvitationMeta iu ik) =
     Inr \<lparr>InvitationMeta.InvitationUUID = iu, InvitationMeta.InvitationSourcekey = ik\<rparr>"
| "unmarshalInvitationMeta (JAccess mu mk iu ik il lk ow) =
     Inr \<lparr>InvitationMeta.InvitationUUID = iu, InvitationMeta.InvitationSourcekey = ik\<rparr>"
| "unmarshalInvitationMeta b =
     (if isJSON b then Inr \<lparr>InvitationMeta.InvitationUUID = uuid_Nil,
          InvitationMeta.InvitationSourcekey = Raw []\<rparr>
      else Inl jsonError)"

fun unmarshalInvitation :: "bytes \<Rightarrow> Invitation result" where
  "unmarshalInvitation (JInvitation mu mk) =
     Inr \<lparr>Invitation.MetaUUID = mu, Invitation.MetaSourcekey = mk\<rparr>"
| "unmarshalInvitation (JAccess mu mk iu ik il lk ow) =
     Inr \<lparr>Invitation.MetaUUID = mu, Invitation.MetaSourcekey = mk\<rparr>"
| "unmarshalInvitation b =
     (if isJSON b then Inr \<lparr>Invitation.MetaUUID = uuid_Nil, Invitation.MetaSourcekey = Raw []\<rparr>
      else Inl jsonError)"

fun unmarshalMeta :: "bytes \<Rightarrow> Meta result" where
  "unmarshalMeta (JMeta st la k) = Inr \<lparr>Start = st, Last = la, FileSourcekey = k\<rparr>"
| "unmarshalMeta b =
     (if isJSON b then Inr \<lparr>Start = uuid_Nil, Last = uuid_Nil, FileSourcekey = Raw []\<rparr>
      else Inl jsonError)"

fun unmarshalFile :: "bytes \<Rightarrow> File result" where
  "unmarshalFile (JFile c n) = Inr \<lparr>Contents = c, Next = n\<rparr>"
| "unmarshalFile b = (if isJSON b then Inr \<lparr>Contents = [], Next = uuid_Nil\<rparr> else Inl jsonError)"

section \<open>Helper functions of client.go\<close>

definition GetUserUUID :: "string \<Rightarrow> UUID result" where
  "GetUserUUID user =
     (case uuid_FromBytes (Argon2Key (Raw user) (Raw ''UUID'') LENGTH) of
        Inl _ \<Rightarrow> Inl ''CONVERSION TO UUID FAILED''
      | Inr u \<Rightarrow> Inr u)"

definition GetSourceKey :: "string \<Rightarrow> string \<Rightarrow> bytes" where
  "GetSourceKey user password = Argon2Key (Raw password) (Raw user) LENGTH"

text \<open>Key generation fails only when the random source does, which the model leaves out.\<close>

definition GetAsynchKeys :: "world \<Rightarrow> (akey \<times> akey \<times> akey \<times> akey) result \<times> world" where
  "GetAsynchKeys s =
     (let ((pk, sk), s1) = PKEKeyGen s;
          ((signpriv, signpub), s2) = DSKeyGen s1
      in (Inr (pk, sk, signpriv, signpub), s2))"

definition GetTwoHASHKDFKeys :: "bytes \<Rightarrow> string \<Rightarrow> string \<Rightarrow> (bytes \<times> bytes) result" where
  "GetTwoHASHKDFKeys sourcekey purpose1 purpose2 =
     (case HashKDF sourcekey (Raw purpose1) of
        Inl _ \<Rightarrow> Inl ''KEY CREATION FAILED''
      | Inr key1 \<Rightarrow>
     (case HashKDF sourcekey (Raw purpose2) of
        Inl _ \<Rightarrow> Inl ''KEY CREATION FAILED''
      | Inr key2 \<Rightarrow> Inr (key1, key2)))"

definition GetAccessUUID :: "User \<Rightarrow> string \<Rightarrow> UUID result" where
  "GetAccessUUID user filename =
     (case HashKDF (sourceKey user) (Raw filename) of
        Inl _ \<Rightarrow> Inl ''HASHING FAILED''
      | Inr accesshash \<Rightarrow>
     (case uuid_FromBytes accesshash of
        Inl _ \<Rightarrow> Inl ''CONVERSION TO UUID FAILED''
      | Inr u \<Rightarrow> Inr u))"

definition GetInvitationUUID :: "User \<Rightarrow> string \<Rightarrow> string \<Rightarrow> UUID result" where
  "GetInvitationUUID owner sharee filename =
     (case HashKDF (sourceKey owner) (Raw (Username owner @ filename @ sharee)) of
        Inl _ \<Rightarrow> Inl ''HASHING FAILED''
      | Inr invitehash \<Rightarrow>
     (case uuid_FromBytes invitehash of
        Inl _ \<Rightarrow> Inl ''FILE NOT FOUND''
      | Inr u \<Rightarrow> Inr u))"

text \<open>\<^verbatim>\<open>json.Marshal\<close> of a map from strings to byte slices cannot fail.\<close>

definition GenerateUUIDVal :: "bytes \<Rightarrow> bytes \<Rightarrow> bytes result" where
  "GenerateUUIDVal msg tag = Inr (JEnvelope msg tag)"

text \<open>
  \<^verbatim>\<open>UnpackValue\<close> unmarshals into a map from strings to byte slices. Of the JSON documents of
  this program only the envelope and \<^verbatim>\<open>{"Invitations":null}\<close> have nothing but byte slices or
  null as values; the latter has neither "Msg" nor "Tag".
\<close>

fun UnpackValue :: "bytes \<Rightarrow> (bytes \<times> bytes) result" where
  "UnpackValue (JEnvelope msg tag) = Inr (msg, tag)"
| "UnpackValue (JInvitationList None) = Inr (Raw [], Raw [])"
| "UnpackValue _ = Inl ''UNMARSHAL FAILED''"

text \<open>\<open>EncryptThenMac\<close> takes the JSON document of its first argument (\<^verbatim>\<open>json.Marshal\<close> of the
  structs of this program cannot fail).\<close>

definition EncryptThenMac :: "bytes \<Rightarrow> bytes \<Rightarrow> bytes \<Rightarrow> world \<Rightarrow> (bytes \<times> bytes) result \<times> world" where
  "EncryptThenMac plaintext key1 key2 s =
     (let (rndbytes, s1) = RandomBytes s;
          msg = SymEnc key1 rndbytes plaintext
      in case HMACEval key2 msg of
           Inl _ \<Rightarrow> (Inl ''HMAC FAILED'', s1)
         | Inr tag \<Rightarrow> (Inr (msg, tag), s1))"

definition EncryptThenMacAccess :: "Access \<Rightarrow> bytes \<Rightarrow> bytes \<Rightarrow> world \<Rightarrow> (bytes \<times> bytes) result \<times> world" where
  "EncryptThenMacAccess txt key1 key2 s =
     (let plaintext = marshalAccess txt;
          (rndbytes, s1) = RandomBytes s;
          msg = SymEnc key1 rndbytes plaintext
      in case HMACEval key2 msg of
           Inl _ \<Rightarrow> (Inl ''HMAC FAILED'', s1)
         | Inr tag \<Rightarrow> (Inr (msg, tag), s1))"

definition EncryptThenSign :: "InvitationMeta \<Rightarrow> string \<Rightarrow> akey \<Rightarrow> world \<Rightarrow> (bytes \<times> bytes) result" where
  "EncryptThenSign txt user sk s =
     (let plaintext = marshalInvitationMeta txt
      in case KeystoreGet (user @ '' public key'') s of
           None \<Rightarrow> Inl ''KEYSTOREGET FAILED''
         | Some pubkey \<Rightarrow>
        (case PKEEnc pubkey plaintext of
           Inl _ \<Rightarrow> Inl ''ENCRYPTION FAILED''
         | Inr ciphertext \<Rightarrow>
        (case DSSign sk ciphertext of
           Inl e \<Rightarrow> Inl e
         | Inr sig \<Rightarrow> Inr (ciphertext, sig))))"

definition CheckTag :: "bytes \<Rightarrow> bytes \<Rightarrow> bytes \<Rightarrow> unit result" where
  "CheckTag msg tag key2 =
     (case HMACEval key2 msg of
        Inl e \<Rightarrow> Inl e
      | Inr computedTag \<Rightarrow>
          if HMACEqual tag computedTag then Inr ()
          else Inl ''integrity check failed'')"

definition CheckSignature :: "bytes \<Rightarrow> bytes \<Rightarrow> string \<Rightarrow> world \<Rightarrow> unit result" where
  "CheckSignature msg sig user s =
     (case KeystoreGet (user @ '' signature key'') s of
        None \<Rightarrow> Inl ''could not get sign key''
      | Some sk \<Rightarrow> DSVerify sk msg sig)"

definition DecryptFileMsg :: "bytes \<Rightarrow> bytes \<Rightarrow> File result" where
  "DecryptFileMsg msg key1 =
     (case SymDec key1 msg of None \<Rightarrow> Inl jsonError | Some plaintext \<Rightarrow> unmarshalFile plaintext)"

definition DecryptAccessMsg :: "bytes \<Rightarrow> bytes \<Rightarrow> Access result" where
  "DecryptAccessMsg msg key1 =
     (case SymDec key1 msg of None \<Rightarrow> Inl jsonError | Some plaintext \<Rightarrow> unmarshalAccess plaintext)"

definition DecryptMetaMsg :: "bytes \<Rightarrow> bytes \<Rightarrow> Meta result" where
  "DecryptMetaMsg msg key1 =
     (case SymDec key1 msg of None \<Rightarrow> Inl jsonError | Some plaintext \<Rightarrow> unmarshalMeta plaintext)"

definition DecryptInvitationMsg :: "bytes \<Rightarrow> bytes \<Rightarrow> Invitation result" where
  "DecryptInvitationMsg msg key1 =
     (case SymDec key1 msg of
        None \<Rightarrow> Inl jsonError
      | Some plaintext \<Rightarrow> unmarshalInvitation plaintext)"

definition DecryptInvitationListMsg :: "bytes \<Rightarrow> bytes \<Rightarrow> InvitationList result" where
  "DecryptInvitationListMsg msg key1 =
     (case SymDec key1 msg of
        None \<Rightarrow> Inl jsonError
      | Some plaintext \<Rightarrow> unmarshalInvitationList plaintext)"

definition DecryptAsynchMsg :: "bytes \<Rightarrow> akey \<Rightarrow> InvitationMeta result" where
  "DecryptAsynchMsg msg pk =
     (case PKEDec pk msg of
        Inl _ \<Rightarrow> Inl ''DECRYPTION FAILED''
      | Inr plaintext \<Rightarrow>
     (case unmarshalInvitationMeta plaintext of
        Inl _ \<Rightarrow> Inl ''UNMARSHALLING FAILED''
      | Inr d \<Rightarrow> Inr d))"

text \<open>\<open>GetRandomKey\<close> and \<open>GetAccessKey\<close> slice the result of \<^verbatim>\<open>HashKDF\<close> before they look at
  its error: when \<^verbatim>\<open>HashKDF\<close> fails the slice expression panics.\<close>

definition GetRandomKey :: "User \<Rightarrow> world \<Rightarrow> bytes result \<times> world" where
  "GetRandomKey user s =
     (let (salt, s1) = RandomBytes s
      in case HashKDF (sourceKey user) salt of
           Inl _ \<Rightarrow> (Inl ''panic: runtime error: slice bounds out of range'', s1)
         | Inr hashedkey \<Rightarrow> (Inr hashedkey, s1))"

definition GetAccessKey :: "bytes \<Rightarrow> string \<Rightarrow> bytes result" where
  "GetAccessKey sourcekey filename =
     (case HashKDF sourcekey (Raw filename) of
        Inl _ \<Rightarrow> Inl ''panic: runtime error: slice bounds out of range''
      | Inr hashedkey \<Rightarrow> Inr hashedkey)"

definition AddFileToDatabase :: "UUID \<Rightarrow> bytes \<Rightarrow> string \<Rightarrow> world \<Rightarrow> UUID result \<times> world" where
  "AddFileToDatabase fileUUID fileSourceKey content s =
     (let (nextFileUUID, s1) = uuid_New s
      in case GetTwoHASHKDFKeys fileSourceKey ENCRYPT MAC of
           Inl _ \<Rightarrow> (Inl ''failed to get keys'', s1)
         | Inr (fileEncryptKey, fileHMACKey) \<Rightarrow>
        (let file = \<lparr>Contents = content, Next = nextFileUUID\<rparr>
         in case EncryptThenMac (marshalFile file) fileEncryptKey fileHMACKey s1 of
              (Inl _, s2) \<Rightarrow> (Inl ''failed to EncryptThenMac'', s2)
            | (Inr (encryptedBytes, tag), s2) \<Rightarrow>
           (case GenerateUUIDVal encryptedBytes tag of
              Inl _ \<Rightarrow> (Inl ''failed to package data for entry into DataStore'', s2)
            | Inr uuidVal \<Rightarrow> (Inr nextFileUUID, DatastoreSet fileUUID uuidVal s2))))"

text \<open>
  When the key derivation fails, the Go function returns a \<^verbatim>\<open>uuid.New()\<close> next to the error;
  every caller drops it, and the draw touches neither store, so the model reads the
  Datastore and nothing else.
\<close>

definition GetMetaUUIDAndSourceKey :: "Access \<Rightarrow> world \<Rightarrow> (UUID \<times> bytes) result" where
  "GetMetaUUIDAndSourceKey accessStruct s =
     (let userOwnsFile = IsOwner accessStruct
      in if \<not> userOwnsFile then
           (let invitationUUID = Access.InvitationUUID accessStruct;
                invitationSourceKey = Access.InvitationSourcekey accessStruct
            in case GetTwoHASHKDFKeys invitationSourceKey ENCRYPT MAC of
                 Inl _ \<Rightarrow> Inl ''could not get keys''
               | Inr (invitationEncryptKey, invitationHMACKey) \<Rightarrow>
              (case DatastoreGet invitationUUID s of
                 None \<Rightarrow> Inl ''invitation does not exist''
               | Some invitationValue \<Rightarrow>
              (case UnpackValue invitationValue of
                 Inl _ \<Rightarrow> Inl ''could not unpack invitation value''
               | Inr (invitationMsg, invitationTag) \<Rightarrow>
              (case CheckTag invitationMsg invitationTag invitationHMACKey of
                 Inl _ \<Rightarrow> Inl ''integrity check failed: Invitation struct has unauthorized modifications''
               | Inr _ \<Rightarrow>
              (case DecryptInvitationMsg invitationMsg invitationEncryptKey of
                 Inl _ \<Rightarrow> Inl ''could not decrypt Invitation Struct''
               | Inr invitationStruct \<Rightarrow>
                   Inr (Invitation.MetaUUID invitationStruct,
                        Invitation.MetaSourcekey invitationStruct))))))
         else Inr (Access.MetaUUID accessStruct, Access.MetaSourcekey accessStruct))"

section \<open>The client API\<close>

definition InitUser :: "string \<Rightarrow> string \<Rightarrow> world \<Rightarrow> User result \<times> world" where
  "InitUser username password s =
     (if username = [] then (Inl ''username cannot be empty'', s)
      else case GetUserUUID username of
        Inl e \<Rightarrow> (Inl e, s)
      | Inr userUUID \<Rightarrow>
     (case DatastoreGet userUUID s of
        Some _ \<Rightarrow> (Inl ''username already exists'', s)
      | None \<Rightarrow>
     (let sourcekey = GetSourceKey username password
      in case GetAsynchKeys s of
        (Inl _, s1) \<Rightarrow> (Inl ''GetAsynchKeys error'', s1)
      | (Inr (rsaPublicKey, rsaPrivateKey, dsSignKey, dsVerifyKey), s1) \<Rightarrow>
     (case GetTwoHASHKDFKeys sourcekey ENCRYPT MAC of
        Inl _ \<Rightarrow> (Inl ''GetTwoHASHKDFKeys error'', s1)
      | Inr (encryptKey, hmacKey) \<Rightarrow>
     (let s2 = KeystoreSet (username @ '' public key'') rsaPublicKey s1;
          s3 = KeystoreSet (username @ '' signature key'') dsVerifyKey s2;
          userdata = \<lparr>Username = username, RSAkey = rsaPrivateKey, Sigkey = dsSignKey,
                      sourceKey = sourcekey\<rparr>
      in case EncryptThenMac (marshalUser userdata) encryptKey hmacKey s3 of
        (Inl e, s4) \<Rightarrow> (Inl e, s4)
      | (Inr (msg, tag), s4) \<Rightarrow>
     (case GenerateUUIDVal msg tag of
        Inl _ \<Rightarrow> (Inl ''GenerateUUIDVal error'', s4)
      | Inr uuidVal \<Rightarrow> (Inr userdata, DatastoreSet userUUID uuidVal s4)))))))"

definition GetUser :: "string \<Rightarrow> string \<Rightarrow> world \<Rightarrow> User result" where
  "GetUser username password s =
     (if username = [] then Inl ''username cannot be empty''
      else case GetUserUUID username of
        Inl _ \<Rightarrow> Inl ''GetUserUUID error''
      | Inr userUUID \<Rightarrow>
     (case DatastoreGet userUUID s of
        None \<Rightarrow> Inl ''username does not exist''
      | Some encryptedUserdata \<Rightarrow>
     (case UnpackValue encryptedUserdata of
        Inl _ \<Rightarrow> Inl ''failed to unpack user data''
      | Inr (msg, tag) \<Rightarrow>
     (let sourcekey = GetSourceKey username password
      in case GetTwoHASHKDFKeys sourcekey ENCRYPT MAC of
        Inl _ \<Rightarrow> Inl ''failed to generate encryption and HMAC keys''
      | Inr (encryptKey, hmacKey) \<Rightarrow>
     (case CheckTag msg tag hmacKey of
        Inl _ \<Rightarrow> Inl ''data integrity check failed: either wrong credentials or tampering''
      | Inr _ \<Rightarrow>
     (case SymDec encryptKey msg of
        None \<Rightarrow> Inl ''failed to unmarshal user data''
      | Some decryptedMessage \<Rightarrow>
     (case unmarshalUser decryptedMessage of
        Inl _ \<Rightarrow> Inl ''failed to unmarshal user data''
      | Inr unmarshalled \<Rightarrow>
     (let userdata = unmarshalled\<lparr>sourceKey := sourcekey\<rparr>
      in if Username userdata \<noteq> username
         then Inl ''retrieved username does not match expected username''
         else Inr userdata))))))))"

definition StoreFile :: "User \<Rightarrow> string \<Rightarrow> string \<Rightarrow> world \<Rightarrow> unit result \<times> world" where
  "StoreFile userdata filename content s =
     (case GetAccessUUID userdata filename of
        Inl _ \<Rightarrow> (Inl ''failed to get accessUUID'', s)
      | Inr accessUUID \<Rightarrow>
     (case GetAccessKey (sourceKey userdata) filename of
        Inl _ \<Rightarrow> (Inl ''failed to get access sourcekey'', s)
      | Inr accessSourceKey \<Rightarrow>
     (case GetTwoHASHKDFKeys accessSourceKey ENCRYPT MAC of
        Inl _ \<Rightarrow> (Inl ''failed to get access encrypt and mac keys'', s)
      | Inr (accessEncryptKey, accessHMACKey) \<Rightarrow>
     (case DatastoreGet accessUUID s of
        Some accessValue \<Rightarrow>
          (case UnpackValue accessValue of
             Inl _ \<Rightarrow> (Inl ''failed to unpack Access Struct'', s)
           | Inr (accessMsg, accessTag) \<Rightarrow>
          (case CheckTag accessMsg accessTag accessHMACKey of
             Inl _ \<Rightarrow> (Inl ''integrity check failed: Access Struct has been tampered with'', s)
           | Inr _ \<Rightarrow>
          (case DecryptAccessMsg accessMsg accessEncryptKey of
             Inl _ \<Rightarrow> (Inl ''could not decrypt Access Struct'', s)
           | Inr accessStruct \<Rightarrow>
          (case GetMetaUUIDAndSourceKey accessStruct s of
             Inl _ \<Rightarrow> (Inl ''could not get Meta UUID and sourcekey'', s)
           | Inr (metaUUID, metaSourceKey) \<Rightarrow>
          (case GetTwoHASHKDFKeys metaSourceKey ENCRYPT MAC of
             Inl _ \<Rightarrow> (Inl ''could not get Meta encrypt and mac keys'', s)
           | Inr (metaEncryptKey, metaHMACKey) \<Rightarrow>
          (case DatastoreGet metaUUID s of
             None \<Rightarrow> (Inl ''could not find Meta data in datastore'', s)
           | Some metaValue \<Rightarrow>
          (case UnpackValue metaValue of
             Inl _ \<Rightarrow> (Inl ''could not unpack Meta value'', s)
           | Inr (metaMsg, metaTag) \<Rightarrow>
          (case CheckTag metaMsg metaTag metaHMACKey of
             Inl _ \<Rightarrow> (Inl ''integrity check failed: Meta struct has been tampered with'', s)
           | Inr _ \<Rightarrow>
          (case DecryptMetaMsg metaMsg metaEncryptKey of
             Inl _ \<Rightarrow> (Inl ''failed to decrypt Meta struct'', s)
           | Inr metaStruct \<Rightarrow>
          (let startoffile = Start metaStruct;
               fileSourceKey = FileSourcekey metaStruct
           in case AddFileToDatabase startoffile fileSourceKey content s of
             (Inl e, s1) \<Rightarrow> (Inl e, s1)
           | (Inr newNextUUID, s1) \<Rightarrow>
          (let metaStruct' = metaStruct\<lparr>Last := newNextUUID\<rparr>
           in case EncryptThenMac (marshalMeta metaStruct') metaEncryptKey metaHMACKey s1 of
             (Inl e, s2) \<Rightarrow> (Inl e, s2)
           | (Inr (metaMsg', metaTag'), s2) \<Rightarrow>
          (case GenerateUUIDVal metaMsg' metaTag' of
             Inl e \<Rightarrow> (Inl e, s2)
           | Inr metaValue' \<Rightarrow> (Inr (), DatastoreSet metaUUID metaValue' s2)))))))))))))
      | None \<Rightarrow>
          (let (fileUUID, s1) = uuid_New s
           in case GetRandomKey userdata s1 of
             (Inl _, s2) \<Rightarrow> (Inl ''failed to get file sourcekey'', s2)
           | (Inr fileSourceKey, s2) \<Rightarrow>
          (case AddFileToDatabase fileUUID fileSourceKey content s2 of
             (Inl _, s3) \<Rightarrow> (Inl ''failed to add file to datastore'', s3)
           | (Inr nextFileUUID, s3) \<Rightarrow>
          (let (metaUUID, s4) = uuid_New s3
           in case GetRandomKey userdata s4 of
             (Inl _, s5) \<Rightarrow> (Inl ''failed to get meta sourcekey'', s5)
           | (Inr metaSourceKey, s5) \<Rightarrow>
          (case GetTwoHASHKDFKeys metaSourceKey ENCRYPT MAC of
             Inl _ \<Rightarrow> (Inl ''failed to get file HDKF'', s5)
           | Inr (metaEncryptKey, metaHMACKey) \<Rightarrow>
          (let metaStruct = \<lparr>Start = fileUUID, Last = nextFileUUID,
                             FileSourcekey = fileSourceKey\<rparr>
           in case EncryptThenMac (marshalMeta metaStruct) metaEncryptKey metaHMACKey s5 of
             (Inl _, s6) \<Rightarrow> (Inl ''failed to package data for entry into DataStore'', s6)
           | (Inr (metaMsg, metaTag), s6) \<Rightarrow>
          (case GenerateUUIDVal metaMsg metaTag of
             Inl e \<Rightarrow> (Inl e, s6)
           | Inr metaValue \<Rightarrow>
          (let s7 = DatastoreSet metaUUID metaValue s6
           in case GetRandomKey userdata s7 of
             (Inl e, s8) \<Rightarrow> (Inl e, s8)
           | (Inr userListKey, s8) \<Rightarrow>
          (let invitationList = \<lparr>Invitations = Some []\<rparr>
           in case GetTwoHASHKDFKeys userListKey ENCRYPT MAC of
             Inl _ \<Rightarrow> (Inl ''panic: crypto/aes: invalid key size 0'', snd (RandomBytes s8))
           | Inr (invitationListEncryptKey, invitationListHMACKey) \<Rightarrow>
          (case EncryptThenMac (marshalInvitationList invitationList)
                  invitationListEncryptKey invitationListHMACKey s8 of
             (Inl e, s9) \<Rightarrow> (Inl e, s9)
           | (Inr (userListMsg, userListTag), s9) \<Rightarrow>
          (case GenerateUUIDVal userListMsg userListTag of
             Inl e \<Rightarrow> (Inl e, s9)
           | Inr inviteListValue \<Rightarrow>
          (let (inviteListUUID, s10) = uuid_New s9;
               s11 = DatastoreSet inviteListUUID inviteListValue s10;
               ownerStruct = \<lparr>Access.MetaUUID = metaUUID, Access.MetaSourcekey = metaSourceKey,
                              Access.InvitationUUID = uuid_Nil,
                              Access.InvitationSourcekey = Raw [],
                              InvitationList = inviteListUUID, ListKey = userListKey,
                              IsOwner = True\<rparr>
           in if \<not> IsOwner ownerStruct then (Inl ''error making struct'', s11)
              else case EncryptThenMacAccess ownerStruct accessEncryptKey accessHMACKey s11 of
             (Inl e, s12) \<Rightarrow> (Inl e, s12)
           | (Inr (ownerMsg, ownerTag), s12) \<Rightarrow>
          (case GenerateUUIDVal ownerMsg ownerTag of
             Inl e \<Rightarrow> (Inl e, s12)
           | Inr ownerValue \<Rightarrow>
               (Inr (), DatastoreSet accessUUID ownerValue s12)))))))))))))))))"

text \<open>
  The loop of \<open>LoadFile\<close> walks the chain of blocks from \<open>currentUUID\<close> until it meets
  \<open>endoffile\<close>. Nothing bounds it (a block may point at itself), so it is a partial function:
  \<open>None\<close> means that the loop runs forever.
\<close>

partial_function (option) loadLoop ::
  "(UUID \<rightharpoonup> bytes) \<Rightarrow> bytes \<Rightarrow> bytes \<Rightarrow> UUID \<Rightarrow> UUID \<Rightarrow> string \<Rightarrow> string result option" where
  "loadLoop ds fileEncryptKey fileHMACKey endoffile currentUUID fullContent =
     (if currentUUID \<noteq> endoffile then
        (case ds currentUUID of
           None \<Rightarrow> Some (Inl ''File data block not found'')
         | Some fileValue \<Rightarrow>
        (case UnpackValue fileValue of
           Inl _ \<Rightarrow> Some (Inl ''file could not be unpacked'')
         | Inr (fileMsg, fileTag) \<Rightarrow>
        (case CheckTag fileMsg fileTag fileHMACKey of
           Inl _ \<Rightarrow> Some (Inl ''integrity check failed: File has unauthorized modifications'')
         | Inr _ \<Rightarrow>
        (case DecryptFileMsg fileMsg fileEncryptKey of
           Inl _ \<Rightarrow> Some (Inl ''File could not be decrypted'')
         | Inr fileStruct \<Rightarrow>
             loadLoop ds fileEncryptKey fileHMACKey endoffile (Next fileStruct)
               (fullContent @ Contents fileStruct)))))
      else Some (Inr fullContent))"

declare loadLoop.simps [code]

definition LoadFile :: "User \<Rightarrow> string \<Rightarrow> world \<Rightarrow> string result option" where
  "LoadFile userdata filename s =
     (case GetAccessUUID userdata filename of
        Inl _ \<Rightarrow> Some (Inl ''failed to get accessUUID'')
      | Inr accessUUID \<Rightarrow>
     (case DatastoreGet accessUUID s of
        None \<Rightarrow> Some (Inl ''file does not exist in user namespace'')
      | Some accessValue \<Rightarrow>
     (case GetAccessKey (sourceKey userdata) filename of
        Inl _ \<Rightarrow> Some (Inl ''failed to get access sourcekey'')
      | Inr accessSourceKey \<Rightarrow>
     (case GetTwoHASHKDFKeys accessSourceKey ENCRYPT MAC of
        Inl _ \<Rightarrow> Some (Inl ''failed to generate encryption and HMAC keys for Access Struct'')
      | Inr (accessEncryptKey, accessHMACKey) \<Rightarrow>
     (case UnpackValue accessValue of
        Inl _ \<Rightarrow> Some (Inl ''failed to unpack Access Struct'')
      | Inr (accessMsg, accessTag) \<Rightarrow>
     (case CheckTag accessMsg accessTag accessHMACKey of
        Inl _ \<Rightarrow> Some (Inl ''integrity check failed: Access Struct has been tampered with'')
      | Inr _ \<Rightarrow>
     (case DecryptAccessMsg accessMsg accessEncryptKey of
        Inl _ \<Rightarrow> Some (Inl ''could not decrypt access message'')
      | Inr accessStruct \<Rightarrow>
     (case GetMetaUUIDAndSourceKey accessStruct s of
        Inl _ \<Rightarrow> Some (Inl ''could not get Meta UUID and soucekey'')
      | Inr (metaUUID, metaSourceKey) \<Rightarrow>
     (case GetTwoHASHKDFKeys metaSourceKey ENCRYPT MAC of
        Inl _ \<Rightarrow> Some (Inl ''could not get Meta encrypt and mac keys'')
      | Inr (metaEncryptKey, metaHMACKey) \<Rightarrow>
     (case DatastoreGet metaUUID s of
        None \<Rightarrow> Some (Inl ''could not find Meta data in datastore'')
      | Some metaValue \<Rightarrow>
     (case UnpackValue metaValue of
        Inl _ \<Rightarrow> Some (Inl ''could not unpack Meta value'')
      | Inr (metaMsg, metaTag) \<Rightarrow>
     (case CheckTag metaMsg metaTag metaHMACKey of
        Inl _ \<Rightarrow> Some (Inl ''integrity check failed: Meta struct has been tampered with'')
      | Inr _ \<Rightarrow>
     (case DecryptMetaMsg metaMsg metaEncryptKey of
        Inl _ \<Rightarrow> Some (Inl ''failed to decrypt Meta struct'')
      | Inr metaStruct \<Rightarrow>
     (let startoffile = Start metaStruct;
          endoffile = Last metaStruct;
          fileSourceKey = FileSourcekey metaStruct
      in case GetTwoHASHKDFKeys fileSourceKey ENCRYPT MAC of
        Inl _ \<Rightarrow> Some (Inl ''failed to get keys for File'')
      | Inr (fileEncryptKey, fileHMACKey) \<Rightarrow>
          loadLoop (datastore s) fileEncryptKey fileHMACKey endoffile startoffile []))))))))))))))"

definition AppendToFile :: "User \<Rightarrow> string \<Rightarrow> string \<Rightarrow> world \<Rightarrow> unit result \<times> world" where
  "AppendToFile userdata filename content s =
     (case GetAccessUUID userdata filename of
        Inl _ \<Rightarrow> (Inl ''failed to get access UUID sourcekey'', s)
      | Inr accessUUID \<Rightarrow>
     (case DatastoreGet accessUUID s of
        None \<Rightarrow> (Inl ''File does not exist in user namespace'', s)
      | Some accessValue \<Rightarrow>
     (case GetAccessKey (sourceKey userdata) filename of
        Inl _ \<Rightarrow> (Inl ''failed to get access sourcekey'', s)
      | Inr accessSourceKey \<Rightarrow>
     (case GetTwoHASHKDFKeys accessSourceKey ENCRYPT MAC of
        Inl _ \<Rightarrow> (Inl ''failed to generate encryption and HMAC keys for Access Struct'', s)
      | Inr (accessEncryptKey, accessHMACKey) \<Rightarrow>
     (case UnpackValue accessValue of
        Inl _ \<Rightarrow> (Inl ''failed to unpack Access Struct'', s)
      | Inr (accessMsg, accessTag) \<Rightarrow>
     (case CheckTag accessMsg accessTag accessHMACKey of
        Inl _ \<Rightarrow> (Inl ''integrity check failed: Access Struct has been tampered with'', s)
      | Inr _ \<Rightarrow>
     (case DecryptAccessMsg accessMsg accessEncryptKey of
        Inl _ \<Rightarrow> (Inl ''could not decrypt Access Struct'', s)
      | Inr accessStruct \<Rightarrow>
     (case GetMetaUUIDAndSourceKey accessStruct s of
        Inl _ \<Rightarrow> (Inl ''could not get Meta UUID and soucekey'', s)
      | Inr (metaUUID, metaSourceKey) \<Rightarrow>
     (case GetTwoHASHKDFKeys metaSourceKey ENCRYPT MAC of
        Inl _ \<Rightarrow> (Inl ''could not get Meta encrypt and mac keys'', s)
      | Inr (metaEncryptKey, metaHMACKey) \<Rightarrow>
     (case DatastoreGet metaUUID s of
        None \<Rightarrow> (Inl ''could not find Meta data in datastore'', s)
      | Some metaValue \<Rightarrow>
     (case UnpackValue metaValue of
        Inl _ \<Rightarrow> (Inl ''could not unpack Meta value'', s)
      | Inr (metaMsg, metaTag) \<Rightarrow>
     (case CheckTag metaMsg metaTag metaHMACKey of
        Inl _ \<Rightarrow> (Inl ''integrity check failed: Meta struct has been tampered with'', s)
      | Inr _ \<Rightarrow>
     (case DecryptMetaMsg metaMsg metaEncryptKey of
        Inl _ \<Rightarrow> (Inl ''failed to decrypt Meta struct'', s)
      | Inr metaStruct \<Rightarrow>
     (let fileSourceKey = FileSourcekey metaStruct;
          lastUUID = Last metaStruct
      in case AddFileToDatabase lastUUID fileSourceKey content s of
        (Inl e, s1) \<Rightarrow> (Inl e, s1)
      | (Inr nextFileUUID, s1) \<Rightarrow>
     (let metaStruct' = metaStruct\<lparr>Last := nextFileUUID\<rparr>
      in case EncryptThenMac (marshalMeta metaStruct') metaEncryptKey metaHMACKey s1 of
        (Inl e, s2) \<Rightarrow> (Inl e, s2)
      | (Inr (metaMsg', metaTag'), s2) \<Rightarrow>
     (case GenerateUUIDVal metaMsg' metaTag' of
        Inl e \<Rightarrow> (Inl e, s2)
      | Inr metaValue' \<Rightarrow> (Inr (), DatastoreSet metaUUID metaValue' s2)))))))))))))))))"

text \<open>
  In \<open>CreateInvitation\<close> the failure of \<open>GetAccessUUID\<close> is stored in \<^verbatim>\<open>err1\<close> but the function
  returns \<^verbatim>\<open>err\<close>, which is still nil there: the caller gets \<^verbatim>\<open>uuid.Nil\<close> and no error.
  The error of \<open>DecryptInvitationListMsg\<close> is dropped; the assignment into the decoded map
  panics when that map is nil.
\<close>

definition CreateInvitation :: "User \<Rightarrow> string \<Rightarrow> string \<Rightarrow> world \<Rightarrow> UUID result \<times> world" where
  "CreateInvitation userdata filename recipientUsername s =
     (case KeystoreGet (recipientUsername @ '' public key'') s of
        None \<Rightarrow> (Inl ''recipient user does not exist in the system'', s)
      | Some _ \<Rightarrow>
     (if recipientUsername = Username userdata
      then (Inl ''user cannot send invitation to themselves'', s)
      else case GetAccessUUID userdata filename of
        Inl _ \<Rightarrow> (Inr uuid_Nil, s)
      | Inr accessUUID \<Rightarrow>
     (case DatastoreGet accessUUID s of
        None \<Rightarrow> (Inl ''file does not exist in user namespace'', s)
      | Some accessValue \<Rightarrow>
     (case GetAccessKey (sourceKey userdata) filename of
        Inl _ \<Rightarrow> (Inl ''failed to get access sourcekey'', s)
      | Inr accessSourceKey \<Rightarrow>
     (case GetTwoHASHKDFKeys accessSourceKey ENCRYPT MAC of
        Inl _ \<Rightarrow> (Inl ''failed to generate encryption and HMAC keys for Access Struct'', s)
      | Inr (accessEncryptKey, accessHMACKey) \<Rightarrow>
     (case UnpackValue accessValue of
        Inl _ \<Rightarrow> (Inl ''failed to unpack Access Struct'', s)
      | Inr (accessMsg, accessTag) \<Rightarrow>
     (case CheckTag accessMsg accessTag accessHMACKey of
        Inl _ \<Rightarrow> (Inl ''integrity check failed: Access Struct has been tampered with'', s)
      | Inr _ \<Rightarrow>
     (case DecryptAccessMsg accessMsg accessEncryptKey of
        Inl _ \<Rightarrow> (Inl ''could not decrypt Access Struct'', s)
      | Inr accessStruct \<Rightarrow>
     (case GetMetaUUIDAndSourceKey accessStruct s of
        Inl _ \<Rightarrow> (Inl ''could not get Meta UUID and soucekey'', s)
      | Inr (metaUUID, metaSourceKey) \<Rightarrow>
     (case GetRandomKey userdata s of
        (Inl _, s1) \<Rightarrow> (Inl ''failed to generate source key'', s1)
      | (Inr invitationSourceKey, s1) \<Rightarrow>
     (case GetTwoHASHKDFKeys invitationSourceKey ENCRYPT MAC of
        Inl _ \<Rightarrow> (Inl ''failed to generate keys for invite'', s1)
      | Inr (inviteEncryptKey, inviteHMACKey) \<Rightarrow>
     (let invitation = \<lparr>Invitation.MetaUUID = metaUUID,
                         Invitation.MetaSourcekey = metaSourceKey\<rparr>
      in case EncryptThenMac (marshalInvitation invitation) inviteEncryptKey inviteHMACKey s1 of
        (Inl _, s2) \<Rightarrow> (Inl ''failed to package data for entry into DataStore'', s2)
      | (Inr (inviteMsg, inviteTag), s2) \<Rightarrow>
     (case GenerateUUIDVal inviteMsg inviteTag of
        Inl e \<Rightarrow> (Inl e, s2)
      | Inr invitationValue \<Rightarrow>
     (case GetInvitationUUID userdata recipientUsername filename of
        Inl e \<Rightarrow> (Inl e, s2)
      | Inr invitationUUID \<Rightarrow>
     (let s3 = DatastoreSet invitationUUID invitationValue s2;
          (invitationMetaUUID, s4) = uuid_New s3;
          invitationMeta = \<lparr>InvitationMeta.InvitationUUID = invitationUUID,
                             InvitationMeta.InvitationSourcekey = invitationSourceKey\<rparr>
      in case EncryptThenSign invitationMeta recipientUsername (Sigkey userdata) s4 of
        Inl e \<Rightarrow> (Inl e, s4)
      | Inr (invitationMetaMsg, invitationMetaSig) \<Rightarrow>
     (case GenerateUUIDVal invitationMetaMsg invitationMetaSig of
        Inl e \<Rightarrow> (Inl e, s4)
      | Inr invitationMetaValue \<Rightarrow>
     (let s5 = DatastoreSet invitationMetaUUID invitationMetaValue s4
      in if IsOwner accessStruct then
        (let inviteListUUID = InvitationList accessStruct;
             inviteListKey = ListKey accessStruct
         in case DatastoreGet inviteListUUID s5 of
           None \<Rightarrow> (Inl ''invalid or missing inviteListData UUID'', s5)
         | Some inviteListData \<Rightarrow>
        (case UnpackValue inviteListData of
           Inl _ \<Rightarrow> (Inl ''failed to unpack invitationList data'', s5)
         | Inr (inviteListMsg, inviteListTag) \<Rightarrow>
        (case GetTwoHASHKDFKeys inviteListKey ENCRYPT MAC of
           Inl e \<Rightarrow> (Inl e, s5)
         | Inr (inviteListEncryptKey, inviteListHMACKey) \<Rightarrow>
        (case CheckTag inviteListMsg inviteListTag inviteListHMACKey of
           Inl _ \<Rightarrow> (Inl ''integrity check failed: invite struct has been tampered with'', s5)
         | Inr _ \<Rightarrow>
        (let invitationListValue =
               (case DecryptInvitationListMsg inviteListMsg inviteListEncryptKey of
                  Inl _ \<Rightarrow> \<lparr>Invitations = None\<rparr>
                | Inr l \<Rightarrow> l)
         in case Invitations invitationListValue of
           None \<Rightarrow> (Inl ''panic: assignment to entry in nil map'', s5)
         | Some entries \<Rightarrow>
        (let invitationListValue' = invitationListValue
               \<lparr>Invitations := Some (AList.update invitationUUID invitationSourceKey entries)\<rparr>
         in case GetTwoHASHKDFKeys inviteListKey ENCRYPT MAC of
           Inl _ \<Rightarrow> (Inl ''panic: crypto/aes: invalid key size 0'', snd (RandomBytes s5))
         | Inr (invitationListEncryptKey, invitationListHMACKey) \<Rightarrow>
        (case EncryptThenMac (marshalInvitationList invitationListValue')
                invitationListEncryptKey invitationListHMACKey s5 of
           (Inl e, s6) \<Rightarrow> (Inl e, s6)
         | (Inr (inviteListMsg', inviteListTag'), s6) \<Rightarrow>
        (case GenerateUUIDVal inviteListMsg' inviteListTag' of
           Inl e \<Rightarrow> (Inl e, s6)
         | Inr inviteListValue \<Rightarrow>
             (Inr invitationMetaUUID, DatastoreSet inviteListUUID inviteListValue s6)))))))))
      else (Inr invitationMetaUUID, s5))))))))))))))))))"

definition AcceptInvitation :: "User \<Rightarrow> string \<Rightarrow> UUID \<Rightarrow> string \<Rightarrow> world \<Rightarrow> unit result \<times> world" where
  "AcceptInvitation userdata senderUsername invitationPtr filename s =
     (case GetAccessUUID userdata filename of
        Inl _ \<Rightarrow> (Inl ''could not get access uuid'', s)
      | Inr accessUUID \<Rightarrow>
     (case DatastoreGet accessUUID s of
        Some _ \<Rightarrow> (Inl ''recipient already has a file with the chosen filename'', s)
      | None \<Rightarrow>
     (case DatastoreGet invitationPtr s of
        None \<Rightarrow> (Inl ''no invitation meta'', s)
      | Some invitationMetaValue \<Rightarrow>
     (case UnpackValue invitationMetaValue of
        Inl _ \<Rightarrow> (Inl ''failed to unpack invitation data'', s)
      | Inr (invitationMetaMsg, invitationMetaSig) \<Rightarrow>
     (case CheckSignature invitationMetaMsg invitationMetaSig senderUsername s of
        Inl _ \<Rightarrow> (Inl ''failed to verify invitation signature'', s)
      | Inr _ \<Rightarrow>
     (case DecryptAsynchMsg invitationMetaMsg (RSAkey userdata) of
        Inl _ \<Rightarrow> (Inl ''failed to decrypt invitation'', s)
      | Inr invitationMetaStruct \<Rightarrow>
     (let invitationUUID = InvitationMeta.InvitationUUID invitationMetaStruct;
          invitationSourceKey = InvitationMeta.InvitationSourcekey invitationMetaStruct
      in case DatastoreGet invitationUUID s of
        None \<Rightarrow> (Inl ''invalid or missing invitation UUID'', s)
      | Some inviteData \<Rightarrow>
     (case UnpackValue inviteData of
        Inl _ \<Rightarrow> (Inl ''failed to unpack invitation data'', s)
      | Inr (inviteMsg, inviteTag) \<Rightarrow>
     (case GetTwoHASHKDFKeys invitationSourceKey ENCRYPT MAC of
        Inl e \<Rightarrow> (Inl e, s)
      | Inr (_, inviteHMACKey) \<Rightarrow>
     (case CheckTag inviteMsg inviteTag inviteHMACKey of
        Inl _ \<Rightarrow> (Inl ''integrity check failed: invite struct has been tampered with'', s)
      | Inr _ \<Rightarrow>
     (let accessStruct = zeroAccess\<lparr>Access.InvitationUUID := invitationUUID,
                                     Access.InvitationSourcekey := invitationSourceKey\<rparr>
      in case GetAccessKey (sourceKey userdata) filename of
        Inl _ \<Rightarrow> (Inl ''access source key cannot be generated'', s)
      | Inr accessSourceKey \<Rightarrow>
     (case GetTwoHASHKDFKeys accessSourceKey ENCRYPT MAC of
        Inl e \<Rightarrow> (Inl e, s)
      | Inr (accessEncKey, accessHMACKey) \<Rightarrow>
     (case EncryptThenMac (marshalAccess accessStruct) accessEncKey accessHMACKey s of
        (Inl _, s1) \<Rightarrow> (Inl ''failed to package data for entry into DataStore'', s1)
      | (Inr (accessMsg, accessTag), s1) \<Rightarrow>
     (case GenerateUUIDVal accessMsg accessTag of
        Inl e \<Rightarrow> (Inl e, s1)
      | Inr accessData \<Rightarrow> (Inr (), DatastoreSet accessUUID accessData s1)))))))))))))))"

text \<open>The loop of \<open>RevokeAccess\<close> over the entries that remain in the invitation list.\<close>

fun rewriteInvitations :: "(UUID \<times> bytes) list \<Rightarrow> UUID \<Rightarrow> bytes \<Rightarrow> world \<Rightarrow> unit result \<times> world" where
  "rewriteInvitations [] metaUUID metaSourceKey s = (Inr (), s)"
| "rewriteInvitations ((invitationUUID, invitationSourceKey) # rest) metaUUID metaSourceKey s =
     (case GetTwoHASHKDFKeys invitationSourceKey ENCRYPT MAC of
        Inl e \<Rightarrow> (Inl e, s)
      | Inr (invitationEncryptKey, invitationHMACKey) \<Rightarrow>
     (let invitationStruct = \<lparr>Invitation.MetaUUID = metaUUID,
                               Invitation.MetaSourcekey = metaSourceKey\<rparr>
      in case EncryptThenMac (marshalInvitation invitationStruct)
                invitationEncryptKey invitationHMACKey s of
        (Inl _, s1) \<Rightarrow> (Inl ''failed to encrypt and mac invitation struct'', s1)
      | (Inr (invitationMsg, invitationTag), s1) \<Rightarrow>
     (case GenerateUUIDVal invitationMsg invitationTag of
        Inl _ \<Rightarrow> (Inl ''failed to get UUID value for invitation'', s1)
      | Inr invitationValue \<Rightarrow>
          rewriteInvitations rest metaUUID metaSourceKey
            (DatastoreSet invitationUUID invitationValue s1))))"

definition RevokeAccess :: "User \<Rightarrow> string \<Rightarrow> string \<Rightarrow> world \<Rightarrow> (unit result \<times> world) option" where
  "RevokeAccess userdata filename recipientUsername s =
     (case GetAccessUUID userdata filename of
        Inl _ \<Rightarrow> Some (Inl ''failed to get access sourcekey'', s)
      | Inr accessUUID \<Rightarrow>
     (case DatastoreGet accessUUID s of
        None \<Rightarrow> Some (Inl ''file does not exist in user namespace'', s)
      | Some accessValue \<Rightarrow>
     (case GetAccessKey (sourceKey userdata) filename of
        Inl _ \<Rightarrow> Some (Inl ''failed to get access sourcekey'', s)
      | Inr accessSourceKey \<Rightarrow>
     (case GetTwoHASHKDFKeys accessSourceKey ENCRYPT MAC of
        Inl _ \<Rightarrow> Some (Inl ''failed to generate encryption and HMAC keys for Access Struct'', s)
      | Inr (accessEncryptKey, accessHMACKey) \<Rightarrow>
     (case UnpackValue accessValue of
        Inl _ \<Rightarrow> Some (Inl ''failed to unpack Access Struct'', s)
      | Inr (accessMsg, accessTag) \<Rightarrow>
     (case CheckTag accessMsg accessTag accessHMACKey of
        Inl _ \<Rightarrow> Some (Inl ''integrity check failed: Access Struct has been tampered with'', s)
      | Inr _ \<Rightarrow>
     (case DecryptAccessMsg accessMsg accessEncryptKey of
        Inl _ \<Rightarrow> Some (Inl ''could not decrypt Access Struct'', s)
      | Inr accessStruct \<Rightarrow>
     (if \<not> IsOwner accessStruct then Some (Inl ''only the owner can revoke access'', s)
      else case GetMetaUUIDAndSourceKey accessStruct s of
        Inl _ \<Rightarrow> Some (Inl ''could not get Meta UUID and soucekey'', s)
      | Inr (metaUUID, metaSourceKey) \<Rightarrow>
     (case GetTwoHASHKDFKeys metaSourceKey ENCRYPT MAC of
        Inl _ \<Rightarrow> Some (Inl ''could not get Meta encrypt and mac keys'', s)
      | Inr (_, metaHMACKey) \<Rightarrow>
     (case DatastoreGet metaUUID s of
        None \<Rightarrow> Some (Inl ''could not find Meta data in datastore'', s)
      | Some metaValue \<Rightarrow>
     (case UnpackValue metaValue of
        Inl _ \<Rightarrow> Some (Inl ''could not unpack Meta value'', s)
      | Inr (metaMsg, metaTag) \<Rightarrow>
     (case CheckTag metaMsg metaTag metaHMACKey of
        Inl _ \<Rightarrow> Some (Inl ''integrity check failed: Meta struct has been tampered with'', s)
      | Inr _ \<Rightarrow>
     (case LoadFile userdata filename s of
        None \<Rightarrow> None
      | Some (Inl _) \<Rightarrow> Some (Inl ''failed to load file contents'', s)
      | Some (Inr content) \<Rightarrow>
     (let (fileUUID, s1) = uuid_New s
      in case GetRandomKey userdata s1 of
        (Inl _, s2) \<Rightarrow> Some (Inl ''failed to get new sourcekey for file'', s2)
      | (Inr fileSourceKey, s2) \<Rightarrow>
     (case AddFileToDatabase fileUUID fileSourceKey content s2 of
        (Inl _, s3) \<Rightarrow> Some (Inl ''failed to add to database'', s3)
      | (Inr nextFileUUID, s3) \<Rightarrow>
     (let metaStruct = \<lparr>Start = fileUUID, Last = nextFileUUID, FileSourcekey = fileSourceKey\<rparr>
      in case GetRandomKey userdata s3 of
        (Inl _, s4) \<Rightarrow> Some (Inl ''failed to get new sourcekey for meta'', s4)
      | (Inr metaSourceKey', s4) \<Rightarrow>
     (case GetTwoHASHKDFKeys metaSourceKey' ENCRYPT MAC of
        Inl e \<Rightarrow> Some (Inl e, s4)
      | Inr (metaEncryptKey, metaHMACKey') \<Rightarrow>
     (case EncryptThenMac (marshalMeta metaStruct) metaEncryptKey metaHMACKey' s4 of
        (Inl e, s5) \<Rightarrow> Some (Inl e, s5)
      | (Inr (metaMsg', metaTag'), s5) \<Rightarrow>
     (case GenerateUUIDVal metaMsg' metaTag' of
        Inl e \<Rightarrow> Some (Inl e, s5)
      | Inr metaValue' \<Rightarrow>
     (let s6 = DatastoreSet metaUUID metaValue' s5;
          invitationListUUID = InvitationList accessStruct;
          invitationListKey = ListKey accessStruct
      in case GetTwoHASHKDFKeys invitationListKey ENCRYPT MAC of
        Inl e \<Rightarrow> Some (Inl e, s6)
      | Inr (invitationListEncryptKey, invitationListHMACKey) \<Rightarrow>
     (case DatastoreGet invitationListUUID s6 of
        None \<Rightarrow> Some (Inl ''failed to get invitation list from Datastore'', s6)
      | Some invitationListValue \<Rightarrow>
     (case UnpackValue invitationListValue of
        Inl _ \<Rightarrow> Some (Inl ''failed to unpack invitation list'', s6)
      | Inr (invitationListMsg, invitationListTag) \<Rightarrow>
     (case CheckTag invitationListMsg invitationListTag invitationListHMACKey of
        Inl _ \<Rightarrow> Some (Inl ''integrity check failed: detected unauthorized modifications'', s6)
      | Inr _ \<Rightarrow>
     (case DecryptInvitationListMsg invitationListMsg invitationListEncryptKey of
        Inl _ \<Rightarrow> Some (Inl ''failed to decrypt invitation list struct'', s6)
      | Inr invitationListStruct \<Rightarrow>
     (case GetInvitationUUID userdata recipientUsername filename of
        Inl _ \<Rightarrow> Some (Inl ''error getting invitation uuid for recipient'', s6)
      | Inr recipientInvitationUUID \<Rightarrow>
     (let exists = (case Invitations invitationListStruct of
                      None \<Rightarrow> False
                    | Some entries \<Rightarrow> map_of entries recipientInvitationUUID \<noteq> None)
      in if \<not> exists then Some (Inl ''filename was not shared with recipientUsername'', s6)
      else
     (let invitations = map_option (AList.delete recipientInvitationUUID)
                          (Invitations invitationListStruct)
      in case rewriteInvitations (case invitations of None \<Rightarrow> [] | Some entries \<Rightarrow> entries)
                metaUUID metaSourceKey' s6 of
        (Inl e, s7) \<Rightarrow> Some (Inl e, s7)
      | (Inr _, s7) \<Rightarrow>
     (let invitationListStruct' = invitationListStruct\<lparr>Invitations := invitations\<rparr>
      in case EncryptThenMac (marshalInvitationList invitationListStruct')
                invitationListEncryptKey invitationListHMACKey s7 of
        (Inl _, s8) \<Rightarrow>
          Some (Inl ''failed to encrypt then mac updated invitation list struct'', s8)
      | (Inr (invitationListMsg', invitationListTag'), s8) \<Rightarrow>
     (case GenerateUUIDVal invitationListMsg' invitationListTag' of
        Inl _ \<Rightarrow>
          Some (Inl ''failed to generate then mac updated invitation list UUID value'', s8)
      | Inr invitationListValue' \<Rightarrow>
     (let s9 = DatastoreSet invitationListUUID invitationListValue' s8;
          accessStruct' = accessStruct\<lparr>Access.MetaSourcekey := metaSourceKey'\<rparr>
      in case EncryptThenMac (marshalAccess accessStruct') accessEncryptKey accessHMACKey s9 of
        (Inl _, s10) \<Rightarrow> Some (Inl ''failed to encrypt and mac new owner struct'', s10)
      | (Inr (accessMsg', accessTag'), s10) \<Rightarrow>
     (case GenerateUUIDVal accessMsg' accessTag' of
        Inl _ \<Rightarrow> Some (Inl ''failed to get UUID value for owner'', s10)
      | Inr updatedOwnerValue \<Rightarrow>
          Some (Inr (), DatastoreSet accessUUID updatedOwnerValue s10)
     )))))))))))))))))))))))))))))))"

section \<open>The initial state\<close>

text \<open>Both stores empty (\<^verbatim>\<open>DatastoreClear\<close>, \<^verbatim>\<open>KeystoreClear\<close>) and no random draw made yet.\<close>

definition emptyWorld :: world where
  "emptyWorld = \<lparr>datastore = Map.empty, keystore = Map.empty, rng = 0\<rparr>"


section \<open>Sealed blobs, access resolution and the states of a session\<close>

definition sealed :: "bytes \<Rightarrow> bytes \<Rightarrow> bytes \<Rightarrow> bytes" where
  "sealed sourcekey iv plaintext =
     JEnvelope (Ciphertext (Hkdf sourcekey (Raw ''encrypt'')) iv plaintext)
       (Tag (Hkdf sourcekey (Raw ''mac''))
          (Ciphertext (Hkdf sourcekey (Raw ''encrypt'')) iv plaintext))"

definition opens :: "bytes option \<Rightarrow> bytes \<Rightarrow> bytes option" where
  "opens blob sourcekey =
     (case blob of
        None \<Rightarrow> None
      | Some v \<Rightarrow>
     (case UnpackValue v of
        Inl _ \<Rightarrow> None
      | Inr (msg, tag) \<Rightarrow>
     (case GetTwoHASHKDFKeys sourcekey ENCRYPT MAC of
        Inl _ \<Rightarrow> None
      | Inr (encryptKey, hmacKey) \<Rightarrow>
     (case CheckTag msg tag hmacKey of
        Inl _ \<Rightarrow> None
      | Inr _ \<Rightarrow> SymDec encryptKey msg))))"

definition resolve :: "User \<Rightarrow> string \<Rightarrow> world \<Rightarrow> (Access \<times> UUID \<times> bytes \<times> Meta) option" where
  "resolve userdata filename s =
     (case GetAccessUUID userdata filename of
        Inl _ \<Rightarrow> None
      | Inr accessUUID \<Rightarrow>
     (case GetAccessKey (sourceKey userdata) filename of
        Inl _ \<Rightarrow> None
      | Inr accessSourceKey \<Rightarrow>
     (case opens (datastore s accessUUID) accessSourceKey of
        None \<Rightarrow> None
      | Some accessPlain \<Rightarrow>
     (case unmarshalAccess accessPlain of
        Inl _ \<Rightarrow> None
      | Inr accessStruct \<Rightarrow>
     (case GetMetaUUIDAndSourceKey accessStruct s of
        Inl _ \<Rightarrow> None
      | Inr (metaUUID, metaSourceKey) \<Rightarrow>
     (case opens (datastore s metaUUID) metaSourceKey of
        None \<Rightarrow> None
      | Some metaPlain \<Rightarrow>
     (case unmarshalMeta metaPlain of
        Inl _ \<Rightarrow> None
      | Inr metaStruct \<Rightarrow> Some (accessStruct, metaUUID, metaSourceKey, metaStruct))))))))"

definition fresh :: "world \<Rightarrow> UUID \<Rightarrow> bool" where
  "fresh s x = (case x of Rand j \<Rightarrow> j < rng s | _ \<Rightarrow> True)"

definition wellFormedFile :: "world \<Rightarrow> User \<Rightarrow> string \<Rightarrow> bool" where
  "wellFormedFile s userdata filename =
     (case resolve userdata filename s of
        None \<Rightarrow> False
      | Some (a, m, k, meta) \<Rightarrow>
          len16 (FileSourcekey meta) \<and>
          m \<noteq> Start meta \<and> m \<noteq> Last meta \<and>
          fresh s m \<and> fresh s (Start meta) \<and> fresh s (Last meta) \<and>
          Hkdf (sourceKey userdata) (Raw filename) \<notin> {m, Start meta, Last meta} \<and>
          (IsOwner a \<or>
             (Access.InvitationUUID a \<notin> {m, Start meta, Last meta} \<and>
              fresh s (Access.InvitationUUID a))))"

definition loopState :: "(UUID \<times> bytes) list \<Rightarrow> UUID \<Rightarrow> bytes \<Rightarrow> world \<Rightarrow> world" where
  "loopState es m k s = snd (rewriteInvitations es m k s)"

definition rekeyed :: "User \<Rightarrow> UUID \<Rightarrow> string \<Rightarrow> world \<Rightarrow> world" where
  "rekeyed u m c s =
     s\<lparr>rng := rng s + 6,
       datastore := (datastore s)
         (Rand (rng s) \<mapsto> sealed (Hkdf (sourceKey u) (Rand (rng s + 1))) (Rand (rng s + 3))
              (JFile c (Rand (rng s + 2))),
          m \<mapsto> sealed (Hkdf (sourceKey u) (Rand (rng s + 4))) (Rand (rng s + 5))
              (JMeta (Rand (rng s)) (Rand (rng s + 2)) (Hkdf (sourceKey u) (Rand (rng s + 1)))))\<rparr>"

definition alice :: User where
  "alice = \<lparr>Username = ''alice'', RSAkey = PKEDecKey 0, Sigkey = DSSignKey 1,
             sourceKey = Argon2 (Raw ''password'') (Raw ''alice'')\<rparr>"

definition bob :: User where
  "bob = \<lparr>Username = ''bob'', RSAkey = PKEDecKey 3, Sigkey = DSSignKey 4,
           sourceKey = Argon2 (Raw ''password'') (Raw ''bob'')\<rparr>"

definition charles :: User where
  "charles = \<lparr>Username = ''charles'', RSAkey = PKEDecKey 6, Sigkey = DSSignKey 7,
               sourceKey = Argon2 (Raw ''password'') (Raw ''charles'')\<rparr>"

definition w1 :: world where "w1 = snd (InitUser ''alice'' ''password'' emptyWorld)"

definition w2 :: world where "w2 = snd (InitUser ''bob'' ''password'' w1)"

definition w3 :: world where "w3 = snd (InitUser ''charles'' ''password'' w2)"

definition w4 :: world where "w4 = snd (StoreFile alice ''a'' ''hello'' w3)"

definition w5 :: world where "w5 = snd (CreateInvitation alice ''a'' ''bob'' w4)"

definition w6 :: world where "w6 = snd (AcceptInvitation bob ''alice'' (Rand 22) ''b'' w5)"

definition w7 :: world where "w7 = snd (CreateInvitation alice ''a'' ''charles'' w6)"

definition w8 :: world where "w8 = snd (AcceptInvitation charles ''alice'' (Rand 27) ''c'' w7)"

definition w9 :: world where "w9 = snd (the (RevokeAccess alice ''a'' ''bob'' w8))"

abbreviation "skA \<equiv> Argon2 (Raw ''password'') (Raw ''alice'')"

abbreviation "skB \<equiv> Argon2 (Raw ''password'') (Raw ''bob'')"

abbreviation "skC \<equiv> Argon2 (Raw ''password'') (Raw ''charles'')"

abbreviation "accA \<equiv> \<lparr>Access.MetaUUID = Rand 13, Access.MetaSourcekey = Hkdf skA (Rand 14),
   Access.InvitationUUID = uuid_Nil, Access.InvitationSourcekey = Raw [],
   InvitationList = Rand 18, ListKey = Hkdf skA (Rand 16), IsOwner = True\<rparr>"

abbreviation "invB \<equiv> Hkdf skA (Raw ''aliceabob'')"

abbreviation "invC \<equiv> Hkdf skA (Raw ''aliceacharles'')"

abbreviation "pointer pk sg i ik \<equiv>
   JEnvelope (PKECiphertext pk (JInvitationMeta i ik)) (Signature sg (PKECiphertext pk (JInvitationMeta i ik)))"

abbreviation "accB \<equiv> \<lparr>Access.MetaUUID = uuid_Nil, Access.MetaSourcekey = Raw [],
   Access.InvitationUUID = invB, Access.InvitationSourcekey = Hkdf skA (Rand 20),
   InvitationList = uuid_Nil, ListKey = Raw [], IsOwner = False\<rparr>"

abbreviation "accC \<equiv> \<lparr>Access.MetaUUID = uuid_Nil, Access.MetaSourcekey = Raw [],
   Access.InvitationUUID = invC, Access.InvitationSourcekey = Hkdf skA (Rand 25),
   InvitationList = uuid_Nil, ListKey = Raw [], IsOwner = False\<rparr>"

abbreviation "metaA \<equiv> \<lparr>Start = Rand 9, Last = Rand 11, FileSourcekey = Hkdf skA (Rand 10)\<rparr>"


definition w10 :: world where "w10 = snd (the (RevokeAccess alice ''a'' ''dave'' w8))"


section \<open>Symbolic execution of the operations\<close>

lemmas prim_defs = GetUserUUID_def uuid_FromBytes_def Argon2Key_def DatastoreGet_def GetSourceKey_def
  GetAsynchKeys_def PKEKeyGen_def DSKeyGen_def GetTwoHASHKDFKeys_def HashKDF_def KeystoreSet_def
  KeystoreGet_def EncryptThenMac_def EncryptThenMacAccess_def RandomBytes_def uuid_New_def
  SymEnc_def HMACEval_def HMACEqual_def GenerateUUIDVal_def DatastoreSet_def ENCRYPT_def MAC_def
  LENGTH_def CheckTag_def GetAccessUUID_def GetAccessKey_def GetRandomKey_def
  GetInvitationUUID_def

lemmas utf8_defs = toValidUTF8_def DecodeRuneInString_def firstByte_def between_def Let_def

lemma toValidUTF8_names [simp]:
  "toValidUTF8 ''alice'' = ''alice''" "toValidUTF8 ''bob'' = ''bob''"
  "toValidUTF8 ''charles'' = ''charles''"
  by (simp_all add: utf8_defs)


lemma toValidUTF8_ascii: "\<forall>c \<in> set u. of_char c < (128::nat) \<Longrightarrow> toValidUTF8 u = u"
  unfolding toValidUTF8_def
  by (induction u) (simp_all add: DecodeRuneInString_def firstByte_def)

lemma InitUser_new:
  assumes "username \<noteq> []" and "datastore s (Argon2 (Raw username) (Raw ''UUID'')) = None"
  shows "InitUser username password s =
     (Inr \<lparr>Username = username, RSAkey = PKEDecKey (rng s), Sigkey = DSSignKey (rng s + 1),
           sourceKey = Argon2 (Raw password) (Raw username)\<rparr>,
      (KeystoreSet (username @ '' signature key'') (DSVerifyKey (rng s + 1))
        (KeystoreSet (username @ '' public key'') (PKEEncKey (rng s)) s))
       \<lparr>rng := rng s + 3,
         datastore := (datastore s)(Argon2 (Raw username) (Raw ''UUID'') \<mapsto>
            JEnvelope (Ciphertext (Hkdf (Argon2 (Raw password) (Raw username)) (Raw ''encrypt''))
                         (Rand (rng s + 2))
                         (JUser (toValidUTF8 username) (PKEDecKey (rng s)) (DSSignKey (rng s + 1))))
              (Tag (Hkdf (Argon2 (Raw password) (Raw username)) (Raw ''mac''))
                 (Ciphertext (Hkdf (Argon2 (Raw password) (Raw username)) (Raw ''encrypt''))
                    (Rand (rng s + 2))
                    (JUser (toValidUTF8 username) (PKEDecKey (rng s)) (DSSignKey (rng s + 1))))))\<rparr>)"
  using assms
  by (simp add: InitUser_def prim_defs marshalUser_def Let_def add.commute split: option.splits)

lemma UnpackValue_Inr:
  "UnpackValue v = Inr (m, t) \<longleftrightarrow>
     v = JEnvelope m t \<or> (v = JInvitationList None \<and> m = Raw [] \<and> t = Raw [])"
  by (cases v rule: UnpackValue.cases) auto

lemma SymDec_Some: "SymDec k c = Some p \<longleftrightarrow> (\<exists>iv. c = Ciphertext k iv p)"
  by (cases c) auto

lemma unmarshalUser_Inr:
  "unmarshalUser d = Inr u \<Longrightarrow> Username u \<noteq> [] \<Longrightarrow>
     d = JUser (Username u) (RSAkey u) (Sigkey u) \<and> sourceKey u = Raw []"
  by (cases d) (auto simp: zeroUser_def split: if_splits)

lemma GetUser_Inr_iff:
  "GetUser username password s = Inr userdata \<longleftrightarrow>
     username \<noteq> [] \<and>
     (\<exists>iv. datastore s (Argon2 (Raw username) (Raw ''UUID'')) =
        Some (JEnvelope
          (Ciphertext (Hkdf (Argon2 (Raw password) (Raw username)) (Raw ''encrypt'')) iv
             (JUser username (RSAkey userdata) (Sigkey userdata)))
          (Tag (Hkdf (Argon2 (Raw password) (Raw username)) (Raw ''mac''))
             (Ciphertext (Hkdf (Argon2 (Raw password) (Raw username)) (Raw ''encrypt'')) iv
                (JUser username (RSAkey userdata) (Sigkey userdata)))))) \<and>
     Username userdata = username \<and> sourceKey userdata = Argon2 (Raw password) (Raw username)"
  (is "?L \<longleftrightarrow> ?R")
proof
  assume ?L
  then show ?R
    apply (simp add: GetUser_def prim_defs Let_def split: if_splits option.splits sum.splits prod.splits)
    apply (auto simp: UnpackValue_Inr SymDec_Some dest!: unmarshalUser_Inr)
    done
next
  assume ?R
  then show ?L
    by (cases userdata) (auto simp add: GetUser_def prim_defs Let_def zeroUser_def)
qed



lemma opens_Some_iff:
  "opens blob k = Some p \<longleftrightarrow> len16 k \<and> (\<exists>iv. blob = Some (sealed k iv p))"
  by (auto simp add: opens_def sealed_def prim_defs UnpackValue_Inr SymDec_Some
        split: option.splits sum.splits prod.splits if_splits)

lemma opens_sealed [simp]: "opens (Some (sealed k iv p)) k' = (if len16 k' \<and> k' = k then Some p else None)"
  by (auto simp add: opens_def sealed_def prim_defs)

lemma AppendToFile_unresolved:
  "resolve userdata filename s = None \<Longrightarrow> \<exists>e. AppendToFile userdata filename content s = (Inl e, s)"
  by (auto simp add: AppendToFile_def resolve_def opens_def DatastoreGet_def
       DecryptAccessMsg_def DecryptMetaMsg_def GetAccessKey_def GetAccessUUID_def HashKDF_def GetTwoHASHKDFKeys_def ENCRYPT_def MAC_def uuid_FromBytes_def
       split: option.splits sum.splits prod.splits if_splits)

lemma AppendToFile_resolved:
  assumes "resolve userdata filename s = Some (a, m, k, meta)" and "len16 (FileSourcekey meta)"
  shows "AppendToFile userdata filename content s =
     (Inr (), s\<lparr>rng := rng s + 3,
         datastore := (datastore s)
           (Last meta \<mapsto> sealed (FileSourcekey meta) (Rand (rng s + 1)) (JFile content (Rand (rng s))),
            m \<mapsto> sealed k (Rand (rng s + 2)) (JMeta (Start meta) (Rand (rng s)) (FileSourcekey meta)))\<rparr>)"
  using assms
  by (auto simp add: AppendToFile_def resolve_def opens_def DatastoreGet_def AddFileToDatabase_def
       DecryptAccessMsg_def DecryptMetaMsg_def prim_defs sealed_def marshalMeta_def marshalFile_def Let_def add.commute
       split: option.splits sum.splits prod.splits if_splits)

lemmas api_defs = DatastoreGet_def AddFileToDatabase_def DecryptAccessMsg_def DecryptMetaMsg_def
  DecryptFileMsg_def DecryptInvitationMsg_def DecryptInvitationListMsg_def
  marshalMeta_def marshalFile_def marshalAccess_def marshalInvitation_def
  marshalInvitationList_def marshalInvitationMeta_def Let_def

lemma StoreFile_new:
  assumes "len16 (sourceKey userdata)"
    and "datastore s (Hkdf (sourceKey userdata) (Raw filename)) = None"
  shows "StoreFile userdata filename content s =
     (Inr (), s\<lparr>rng := rng s + 11,
         datastore := (datastore s)
           (Rand (rng s) \<mapsto> sealed (Hkdf (sourceKey userdata) (Rand (rng s + 1))) (Rand (rng s + 3))
                (JFile content (Rand (rng s + 2))),
            Rand (rng s + 4) \<mapsto> sealed (Hkdf (sourceKey userdata) (Rand (rng s + 5))) (Rand (rng s + 6))
                (JMeta (Rand (rng s)) (Rand (rng s + 2)) (Hkdf (sourceKey userdata) (Rand (rng s + 1)))),
            Rand (rng s + 9) \<mapsto> sealed (Hkdf (sourceKey userdata) (Rand (rng s + 7))) (Rand (rng s + 8))
                (JInvitationList (Some [])),
            Hkdf (sourceKey userdata) (Raw filename) \<mapsto>
              sealed (Hkdf (sourceKey userdata) (Raw filename)) (Rand (rng s + 10))
                (JAccess (Rand (rng s + 4)) (Hkdf (sourceKey userdata) (Rand (rng s + 5))) uuid_Nil (Raw [])
                   (Rand (rng s + 9)) (Hkdf (sourceKey userdata) (Rand (rng s + 7))) True))\<rparr>)"
  using assms
  by (simp add: StoreFile_def prim_defs api_defs sealed_def add.commute)

lemma StoreFile_unresolved:
  "datastore s (Hkdf (sourceKey userdata) (Raw filename)) \<noteq> None \<Longrightarrow> resolve userdata filename s = None
     \<Longrightarrow> \<exists>e. StoreFile userdata filename content s = (Inl e, s)"
  by (auto simp add: StoreFile_def resolve_def opens_def DatastoreGet_def
       DecryptAccessMsg_def DecryptMetaMsg_def GetAccessKey_def GetAccessUUID_def HashKDF_def
       GetTwoHASHKDFKeys_def ENCRYPT_def MAC_def uuid_FromBytes_def
       split: option.splits sum.splits prod.splits if_splits)

lemma StoreFile_resolved:
  assumes "resolve userdata filename s = Some (a, m, k, meta)" and "len16 (FileSourcekey meta)"
  shows "StoreFile userdata filename content s =
     (Inr (), s\<lparr>rng := rng s + 3,
         datastore := (datastore s)
           (Start meta \<mapsto> sealed (FileSourcekey meta) (Rand (rng s + 1)) (JFile content (Rand (rng s))),
            m \<mapsto> sealed k (Rand (rng s + 2)) (JMeta (Start meta) (Rand (rng s)) (FileSourcekey meta)))\<rparr>)"
  using assms
  by (auto simp add: StoreFile_def resolve_def opens_def prim_defs api_defs sealed_def add.commute
       split: option.splits sum.splits prod.splits if_splits)

lemma LoadFile_unresolved:
  "resolve userdata filename s = None \<Longrightarrow> \<exists>e. LoadFile userdata filename s = Some (Inl e)"
  by (auto simp add: LoadFile_def resolve_def opens_def DatastoreGet_def
       DecryptAccessMsg_def DecryptMetaMsg_def GetAccessKey_def GetAccessUUID_def HashKDF_def
       GetTwoHASHKDFKeys_def ENCRYPT_def MAC_def uuid_FromBytes_def
       split: option.splits sum.splits prod.splits if_splits)

lemma LoadFile_resolved:
  assumes "resolve userdata filename s = Some (a, m, k, meta)" and "len16 (FileSourcekey meta)"
  shows "LoadFile userdata filename s =
     loadLoop (datastore s) (Hkdf (FileSourcekey meta) (Raw ''encrypt''))
       (Hkdf (FileSourcekey meta) (Raw ''mac'')) (Last meta) (Start meta) []"
  using assms
  by (auto simp add: LoadFile_def resolve_def opens_def prim_defs api_defs
       split: option.splits sum.splits prod.splits if_splits)

lemma loadLoop_end:
  "loadLoop ds ek hk endoffile endoffile acc = Some (Inr acc)"
  by (simp add: loadLoop.simps)

lemma loadLoop_step:
  assumes "cur \<noteq> endoffile" and "ds cur = Some (sealed fk iv (JFile c nxt))" and "len16 fk"
  shows "loadLoop ds (Hkdf fk (Raw ''encrypt'')) (Hkdf fk (Raw ''mac'')) endoffile cur acc =
         loadLoop ds (Hkdf fk (Raw ''encrypt'')) (Hkdf fk (Raw ''mac'')) endoffile nxt (acc @ c)"
  using assms
  by (subst loadLoop.simps) (simp add: sealed_def prim_defs api_defs)

lemma fresh_Rand [simp]: "fresh s (Rand j) \<longleftrightarrow> j < rng s"
  by (simp add: fresh_def)

lemma fresh_neq: "fresh s x \<Longrightarrow> rng s \<le> j \<Longrightarrow> x \<noteq> Rand j"
  by (auto simp add: fresh_def)

lemma GetMeta_frame:
  "IsOwner a \<or> datastore t (Access.InvitationUUID a) = datastore s (Access.InvitationUUID a)
     \<Longrightarrow> GetMetaUUIDAndSourceKey a t = GetMetaUUIDAndSourceKey a s"
  by (auto simp add: GetMetaUUIDAndSourceKey_def DatastoreGet_def Let_def
        split: sum.splits prod.splits)

lemma resolve_frame:
  assumes "datastore t (Hkdf (sourceKey u) (Raw f)) = datastore s (Hkdf (sourceKey u) (Raw f))"
    and "resolve u f s = Some (a, m, k, meta)"
    and "IsOwner a \<or> datastore t (Access.InvitationUUID a) = datastore s (Access.InvitationUUID a)"
    and "datastore t m = datastore s m"
  shows "resolve u f t = Some (a, m, k, meta)"
proof -
  have g: "\<And>a'. a' = a \<Longrightarrow> GetMetaUUIDAndSourceKey a' t = GetMetaUUIDAndSourceKey a' s"
    using assms(3) by (simp add: GetMeta_frame)
  show ?thesis
    using assms(1,2,4)
    by (auto simp add: resolve_def GetAccessUUID_def HashKDF_def uuid_FromBytes_def g
          split: option.splits sum.splits prod.splits if_splits)
qed

lemma resolve_meta_rewritten:
  assumes "datastore t (Hkdf (sourceKey u) (Raw f)) = datastore s (Hkdf (sourceKey u) (Raw f))"
    and "resolve u f s = Some (a, m, k, meta)"
    and "IsOwner a \<or> datastore t (Access.InvitationUUID a) = datastore s (Access.InvitationUUID a)"
    and "datastore t m = Some (sealed k iv (JMeta st la fk))"
  shows "resolve u f t = Some (a, m, k, \<lparr>Start = st, Last = la, FileSourcekey = fk\<rparr>)"
proof -
  have g: "\<And>a'. a' = a \<Longrightarrow> GetMetaUUIDAndSourceKey a' t = GetMetaUUIDAndSourceKey a' s"
    using assms(3) by (simp add: GetMeta_frame)
  have k: "len16 k"
    using assms(2)
    by (auto simp add: resolve_def opens_Some_iff split: option.splits sum.splits prod.splits)
  show ?thesis
    using assms(1,2,4) k
    by (auto simp add: resolve_def GetAccessUUID_def HashKDF_def uuid_FromBytes_def g
          split: option.splits sum.splits prod.splits if_splits)
qed

lemma resolve_same_meta:
  "resolve u f s = Some (a, m, k, meta) \<Longrightarrow> resolve x g s = Some (ax, m, k, metax) \<Longrightarrow> metax = meta"
  by (auto simp add: resolve_def split: option.splits sum.splits prod.splits)

lemma wellFormedFileI:
  assumes "resolve u f s = Some (a, m, k, meta)" "len16 (FileSourcekey meta)"
    "m \<noteq> Start meta" "m \<noteq> Last meta" "fresh s m" "fresh s (Start meta)" "fresh s (Last meta)"
    "Hkdf (sourceKey u) (Raw f) \<notin> {m, Start meta, Last meta}"
    "IsOwner a \<or> (Access.InvitationUUID a \<notin> {m, Start meta, Last meta} \<and>
              fresh s (Access.InvitationUUID a))"
  shows "wellFormedFile s u f"
  using assms by (simp add: wellFormedFile_def)

lemma wellFormedFileD:
  assumes "wellFormedFile s u f" "resolve u f s = Some (a, m, k, meta)"
  shows "len16 (FileSourcekey meta)"
    "m \<noteq> Start meta" "m \<noteq> Last meta" "fresh s m" "fresh s (Start meta)" "fresh s (Last meta)"
    "Hkdf (sourceKey u) (Raw f) \<noteq> m" "Hkdf (sourceKey u) (Raw f) \<noteq> Start meta"
    "Hkdf (sourceKey u) (Raw f) \<noteq> Last meta"
    "IsOwner a \<or> (Access.InvitationUUID a \<noteq> m \<and> Access.InvitationUUID a \<noteq> Start meta \<and>
        Access.InvitationUUID a \<noteq> Last meta \<and> fresh s (Access.InvitationUUID a))"
  using assms by (auto simp add: wellFormedFile_def)

lemma fresh_mono: "fresh s x \<Longrightarrow> rng s \<le> rng t \<Longrightarrow> fresh t x"
  by (auto simp add: fresh_def split: bytes.splits)

text \<open>a write of one block at \<open>b\<close> and of the metadata at \<open>m\<close>, seen by a reader\<close>

lemma reader_after_write:
  assumes r: "resolve x g s = Some (ax, m, k, meta)" and w: "wellFormedFile s x g"
    and t: "datastore t = (datastore s)(b \<mapsto> blk, m \<mapsto> sealed k iv (JMeta (Start meta) (Rand (rng s)) (FileSourcekey meta)))"
    and b: "b = Start meta \<or> b = Last meta"
    and n: "rng s < rng t"
  shows "resolve x g t = Some (ax, m, k, meta\<lparr>Last := Rand (rng s)\<rparr>)"
    and "wellFormedFile t x g"
proof -
  note d = wellFormedFileD [OF w r]
  have acc: "datastore t (Hkdf (sourceKey x) (Raw g)) = datastore s (Hkdf (sourceKey x) (Raw g))"
    using d b by (auto simp add: t)
  have inv: "IsOwner ax \<or>
      datastore t (Access.InvitationUUID ax) = datastore s (Access.InvitationUUID ax)"
    using d b by (auto simp add: t)
  have m: "datastore t m = Some (sealed k iv (JMeta (Start meta) (Rand (rng s)) (FileSourcekey meta)))"
    by (simp add: t)
  have "resolve x g t = Some (ax, m, k,
      \<lparr>Start = Start meta, Last = Rand (rng s), FileSourcekey = FileSourcekey meta\<rparr>)"
    by (rule resolve_meta_rewritten [OF acc r inv m])
  then show res: "resolve x g t = Some (ax, m, k, meta\<lparr>Last := Rand (rng s)\<rparr>)"
    by (cases meta) simp
  show "wellFormedFile t x g"
    apply (rule wellFormedFileI [OF res])
    using d n by (auto intro: fresh_mono dest: fresh_neq [where j = "rng s"])
qed

lemma store_append_append_load:
  assumes ru: "resolve u f s = Some (a, m, k, meta)" and wu: "wellFormedFile s u f"
    and rx: "resolve x g s = Some (ax, m, k, meta)" and wx: "wellFormedFile s x g"
  shows "\<exists>s1 s2 s3. StoreFile u f c1 s = (Inr (), s1) \<and> AppendToFile u f c2 s1 = (Inr (), s2) \<and>
           AppendToFile u f c3 s2 = (Inr (), s3) \<and> LoadFile x g s3 = Some (Inr (c1 @ c2 @ c3))"
proof -
  note d = wellFormedFileD [OF wu ru]
  let ?fk = "FileSourcekey meta"
  let ?n = "rng s"
  let ?M = "\<lambda>i j. sealed k (Rand i) (JMeta (Start meta) (Rand j) ?fk)"
  let ?B = "\<lambda>i c j. sealed ?fk (Rand i) (JFile c (Rand j))"
  define s1 where "s1 = s\<lparr>rng := ?n + 3,
     datastore := (datastore s)(Start meta \<mapsto> ?B (?n + 1) c1 ?n, m \<mapsto> ?M (?n + 2) ?n)\<rparr>"
  define s2 where "s2 = s1\<lparr>rng := ?n + 6,
     datastore := (datastore s1)(Rand ?n \<mapsto> ?B (?n + 4) c2 (?n + 3), m \<mapsto> ?M (?n + 5) (?n + 3))\<rparr>"
  define s3 where "s3 = s2\<lparr>rng := ?n + 9,
     datastore := (datastore s2)(Rand (?n + 3) \<mapsto> ?B (?n + 7) c3 (?n + 6), m \<mapsto> ?M (?n + 8) (?n + 6))\<rparr>"
  let ?meta1 = "meta\<lparr>Last := Rand ?n\<rparr>"
  let ?meta2 = "?meta1\<lparr>Last := Rand (?n + 3)\<rparr>"
  let ?meta3 = "?meta2\<lparr>Last := Rand (?n + 6)\<rparr>"
  have st1: "StoreFile u f c1 s = (Inr (), s1)"
    by (simp add: StoreFile_resolved [OF ru d(1)] s1_def)
  have t1: "datastore s1 = (datastore s)(Start meta \<mapsto> ?B (?n + 1) c1 ?n, m \<mapsto> ?M (?n + 2) ?n)"
    and n1: "rng s1 = ?n + 3" by (simp_all add: s1_def)
  have ru1: "resolve u f s1 = Some (a, m, k, ?meta1)" and wu1: "wellFormedFile s1 u f"
    using reader_after_write [OF ru wu t1] n1 by simp_all
  have rx1: "resolve x g s1 = Some (ax, m, k, ?meta1)" and wx1: "wellFormedFile s1 x g"
    using reader_after_write [OF rx wx t1] n1 by simp_all
  have st2: "AppendToFile u f c2 s1 = (Inr (), s2)"
    using AppendToFile_resolved [OF ru1, of c2] d(1) by (simp add: s2_def n1 add.commute)
  have t2: "datastore s2 = (datastore s1)(Rand (rng s1 - 3) \<mapsto> ?B (?n + 4) c2 (?n + 3),
       m \<mapsto> sealed k (Rand (?n + 5)) (JMeta (Start ?meta1) (Rand (rng s1)) (FileSourcekey ?meta1)))"
    and n2: "rng s2 = ?n + 6" by (simp_all add: s2_def n1 add.commute)
  have ru2: "resolve u f s2 = Some (a, m, k, ?meta2)" and wu2: "wellFormedFile s2 u f"
    using reader_after_write [OF ru1 wu1 t2] n1 n2 by simp_all
  have rx2: "resolve x g s2 = Some (ax, m, k, ?meta2)" and wx2: "wellFormedFile s2 x g"
    using reader_after_write [OF rx1 wx1 t2] n1 n2 by simp_all
  have st3: "AppendToFile u f c3 s2 = (Inr (), s3)"
    using AppendToFile_resolved [OF ru2, of c3] d(1) by (simp add: s3_def n2 add.commute)
  have t3: "datastore s3 = (datastore s2)(Rand (rng s2 - 3) \<mapsto> ?B (?n + 7) c3 (?n + 6),
       m \<mapsto> sealed k (Rand (?n + 8)) (JMeta (Start ?meta2) (Rand (rng s2)) (FileSourcekey ?meta2)))"
    and n3: "rng s3 = ?n + 9" by (simp_all add: s3_def n2 add.commute)
  have rx3: "resolve x g s3 = Some (ax, m, k, ?meta3)"
    using reader_after_write(1) [OF rx2 wx2 t3] n2 n3 by simp
  have neq: "Start meta \<noteq> Rand ?n" "Start meta \<noteq> Rand (?n + 3)" "Start meta \<noteq> Rand (?n + 6)"
      "m \<noteq> Rand ?n" "m \<noteq> Rand (?n + 3)" "m \<noteq> Start meta"
    using d by (auto dest: fresh_neq [where j = "?n"] fresh_neq [where j = "?n + 3"]
          fresh_neq [where j = "?n + 6"])
  have b1: "datastore s3 (Start meta) = Some (?B (?n + 1) c1 ?n)"
    and b2: "datastore s3 (Rand ?n) = Some (?B (?n + 4) c2 (?n + 3))"
    and b3: "datastore s3 (Rand (?n + 3)) = Some (?B (?n + 7) c3 (?n + 6))"
    using neq by (auto simp add: s3_def s2_def s1_def)
  have "LoadFile x g s3 = loadLoop (datastore s3) (Hkdf ?fk (Raw ''encrypt'')) (Hkdf ?fk (Raw ''mac''))
      (Rand (?n + 6)) (Start meta) []"
    using LoadFile_resolved [OF rx3] d(1) by simp
  also have "\<dots> = Some (Inr (c1 @ c2 @ c3))"
    using neq d(1)
    by (simp add: loadLoop_step [where ds = "datastore s3", OF _ b1]
          loadLoop_step [where ds = "datastore s3", OF _ b2]
          loadLoop_step [where ds = "datastore s3", OF _ b3] loadLoop_end)
  finally show ?thesis using st1 st2 st3 by blast
qed

lemmas api2_defs = CheckSignature_def DecryptAsynchMsg_def EncryptThenSign_def

lemma AcceptInvitation_Inr:
  assumes "AcceptInvitation x sender tok g s = (Inr (), s')"
  shows "len16 (sourceKey x) \<and> datastore s (Hkdf (sourceKey x) (Raw g)) = None \<and>
         datastore s tok \<noteq> None \<and>
         (\<exists>v. s' = s\<lparr>rng := rng s + 1,
                      datastore := (datastore s)(Hkdf (sourceKey x) (Raw g) \<mapsto> v)\<rparr>)"
  using assms
  by (auto simp add: AcceptInvitation_def prim_defs api_defs add.commute
        split: option.splits sum.splits prod.splits if_splits)

lemma AcceptInvitation_again:
  assumes ok: "AcceptInvitation x sender tok g s = (Inr (), s')"
    and ext: "\<And>y. datastore s y \<noteq> None \<Longrightarrow> datastore t y = datastore s y"
    and ks: "keystore t = keystore s"
    and free: "datastore t (Hkdf (sourceKey x) (Raw g')) = None"
  shows "\<exists>t'. AcceptInvitation x sender tok g' t = (Inr (), t')"
  using ok free
  by (auto simp add: AcceptInvitation_def prim_defs api_defs api2_defs ks ext
        split: option.splits sum.splits prod.splits if_splits)

lemma resolve_SomeD:
  assumes "resolve u f s = Some (a, m, k, meta)"
  shows "len16 (sourceKey u)"
    and "\<exists>p. opens (datastore s (Hkdf (sourceKey u) (Raw f))) (Hkdf (sourceKey u) (Raw f)) = Some p \<and>
           unmarshalAccess p = Inr a"
    and "GetMetaUUIDAndSourceKey a s = Inr (m, k)"
    and "\<exists>q. opens (datastore s m) k = Some q \<and> unmarshalMeta q = Inr meta"
  using assms
  by (auto simp add: resolve_def GetAccessUUID_def GetAccessKey_def HashKDF_def uuid_FromBytes_def
        split: option.splits sum.splits prod.splits if_splits)

lemma CreateInvitation_sharee:
  assumes "keystore s (r @ '' public key'') = Some (PKEEncKey pk)" and "r \<noteq> Username u"
    and "len16 (sourceKey u)"
    and "opens (datastore s (Hkdf (sourceKey u) (Raw f))) (Hkdf (sourceKey u) (Raw f)) = Some p"
    and "unmarshalAccess p = Inr a" and "\<not> IsOwner a"
    and "GetMetaUUIDAndSourceKey a s = Inr (m, k)"
    and "Sigkey u = DSSignKey sg"
  shows "CreateInvitation u f r s =
     (Inr (Rand (rng s + 2)),
      s\<lparr>rng := rng s + 3,
        datastore := (datastore s)
          (Hkdf (sourceKey u) (Raw (Username u @ f @ r)) \<mapsto>
             sealed (Hkdf (sourceKey u) (Rand (rng s))) (Rand (rng s + 1)) (JInvitation m k),
           Rand (rng s + 2) \<mapsto>
             JEnvelope
               (PKECiphertext pk (JInvitationMeta (Hkdf (sourceKey u) (Raw (Username u @ f @ r)))
                  (Hkdf (sourceKey u) (Rand (rng s)))))
               (Signature sg
                  (PKECiphertext pk (JInvitationMeta (Hkdf (sourceKey u) (Raw (Username u @ f @ r)))
                     (Hkdf (sourceKey u) (Rand (rng s)))))))\<rparr>)"
proof -
  from assms(4) obtain iv where
    blob: "datastore s (Hkdf (sourceKey u) (Raw f)) = Some (sealed (Hkdf (sourceKey u) (Raw f)) iv p)"
    by (auto simp add: opens_Some_iff)
  show ?thesis
    using assms(1,2,3,5,6,7,8)
    by (simp add: CreateInvitation_def blob prim_defs api_defs api2_defs sealed_def add.commute)
qed

lemma CreateInvitation_owner:
  assumes "keystore s (r @ '' public key'') = Some (PKEEncKey pk)" and "r \<noteq> Username u"
    and "len16 (sourceKey u)"
    and "opens (datastore s (Hkdf (sourceKey u) (Raw f))) (Hkdf (sourceKey u) (Raw f)) = Some p"
    and "unmarshalAccess p = Inr a" and "IsOwner a"
    and "Sigkey u = DSSignKey sg"
    and "datastore s (InvitationList a) = Some (sealed (ListKey a) ivl (JInvitationList (Some es)))"
    and "len16 (ListKey a)"
    and "InvitationList a \<noteq> Hkdf (sourceKey u) (Raw (Username u @ f @ r))"
    and "InvitationList a \<noteq> Rand (rng s + 2)"
  shows "CreateInvitation u f r s =
     (Inr (Rand (rng s + 2)),
      s\<lparr>rng := rng s + 4,
        datastore := (datastore s)
          (Hkdf (sourceKey u) (Raw (Username u @ f @ r)) \<mapsto>
             sealed (Hkdf (sourceKey u) (Rand (rng s))) (Rand (rng s + 1))
               (JInvitation (Access.MetaUUID a) (Access.MetaSourcekey a)),
           Rand (rng s + 2) \<mapsto>
             JEnvelope
               (PKECiphertext pk (JInvitationMeta (Hkdf (sourceKey u) (Raw (Username u @ f @ r)))
                  (Hkdf (sourceKey u) (Rand (rng s)))))
               (Signature sg
                  (PKECiphertext pk (JInvitationMeta (Hkdf (sourceKey u) (Raw (Username u @ f @ r)))
                     (Hkdf (sourceKey u) (Rand (rng s)))))),
           InvitationList a \<mapsto>
             sealed (ListKey a) (Rand (rng s + 3))
               (JInvitationList (Some (AList.update (Hkdf (sourceKey u) (Raw (Username u @ f @ r)))
                   (Hkdf (sourceKey u) (Rand (rng s))) es))))\<rparr>)"
proof -
  from assms(4) obtain iv where
    blob: "datastore s (Hkdf (sourceKey u) (Raw f)) = Some (sealed (Hkdf (sourceKey u) (Raw f)) iv p)"
    by (auto simp add: opens_Some_iff)
  show ?thesis
    using assms(1,2,3,5,6,7,8,9,10,11)
    by (simp add: CreateInvitation_def blob prim_defs api_defs api2_defs sealed_def
          GetMetaUUIDAndSourceKey_def add.commute)
qed

lemma AcceptInvitation_ok:
  assumes "len16 (sourceKey x)" and "datastore s (Hkdf (sourceKey x) (Raw g)) = None"
    and "datastore s tok = Some (JEnvelope (PKECiphertext pk (JInvitationMeta i ik))
            (Signature sg (PKECiphertext pk (JInvitationMeta i ik))))"
    and "keystore s (sender @ '' signature key'') = Some (DSVerifyKey sg)"
    and "RSAkey x = PKEDecKey pk"
    and "datastore s i = Some (sealed ik iv pl)" and "len16 ik"
  shows "AcceptInvitation x sender tok g s =
     (Inr (), s\<lparr>rng := rng s + 1,
         datastore := (datastore s)(Hkdf (sourceKey x) (Raw g) \<mapsto>
            sealed (Hkdf (sourceKey x) (Raw g)) (Rand (rng s))
              (JAccess uuid_Nil (Raw []) i ik uuid_Nil (Raw []) False))\<rparr>)"
  using assms
  by (simp add: AcceptInvitation_def prim_defs api_defs api2_defs sealed_def zeroAccess_def
        add.commute)

lemma rewriteInvitations_ok:
  "\<forall>e \<in> set es. len16 (snd e) \<Longrightarrow>
     rewriteInvitations es m k s = (Inr (), loopState es m k s) \<and>
     rng (loopState es m k s) = rng s + int (length es) \<and>
     keystore (loopState es m k s) = keystore s \<and>
     (\<forall>y. y \<notin> fst ` set es \<longrightarrow> datastore (loopState es m k s) y = datastore s y) \<and>
     (distinct (map fst es) \<longrightarrow>
        (\<forall>e \<in> set es. \<exists>iv. datastore (loopState es m k s) (fst e) =
            Some (sealed (snd e) iv (JInvitation m k))))"
proof (induction es arbitrary: s)
  case Nil
  then show ?case by (simp add: loopState_def)
next
  case (Cons e es)
  obtain i ik where e: "e = (i, ik)" by (cases e)
  let ?s1 = "s\<lparr>rng := rng s + 1,
      datastore := (datastore s)(i \<mapsto> sealed ik (Rand (rng s)) (JInvitation m k))\<rparr>"
  have ik: "len16 ik" using Cons.prems e by simp
  have step: "rewriteInvitations (e # es) m k s = rewriteInvitations es m k ?s1"
    using ik by (simp add: e prim_defs api_defs sealed_def add.commute)
  then have ls: "loopState (e # es) m k s = loopState es m k ?s1"
    by (simp add: loopState_def)
  have ih: "rewriteInvitations es m k ?s1 = (Inr (), loopState es m k ?s1) \<and>
     rng (loopState es m k ?s1) = rng ?s1 + int (length es) \<and>
     keystore (loopState es m k ?s1) = keystore ?s1 \<and>
     (\<forall>y. y \<notin> fst ` set es \<longrightarrow> datastore (loopState es m k ?s1) y = datastore ?s1 y) \<and>
     (distinct (map fst es) \<longrightarrow>
        (\<forall>e \<in> set es. \<exists>iv. datastore (loopState es m k ?s1) (fst e) =
            Some (sealed (snd e) iv (JInvitation m k))))"
    using Cons.prems by (intro Cons.IH) simp
  show ?case
    unfolding ls step using ih by (auto simp add: e)
qed

lemma rewriteInvitations_Inr:
  "rewriteInvitations es m k s = (Inr (), s') \<Longrightarrow> \<forall>e \<in> set es. len16 (snd e)"
proof (induction es arbitrary: s)
  case Nil
  then show ?case by simp
next
  case (Cons e es)
  obtain i ik where e: "e = (i, ik)" by (cases e)
  from Cons.prems have ik: "len16 ik"
    by (auto simp add: e prim_defs split: if_splits)
  with Cons.prems have "rewriteInvitations es m k
      (s\<lparr>rng := rng s + 1,
         datastore := (datastore s)(i \<mapsto> sealed ik (Rand (rng s)) (JInvitation m k))\<rparr>) = (Inr (), s')"
    by (simp add: e prim_defs api_defs sealed_def add.commute)
  from Cons.IH [OF this] ik show ?case by (simp add: e)
qed

lemma RevokeAccess_not_shared:
  assumes r: "resolve u f s = Some (a, m, k, meta)" and own: "IsOwner a"
    and ld: "LoadFile u f s = Some (Inr c)"
    and lst: "opens (datastore s (InvitationList a)) (ListKey a) = Some lp"
    and ul: "unmarshalInvitationList lp = Inr l"
    and d1: "InvitationList a \<noteq> m" and d2: "InvitationList a \<noteq> Rand (rng s)"
    and ns: "case Invitations l of None \<Rightarrow> True
             | Some es \<Rightarrow> map_of es (Hkdf (sourceKey u) (Raw (Username u @ f @ recipient))) = None"
  shows "RevokeAccess u f recipient s =
           Some (Inl ''filename was not shared with recipientUsername'', rekeyed u m c s)"
proof -
  note rs = resolve_SomeD [OF r]
  from rs(2) obtain p iv where
    blob: "datastore s (Hkdf (sourceKey u) (Raw f)) = Some (sealed (Hkdf (sourceKey u) (Raw f)) iv p)"
    and ua: "unmarshalAccess p = Inr a"
    by (auto simp add: opens_Some_iff)
  from rs(4) obtain q ivm where
    mblob: "datastore s m = Some (sealed k ivm q)" and k: "len16 k"
    by (auto simp add: opens_Some_iff)
  from lst obtain ivl where
    lblob: "datastore s (InvitationList a) = Some (sealed (ListKey a) ivl lp)"
    and lk: "len16 (ListKey a)"
    by (auto simp add: opens_Some_iff)
  show ?thesis
    using rs(1) own ua rs(3) k ld lk ul d1 d2 ns
    by (simp add: RevokeAccess_def blob mblob lblob prim_defs api_defs sealed_def rekeyed_def
          add.commute split: option.splits)
qed

lemma RevokeAccess_shared:
  assumes r: "resolve u f s = Some (a, m, k, meta)" and own: "IsOwner a"
    and ld: "LoadFile u f s = Some (Inr c)"
    and lst: "opens (datastore s (InvitationList a)) (ListKey a) = Some lp"
    and ul: "unmarshalInvitationList lp = Inr l"
    and d1: "InvitationList a \<noteq> m" and d2: "InvitationList a \<noteq> Rand (rng s)"
    and es: "Invitations l = Some es"
    and sh: "map_of es (Hkdf (sourceKey u) (Raw (Username u @ f @ recipient))) \<noteq> None"
    and ks: "\<forall>e \<in> set (AList.delete (Hkdf (sourceKey u) (Raw (Username u @ f @ recipient))) es).
               len16 (snd e)"
  shows "RevokeAccess u f recipient s =
     Some (Inr (),
       (let es' = AList.delete (Hkdf (sourceKey u) (Raw (Username u @ f @ recipient))) es;
            s7 = loopState es' m (Hkdf (sourceKey u) (Rand (rng s + 4))) (rekeyed u m c s)
        in s7\<lparr>rng := rng s7 + 2,
             datastore := (datastore s7)
               (InvitationList a \<mapsto> sealed (ListKey a) (Rand (rng s7))
                   (marshalInvitationList (l\<lparr>Invitations := Some es'\<rparr>)),
                Hkdf (sourceKey u) (Raw f) \<mapsto>
                  sealed (Hkdf (sourceKey u) (Raw f)) (Rand (rng s7 + 1))
                    (marshalAccess (a\<lparr>Access.MetaSourcekey :=
                        Hkdf (sourceKey u) (Rand (rng s + 4))\<rparr>)))\<rparr>))"
proof -
  note rs = resolve_SomeD [OF r]
  from rs(2) obtain p iv where
    blob: "datastore s (Hkdf (sourceKey u) (Raw f)) = Some (sealed (Hkdf (sourceKey u) (Raw f)) iv p)"
    and ua: "unmarshalAccess p = Inr a"
    by (auto simp add: opens_Some_iff)
  from rs(4) obtain q ivm where
    mblob: "datastore s m = Some (sealed k ivm q)" and k: "len16 k"
    by (auto simp add: opens_Some_iff)
  from lst obtain ivl where
    lblob: "datastore s (InvitationList a) = Some (sealed (ListKey a) ivl lp)"
    and lk: "len16 (ListKey a)"
    by (auto simp add: opens_Some_iff)
  have loop: "\<And>m' k' t. rewriteInvitations
       (AList.delete (Hkdf (sourceKey u) (Raw (Username u @ f @ recipient))) es) m' k' t =
       (Inr (), loopState (AList.delete (Hkdf (sourceKey u) (Raw (Username u @ f @ recipient))) es) m' k' t)"
    using rewriteInvitations_ok [OF ks] by blast
  show ?thesis
    using rs(1) own ua rs(3) k ld lk ul d1 d2 es sh
    by (simp add: RevokeAccess_def blob mblob lblob loop prim_defs api_defs sealed_def rekeyed_def
          add.commute split: option.splits)
qed

lemma GetMeta_owner:
  "IsOwner a \<Longrightarrow> GetMetaUUIDAndSourceKey a s = Inr (Access.MetaUUID a, Access.MetaSourcekey a)"
  by (simp add: GetMetaUUIDAndSourceKey_def)

lemma GetMeta_sharee:
  assumes "\<not> IsOwner a" and "len16 (Access.InvitationSourcekey a)"
    and "datastore s (Access.InvitationUUID a) =
           Some (sealed (Access.InvitationSourcekey a) iv (JInvitation m k))"
  shows "GetMetaUUIDAndSourceKey a s = Inr (m, k)"
  using assms
  by (simp add: GetMetaUUIDAndSourceKey_def prim_defs api_defs sealed_def)

lemma unmarshal_marshalAccess [simp]: "unmarshalAccess (marshalAccess a) = Inr a"
  by (simp add: marshalAccess_def)

lemma resolveI:
  assumes "len16 (sourceKey u)"
    and "datastore s (Hkdf (sourceKey u) (Raw f)) =
           Some (sealed (Hkdf (sourceKey u) (Raw f)) iv (marshalAccess a))"
    and "GetMetaUUIDAndSourceKey a s = Inr (m, k)" and "len16 k"
    and "datastore s m = Some (sealed k iv' (JMeta st la fk))"
  shows "resolve u f s = Some (a, m, k, \<lparr>Start = st, Last = la, FileSourcekey = fk\<rparr>)"
  using assms
  by (simp add: resolve_def GetAccessUUID_def GetAccessKey_def HashKDF_def uuid_FromBytes_def)

text \<open>the Metadata has been sealed again under another key\<close>

lemma meta_rekeyed:
  assumes "len16 (sourceKey x)"
    and "datastore t (Hkdf (sourceKey x) (Raw g)) =
           Some (sealed (Hkdf (sourceKey x) (Raw g)) iv (marshalAccess ax))"
    and "GetMetaUUIDAndSourceKey ax t = Inr (m, k)" and "len16 k"
    and "datastore t m = Some (sealed k' iv' q)" and "k' \<noteq> k"
  shows "LoadFile x g t =
           Some (Inl ''integrity check failed: Meta struct has been tampered with'')"
    and "AppendToFile x g c t =
           (Inl ''integrity check failed: Meta struct has been tampered with'', t)"
    and "StoreFile x g c t =
           (Inl ''integrity check failed: Meta struct has been tampered with'', t)"
  using assms
  by (simp_all add: LoadFile_def AppendToFile_def StoreFile_def prim_defs DecryptAccessMsg_def
        DecryptMetaMsg_def Let_def sealed_def)

lemma delete_subset: "set (AList.delete x es) \<subseteq> set es"
  by (auto simp add: AList.delete_eq)

lemma distinct_delete_fst: "distinct (map fst es) \<Longrightarrow> distinct (map fst (AList.delete x es))"
  by (simp add: AList.distinct_delete)

lemma RevokeAccess_post:
  assumes ru: "resolve u f s = Some (a, m, k, meta)" and wu: "wellFormedFile s u f"
    and own: "IsOwner a" and ld: "LoadFile u f s = Some (Inr c)"
    and lst: "datastore s (InvitationList a) =
                Some (sealed (ListKey a) ivl (JInvitationList (Some es)))"
    and lk: "len16 (ListKey a)"
    and il: "InvitationList a \<noteq> m" "InvitationList a \<noteq> Hkdf (sourceKey u) (Raw f)"
            "fresh s (InvitationList a)"
    and es: "distinct (map fst es)"
            "\<forall>e \<in> set es. len16 (snd e) \<and> fresh s (fst e) \<and>
                fst e \<notin> {m, Hkdf (sourceKey u) (Raw f), InvitationList a}"
    and sh: "map_of es (Hkdf (sourceKey u) (Raw (Username u @ f @ recipient))) \<noteq> None"
  defines "es' \<equiv> AList.delete (Hkdf (sourceKey u) (Raw (Username u @ f @ recipient))) es"
    and "newk \<equiv> Hkdf (sourceKey u) (Rand (rng s + 4))"
    and "newfk \<equiv> Hkdf (sourceKey u) (Rand (rng s + 1))"
  shows "\<exists>s'. RevokeAccess u f recipient s = Some (Inr (), s') \<and>
     keystore s' = keystore s \<and> rng s < rng s' \<and>
     (\<exists>iv. datastore s' (Hkdf (sourceKey u) (Raw f)) =
        Some (sealed (Hkdf (sourceKey u) (Raw f)) iv (marshalAccess (a\<lparr>Access.MetaSourcekey := newk\<rparr>)))) \<and>
     (\<exists>iv. datastore s' m = Some (sealed newk iv (JMeta (Rand (rng s)) (Rand (rng s + 2)) newfk))) \<and>
     (\<exists>iv. datastore s' (Rand (rng s)) = Some (sealed newfk iv (JFile c (Rand (rng s + 2))))) \<and>
     (\<exists>iv. datastore s' (InvitationList a) =
        Some (sealed (ListKey a) iv (JInvitationList (Some es')))) \<and>
     (\<forall>e \<in> set es'. \<exists>iv. datastore s' (fst e) = Some (sealed (snd e) iv (JInvitation m newk))) \<and>
     (\<forall>y. y \<notin> {Rand (rng s), m, InvitationList a, Hkdf (sourceKey u) (Raw f)} \<union> fst ` set es'
          \<longrightarrow> datastore s' y = datastore s y)"
proof -
  note d = wellFormedFileD [OF wu ru]
  have sub: "set es' \<subseteq> set es" by (simp add: es'_def delete_subset)
  have ks: "\<forall>e \<in> set es'. len16 (snd e)" using es(2) sub by auto
  have dist: "distinct (map fst es')" using es(1) by (simp add: es'_def distinct_delete_fst)
  have lst': "opens (datastore s (InvitationList a)) (ListKey a) = Some (JInvitationList (Some es))"
    using lst lk by simp
  have il2: "InvitationList a \<noteq> Rand (rng s)" using il(3) by (auto dest: fresh_neq)
  let ?s6 = "rekeyed u m c s"
  let ?s7 = "loopState es' m newk ?s6"
  note loop = rewriteInvitations_ok [OF ks, of m newk ?s6]
  let ?s' = "?s7\<lparr>rng := rng ?s7 + 2,
             datastore := (datastore ?s7)
               (InvitationList a \<mapsto> sealed (ListKey a) (Rand (rng ?s7))
                   (JInvitationList (Some es')),
                Hkdf (sourceKey u) (Raw f) \<mapsto>
                  sealed (Hkdf (sourceKey u) (Raw f)) (Rand (rng ?s7 + 1))
                    (marshalAccess (a\<lparr>Access.MetaSourcekey := newk\<rparr>)))\<rparr>"
  have rv: "RevokeAccess u f recipient s = Some (Inr (), ?s')"
    using RevokeAccess_shared [OF ru own ld lst' _ il(1) il2 _ sh, of "\<lparr>Invitations = Some es\<rparr>"] ks
    by (simp add: es'_def newk_def marshalInvitationList_def Let_def)
  have nin: "\<forall>e \<in> set es'. fst e \<noteq> Rand (rng s) \<and> fst e \<noteq> m \<and>
       fst e \<noteq> InvitationList a \<and> fst e \<noteq> Hkdf (sourceKey u) (Raw f)"
    using es(2) sub by (auto dest: fresh_neq)
  have m_nin: "m \<notin> fst ` set es'" "Rand (rng s) \<notin> fst ` set es'"
    using nin by auto
  have m_neq: "m \<noteq> Rand (rng s)" using d(4) by (auto dest: fresh_neq)
  have frame7: "\<And>y. y \<notin> fst ` set es' \<Longrightarrow> datastore ?s7 y = datastore ?s6 y"
    using loop by blast
  have s6m: "datastore ?s6 m = Some (sealed newk (Rand (rng s + 5))
        (JMeta (Rand (rng s)) (Rand (rng s + 2)) newfk))"
    and s6r: "datastore ?s6 (Rand (rng s)) = Some (sealed newfk (Rand (rng s + 3))
        (JFile c (Rand (rng s + 2))))"
    and s6y: "\<And>y. y \<noteq> Rand (rng s) \<Longrightarrow> y \<noteq> m \<Longrightarrow> datastore ?s6 y = datastore s y"
    and s6k: "keystore ?s6 = keystore s" and s6n: "rng ?s6 = rng s + 6"
    using m_neq by (simp_all add: rekeyed_def newk_def newfk_def)
  have c1: "keystore ?s' = keystore s" using loop s6k by simp
  have c2: "rng s < rng ?s'" using loop s6n by simp
  have c3: "\<exists>iv. datastore ?s' (Hkdf (sourceKey u) (Raw f)) =
        Some (sealed (Hkdf (sourceKey u) (Raw f)) iv (marshalAccess (a\<lparr>Access.MetaSourcekey := newk\<rparr>)))"
    by auto
  have c4: "\<exists>iv. datastore ?s' m = Some (sealed newk iv (JMeta (Rand (rng s)) (Rand (rng s + 2)) newfk))"
    using il(1) d(7) frame7 [OF m_nin(1)] s6m by auto
  have c5: "\<exists>iv. datastore ?s' (Rand (rng s)) = Some (sealed newfk iv (JFile c (Rand (rng s + 2))))"
    using il2 frame7 [OF m_nin(2)] s6r by auto
  have c6: "\<exists>iv. datastore ?s' (InvitationList a) =
        Some (sealed (ListKey a) iv (JInvitationList (Some es')))"
    using il(2) by auto
  have c7: "\<forall>e \<in> set es'. \<exists>iv. datastore ?s' (fst e) = Some (sealed (snd e) iv (JInvitation m newk))"
    using loop dist nin by auto
  have c8: "\<forall>y. y \<notin> {Rand (rng s), m, InvitationList a, Hkdf (sourceKey u) (Raw f)} \<union> fst ` set es'
          \<longrightarrow> datastore ?s' y = datastore s y"
    using frame7 s6y by auto
  from rv c1 c2 c3 c4 c5 c6 c7 c8 show ?thesis by blast
qed

lemma opens_sealedI:
  "len16 k \<Longrightarrow> b = Some (sealed k iv p) \<Longrightarrow> opens b k = Some p"
  by simp

lemma revocation_sound:
  assumes ru: "resolve u f s = Some (a, m, k, meta)" and wu: "wellFormedFile s u f"
    and own: "IsOwner a" and ld: "LoadFile u f s = Some (Inr c)"
    and lst: "datastore s (InvitationList a) =
                Some (sealed (ListKey a) ivl (JInvitationList (Some es)))"
    and lk: "len16 (ListKey a)"
    and il: "InvitationList a \<noteq> m" "InvitationList a \<noteq> Hkdf (sourceKey u) (Raw f)"
            "fresh s (InvitationList a)"
    and es: "distinct (map fst es)"
            "\<forall>e \<in> set es. len16 (snd e) \<and> fresh s (fst e) \<and>
                fst e \<notin> {m, Hkdf (sourceKey u) (Raw f), InvitationList a}"
    and sh: "map_of es (Hkdf (sourceKey u) (Raw (Username u @ f @ recipient))) \<noteq> None"
    and fk: "k \<noteq> Hkdf (sourceKey u) (Rand (rng s + 4))"
  defines "es' \<equiv> AList.delete (Hkdf (sourceKey u) (Raw (Username u @ f @ recipient))) es"
  defines "W \<equiv> {m, InvitationList a, Hkdf (sourceKey u) (Raw f)} \<union> fst ` set es'"
  shows "\<exists>s'. RevokeAccess u f recipient s = Some (Inr (), s') \<and>
     LoadFile u f s' = Some (Inr c) \<and>
     (\<forall>c'. fst (AppendToFile u f c' s') = Inr ()) \<and>
     (\<forall>r pk sg. keystore s (r @ '' public key'') = Some (PKEEncKey pk) \<and> r \<noteq> Username u \<and>
          Sigkey u = DSSignKey sg \<and>
          InvitationList a \<noteq> Hkdf (sourceKey u) (Raw (Username u @ f @ r))
        \<longrightarrow> fst (CreateInvitation u f r s') = Inr (Rand (rng s' + 2))) \<and>
     (\<forall>x g ax iv. len16 (sourceKey x) \<and>
          datastore s (Hkdf (sourceKey x) (Raw g)) =
            Some (sealed (Hkdf (sourceKey x) (Raw g)) iv (marshalAccess ax)) \<and>
          \<not> IsOwner ax \<and> GetMetaUUIDAndSourceKey ax s = Inr (m, k) \<and>
          Access.InvitationUUID ax \<notin> W \<and> fresh s (Access.InvitationUUID ax) \<and>
          Hkdf (sourceKey x) (Raw g) \<notin> W
        \<longrightarrow> LoadFile x g s' =
              Some (Inl ''integrity check failed: Meta struct has been tampered with'') \<and>
            (\<forall>c'. AppendToFile x g c' s' =
              (Inl ''integrity check failed: Meta struct has been tampered with'', s')) \<and>
            (\<forall>r pk sg. keystore s (r @ '' public key'') = Some (PKEEncKey pk) \<and>
                 r \<noteq> Username x \<and> Sigkey x = DSSignKey sg
               \<longrightarrow> fst (CreateInvitation x g r s') = Inr (Rand (rng s' + 2)))) \<and>
     (\<forall>d g ad iv. len16 (sourceKey d) \<and>
          datastore s (Hkdf (sourceKey d) (Raw g)) =
            Some (sealed (Hkdf (sourceKey d) (Raw g)) iv (marshalAccess ad)) \<and>
          \<not> IsOwner ad \<and>
          (Access.InvitationUUID ad, Access.InvitationSourcekey ad) \<in> set es' \<and>
          Hkdf (sourceKey d) (Raw g) \<notin> W
        \<longrightarrow> LoadFile d g s' = Some (Inr c) \<and>
            (\<forall>c'. fst (AppendToFile d g c' s') = Inr ()) \<and>
            (\<forall>r pk sg. keystore s (r @ '' public key'') = Some (PKEEncKey pk) \<and>
                 r \<noteq> Username d \<and> Sigkey d = DSSignKey sg
               \<longrightarrow> fst (CreateInvitation d g r s') = Inr (Rand (rng s' + 2))))"
proof -
  let ?A = "Hkdf (sourceKey u) (Raw f)"
  let ?newk = "Hkdf (sourceKey u) (Rand (rng s + 4))"
  let ?newfk = "Hkdf (sourceKey u) (Rand (rng s + 1))"
  let ?n = "rng s"
  let ?meta' = "\<lparr>Start = Rand ?n, Last = Rand (?n + 2), FileSourcekey = ?newfk\<rparr>"
  note d = wellFormedFileD [OF wu ru]
  note rs = resolve_SomeD [OF ru]
  from RevokeAccess_post [OF ru wu own ld lst lk il es sh]
  obtain s' iva ivm ivf ivl' where
    rv: "RevokeAccess u f recipient s = Some (Inr (), s')"
    and ks: "keystore s' = keystore s" and rg: "rng s < rng s'"
    and pl: "datastore s' (InvitationList a) =
        Some (sealed (ListKey a) ivl' (JInvitationList (Some es')))"
    and pa: "datastore s' ?A = Some (sealed ?A iva (marshalAccess (a\<lparr>Access.MetaSourcekey := ?newk\<rparr>)))"
    and pm: "datastore s' m = Some (sealed ?newk ivm (JMeta (Rand ?n) (Rand (?n + 2)) ?newfk))"
    and pf: "datastore s' (Rand ?n) = Some (sealed ?newfk ivf (JFile c (Rand (?n + 2))))"
    and pe: "\<forall>e \<in> set es'. \<exists>iv. datastore s' (fst e) = Some (sealed (snd e) iv (JInvitation m ?newk))"
    and fr: "\<forall>y. y \<notin> {Rand ?n, m, InvitationList a, ?A} \<union> fst ` set es'
          \<longrightarrow> datastore s' y = datastore s y"
    unfolding es'_def by blast
  have m_own: "m = Access.MetaUUID a" using rs(3) own by (simp add: GetMeta_owner)
  have loop1: "loadLoop (datastore s') (Hkdf ?newfk (Raw ''encrypt'')) (Hkdf ?newfk (Raw ''mac''))
        (Rand (?n + 2)) (Rand ?n) [] = Some (Inr c)"
    by (simp add: loadLoop_step [where ds = "datastore s'", OF _ pf] loadLoop_end)
  \<comment> \<open>the owner\<close>
  have gmo: "GetMetaUUIDAndSourceKey (a\<lparr>Access.MetaSourcekey := ?newk\<rparr>) s' = Inr (m, ?newk)"
    using own by (simp add: GetMeta_owner m_own)
  have ro: "resolve u f s' = Some (a\<lparr>Access.MetaSourcekey := ?newk\<rparr>, m, ?newk, ?meta')"
    by (rule resolveI [OF rs(1) pa gmo _ pm]) simp
  have lo: "LoadFile u f s' = Some (Inr c)"
    using LoadFile_resolved [OF ro] loop1 by simp
  have ao: "\<forall>c'. fst (AppendToFile u f c' s') = Inr ()"
    using AppendToFile_resolved [OF ro] by simp
  have co: "fst (CreateInvitation u f r s') = Inr (Rand (rng s' + 2))"
    if h: "keystore s (r @ '' public key'') = Some (PKEEncKey pk)" "r \<noteq> Username u"
          "Sigkey u = DSSignKey sg"
          "InvitationList a \<noteq> Hkdf (sourceKey u) (Raw (Username u @ f @ r))"
    for r pk sg
  proof -
    have n: "InvitationList a \<noteq> Rand (rng s' + 2)"
      using il(3) rg by (auto dest: fresh_neq)
    show ?thesis
      by (subst CreateInvitation_owner [where a = "a\<lparr>Access.MetaSourcekey := ?newk\<rparr>"
            and pk = pk and sg = sg and es = es' and ivl = ivl'
            and p = "marshalAccess (a\<lparr>Access.MetaSourcekey := ?newk\<rparr>)"])
         (use h n own lk rs(1) in \<open>simp_all add: ks pa pl\<close>)
  qed
  \<comment> \<open>readers outside the list\<close>
  have cut: "LoadFile x g s' =
              Some (Inl ''integrity check failed: Meta struct has been tampered with'') \<and>
            (\<forall>c'. AppendToFile x g c' s' =
              (Inl ''integrity check failed: Meta struct has been tampered with'', s')) \<and>
            (\<forall>r pk sg. keystore s (r @ '' public key'') = Some (PKEEncKey pk) \<and>
                 r \<noteq> Username x \<and> Sigkey x = DSSignKey sg
               \<longrightarrow> fst (CreateInvitation x g r s') = Inr (Rand (rng s' + 2)))"
    if h: "len16 (sourceKey x)"
          "datastore s (Hkdf (sourceKey x) (Raw g)) =
            Some (sealed (Hkdf (sourceKey x) (Raw g)) iv (marshalAccess ax))"
          "\<not> IsOwner ax" "GetMetaUUIDAndSourceKey ax s = Inr (m, k)"
          "Access.InvitationUUID ax \<notin> W" "fresh s (Access.InvitationUUID ax)"
          "Hkdf (sourceKey x) (Raw g) \<notin> W"
    for x g ax iv
  proof -
    have "Access.InvitationUUID ax \<noteq> Rand ?n" using h(6) by (auto dest: fresh_neq)
    then have i: "datastore s' (Access.InvitationUUID ax) = datastore s (Access.InvitationUUID ax)"
      using h(5) fr by (auto simp add: W_def)
    have acc: "datastore s' (Hkdf (sourceKey x) (Raw g)) =
            Some (sealed (Hkdf (sourceKey x) (Raw g)) iv (marshalAccess ax))"
      using h(2,7) fr by (auto simp add: W_def)
    have gm: "GetMetaUUIDAndSourceKey ax s' = Inr (m, k)"
      using GetMeta_frame [of ax s' s] i h(4) by simp
    have k: "len16 k" using rs(4) by (auto simp add: opens_Some_iff)
    have ci: "fst (CreateInvitation x g r s') = Inr (Rand (rng s' + 2))"
      if "keystore s (r @ '' public key'') = Some (PKEEncKey pk)" "r \<noteq> Username x"
         "Sigkey x = DSSignKey sg" for r pk sg
      by (subst CreateInvitation_sharee [where a = ax and pk = pk and sg = sg and m = m and k = k
            and p = "marshalAccess ax"])
         (use that h(1,3) gm in \<open>simp_all add: ks acc\<close>)
    from meta_rekeyed [OF h(1) acc gm k pm] fk ci show ?thesis by simp
  qed
  \<comment> \<open>readers whose invitation is still in the list\<close>
  have sur: "LoadFile y g s' = Some (Inr c) \<and> (\<forall>c'. fst (AppendToFile y g c' s') = Inr ()) \<and>
            (\<forall>r pk sg. keystore s (r @ '' public key'') = Some (PKEEncKey pk) \<and>
                 r \<noteq> Username y \<and> Sigkey y = DSSignKey sg
               \<longrightarrow> fst (CreateInvitation y g r s') = Inr (Rand (rng s' + 2)))"
    if h: "len16 (sourceKey y)"
          "datastore s (Hkdf (sourceKey y) (Raw g)) =
            Some (sealed (Hkdf (sourceKey y) (Raw g)) iv (marshalAccess ad))"
          "\<not> IsOwner ad"
          "(Access.InvitationUUID ad, Access.InvitationSourcekey ad) \<in> set es'"
          "Hkdf (sourceKey y) (Raw g) \<notin> W"
    for y g ad iv
  proof -
    have acc: "datastore s' (Hkdf (sourceKey y) (Raw g)) =
            Some (sealed (Hkdf (sourceKey y) (Raw g)) iv (marshalAccess ad))"
      using h(2,5) fr by (auto simp add: W_def)
    from pe h(4) obtain ivi where
      inv: "datastore s' (Access.InvitationUUID ad) =
              Some (sealed (Access.InvitationSourcekey ad) ivi (JInvitation m ?newk))"
      by fastforce
    have "set es' \<subseteq> set es" by (simp add: es'_def delete_subset)
    with h(4) es(2) have ik: "len16 (Access.InvitationSourcekey ad)" by fastforce
    have gm: "GetMetaUUIDAndSourceKey ad s' = Inr (m, ?newk)"
      by (rule GetMeta_sharee [OF h(3) ik inv])
    have r: "resolve y g s' = Some (ad, m, ?newk, ?meta')"
      by (rule resolveI [OF h(1) acc gm _ pm]) simp
    have ci: "fst (CreateInvitation y g r s') = Inr (Rand (rng s' + 2))"
      if "keystore s (r @ '' public key'') = Some (PKEEncKey pk)" "r \<noteq> Username y"
         "Sigkey y = DSSignKey sg" for r pk sg
      by (subst CreateInvitation_sharee [where a = ad and pk = pk and sg = sg and m = m
            and k = ?newk and p = "marshalAccess ad"])
         (use that h(1,3) gm in \<open>simp_all add: ks acc\<close>)
    show ?thesis
      using LoadFile_resolved [OF r] loop1 AppendToFile_resolved [OF r] ci by simp
  qed
  from rv lo ao co cut sur show ?thesis by blast
qed

text \<open>the Invitation of the revoked recipient after a revocation\<close>

lemma revoked_invitation_kept:
  assumes ru: "resolve u f s = Some (a, m, k, meta)" and wu: "wellFormedFile s u f"
    and own: "IsOwner a" and ld: "LoadFile u f s = Some (Inr c)"
    and lst: "datastore s (InvitationList a) =
                Some (sealed (ListKey a) ivl (JInvitationList (Some es)))"
    and lk: "len16 (ListKey a)"
    and il: "InvitationList a \<noteq> m" "InvitationList a \<noteq> Hkdf (sourceKey u) (Raw f)"
            "fresh s (InvitationList a)"
    and es: "distinct (map fst es)"
            "\<forall>e \<in> set es. len16 (snd e) \<and> fresh s (fst e) \<and>
                fst e \<notin> {m, Hkdf (sourceKey u) (Raw f), InvitationList a}"
    and fk: "k \<noteq> Hkdf (sourceKey u) (Rand (rng s + 4))"
    and lx: "len16 (sourceKey x)"
    and ax: "datastore s (Hkdf (sourceKey x) (Raw g)) =
               Some (sealed (Hkdf (sourceKey x) (Raw g)) iv (marshalAccess b))"
    and nb: "\<not> IsOwner b"
    and bi: "Access.InvitationUUID b = Hkdf (sourceKey u) (Raw (Username u @ f @ recipient))"
    and sh: "map_of es (Access.InvitationUUID b) = Some (Access.InvitationSourcekey b)"
    and ib: "datastore s (Access.InvitationUUID b) =
               Some (sealed (Access.InvitationSourcekey b) ivi (JInvitation m k))"
    and xn: "Hkdf (sourceKey x) (Raw g) \<notin>
               {m, InvitationList a, Hkdf (sourceKey u) (Raw f)} \<union> fst ` set es"
  shows "\<exists>s'. RevokeAccess u f recipient s = Some (Inr (), s') \<and>
     datastore s' (Access.InvitationUUID b) =
        Some (sealed (Access.InvitationSourcekey b) ivi (JInvitation m k)) \<and>
     opens (datastore s' (Access.InvitationUUID b)) (Access.InvitationSourcekey b) =
        Some (JInvitation m k) \<and>
     GetMetaUUIDAndSourceKey b s' = Inr (m, k) \<and>
     opens (datastore s' m) k = None \<and>
     LoadFile x g s' =
        Some (Inl ''integrity check failed: Meta struct has been tampered with'') \<and>
     (\<forall>c'. AppendToFile x g c' s' =
        (Inl ''integrity check failed: Meta struct has been tampered with'', s'))"
proof -
  let ?I = "Hkdf (sourceKey u) (Raw (Username u @ f @ recipient))"
  let ?newk = "Hkdf (sourceKey u) (Rand (rng s + 4))"
  let ?es' = "AList.delete ?I es"
  have sh': "map_of es ?I \<noteq> None" using sh bi by simp
  from sh have mem: "(Access.InvitationUUID b, Access.InvitationSourcekey b) \<in> set es"
    by (rule map_of_SomeD)
  with es(2) have ik: "len16 (Access.InvitationSourcekey b)"
    and inot: "Access.InvitationUUID b \<notin> {m, Hkdf (sourceKey u) (Raw f), InvitationList a}"
    by fastforce+
  have sub: "set ?es' \<subseteq> set es" by (rule delete_subset)
  from RevokeAccess_post [OF ru wu own ld lst lk il es sh']
  obtain s' ivm where
    rv: "RevokeAccess u f recipient s = Some (Inr (), s')"
    and pm: "datastore s' m = Some (sealed ?newk ivm
               (JMeta (Rand (rng s)) (Rand (rng s + 2)) (Hkdf (sourceKey u) (Rand (rng s + 1)))))"
    and fr: "\<forall>y. y \<notin> {Rand (rng s), m, InvitationList a, Hkdf (sourceKey u) (Raw f)} \<union> fst ` set ?es'
          \<longrightarrow> datastore s' y = datastore s y"
    by blast
  have "Access.InvitationUUID b \<notin> fst ` set ?es'"
    unfolding bi by (rule delete_notin_dom)
  then have "datastore s' (Access.InvitationUUID b) = datastore s (Access.InvitationUUID b)"
    using inot fr by (auto simp add: bi)
  then have 1: "datastore s' (Access.InvitationUUID b) =
        Some (sealed (Access.InvitationSourcekey b) ivi (JInvitation m k))"
    by (simp add: ib)
  have 2: "GetMetaUUIDAndSourceKey b s' = Inr (m, k)"
    by (rule GetMeta_sharee [OF nb ik 1])
  have acc: "datastore s' (Hkdf (sourceKey x) (Raw g)) =
               Some (sealed (Hkdf (sourceKey x) (Raw g)) iv (marshalAccess b))"
  proof -
    have "Hkdf (sourceKey x) (Raw g) \<notin> fst ` set ?es'" using xn sub by blast
    then have "datastore s' (Hkdf (sourceKey x) (Raw g)) = datastore s (Hkdf (sourceKey x) (Raw g))"
      using xn fr by simp
    then show ?thesis by (simp add: ax)
  qed
  have k: "len16 k" using resolve_SomeD(4) [OF ru] by (auto simp add: opens_Some_iff)
  have 3: "opens (datastore s' m) k = None" using fk by (simp add: pm)
  from meta_rekeyed [OF lx acc 2 k pm] fk rv 1 2 3 ik show ?thesis by simp
qed

text \<open>a revocation that is refused after the Metadata has been re-keyed\<close>

lemma meta_rekeyed_resolved:
  assumes r: "resolve x g s = Some (ax, m, k, meta)"
    and acc: "datastore t (Hkdf (sourceKey x) (Raw g)) = datastore s (Hkdf (sourceKey x) (Raw g))"
    and inv: "IsOwner ax \<or>
               datastore t (Access.InvitationUUID ax) = datastore s (Access.InvitationUUID ax)"
    and m: "datastore t m = Some (sealed k' iv' q)" and k': "k' \<noteq> k"
  shows "LoadFile x g t =
           Some (Inl ''integrity check failed: Meta struct has been tampered with'')"
    and "AppendToFile x g c t =
           (Inl ''integrity check failed: Meta struct has been tampered with'', t)"
    and "StoreFile x g c t =
           (Inl ''integrity check failed: Meta struct has been tampered with'', t)"
proof -
  note rs = resolve_SomeD [OF r]
  from rs(2) obtain p iv where
    blob: "datastore t (Hkdf (sourceKey x) (Raw g)) = Some (sealed (Hkdf (sourceKey x) (Raw g)) iv p)"
    and ua: "unmarshalAccess p = Inr ax"
    by (auto simp add: opens_Some_iff acc)
  have gm: "GetMetaUUIDAndSourceKey ax t = Inr (m, k)"
    using GetMeta_frame [OF inv] rs(3) by simp
  have k: "len16 k" using rs(4) by (auto simp add: opens_Some_iff)
  show "LoadFile x g t =
           Some (Inl ''integrity check failed: Meta struct has been tampered with'')"
    and "AppendToFile x g c t =
           (Inl ''integrity check failed: Meta struct has been tampered with'', t)"
    and "StoreFile x g c t =
           (Inl ''integrity check failed: Meta struct has been tampered with'', t)"
    using rs(1) ua gm k m k'
    by (simp_all add: LoadFile_def AppendToFile_def StoreFile_def blob prim_defs
          DecryptAccessMsg_def DecryptMetaMsg_def Let_def sealed_def)
qed

lemma refused_revocation:
  assumes ru: "resolve u f s = Some (a, m, k, meta)"
    and own: "IsOwner a" and ld: "LoadFile u f s = Some (Inr c)"
    and lst: "datastore s (InvitationList a) =
                Some (sealed (ListKey a) ivl (JInvitationList (Some es)))"
    and lk: "len16 (ListKey a)"
    and il: "InvitationList a \<noteq> m" "fresh s (InvitationList a)"
    and ns: "map_of es (Hkdf (sourceKey u) (Raw (Username u @ f @ recipient))) = None"
    and fk: "k \<noteq> Hkdf (sourceKey u) (Rand (rng s + 4))"
  shows "\<exists>s'. RevokeAccess u f recipient s =
            Some (Inl ''filename was not shared with recipientUsername'', s') \<and>
     datastore s' m \<noteq> datastore s m \<and>
     (\<forall>x g ax. resolve x g s = Some (ax, m, k, meta) \<and> wellFormedFile s x g
        \<longrightarrow> LoadFile x g s' =
              Some (Inl ''integrity check failed: Meta struct has been tampered with'') \<and>
            (\<forall>c'. AppendToFile x g c' s' =
              (Inl ''integrity check failed: Meta struct has been tampered with'', s')) \<and>
            (\<forall>c'. StoreFile x g c' s' =
              (Inl ''integrity check failed: Meta struct has been tampered with'', s')))"
proof -
  let ?s' = "rekeyed u m c s"
  let ?newk = "Hkdf (sourceKey u) (Rand (rng s + 4))"
  have d2: "InvitationList a \<noteq> Rand (rng s)" using il(2) by (auto dest: fresh_neq)
  have lo: "opens (datastore s (InvitationList a)) (ListKey a) = Some (JInvitationList (Some es))"
    using lst lk by simp
  have rv: "RevokeAccess u f recipient s =
            Some (Inl ''filename was not shared with recipientUsername'', ?s')"
    by (rule RevokeAccess_not_shared [OF ru own ld lo _ il(1) d2,
          where l = "\<lparr>Invitations = Some es\<rparr>"])
       (simp_all add: ns)
  from resolve_SomeD(4) [OF ru] obtain ivm q where
    old: "datastore s m = Some (sealed k ivm q)"
    by (auto simp add: opens_Some_iff)
  have new: "datastore ?s' m = Some (sealed ?newk (Rand (rng s + 5))
      (JMeta (Rand (rng s)) (Rand (rng s + 2)) (Hkdf (sourceKey u) (Rand (rng s + 1)))))"
    by (simp add: rekeyed_def)
  have ne: "datastore ?s' m \<noteq> datastore s m"
    using fk by (simp add: new old sealed_def)
  have rd: "LoadFile x g ?s' =
              Some (Inl ''integrity check failed: Meta struct has been tampered with'') \<and>
            (\<forall>c'. AppendToFile x g c' ?s' =
              (Inl ''integrity check failed: Meta struct has been tampered with'', ?s')) \<and>
            (\<forall>c'. StoreFile x g c' ?s' =
              (Inl ''integrity check failed: Meta struct has been tampered with'', ?s'))"
    if h: "resolve x g s = Some (ax, m, k, meta)" "wellFormedFile s x g" for x g ax
  proof -
    note d = wellFormedFileD [OF h(2) h(1)]
    have acc: "datastore ?s' (Hkdf (sourceKey x) (Raw g)) = datastore s (Hkdf (sourceKey x) (Raw g))"
      using d(7) by (simp add: rekeyed_def)
    have inv: "IsOwner ax \<or>
               datastore ?s' (Access.InvitationUUID ax) = datastore s (Access.InvitationUUID ax)"
      using d(10) by (auto simp add: rekeyed_def dest: fresh_neq [where j = "rng s"])
    from meta_rekeyed_resolved [OF h(1) acc inv new] fk show ?thesis by simp
  qed
  from rv ne rd show ?thesis by blast
qed

text \<open>one overwrite, seen by a reader of the same Metadata\<close>

lemma store_load:
  fixes c :: string
  assumes ru: "resolve u f s = Some (a, m, k, meta)" and wu: "wellFormedFile s u f"
    and rx: "resolve x g s = Some (ax, m, k, meta)" and wx: "wellFormedFile s x g"
  defines "s1 \<equiv> s\<lparr>rng := rng s + 3,
     datastore := (datastore s)
       (Start meta \<mapsto> sealed (FileSourcekey meta) (Rand (rng s + 1)) (JFile c (Rand (rng s))),
        m \<mapsto> sealed k (Rand (rng s + 2)) (JMeta (Start meta) (Rand (rng s)) (FileSourcekey meta)))\<rparr>"
  shows "StoreFile u f c s = (Inr (), s1)"
    and "resolve u f s1 = Some (a, m, k, meta\<lparr>Last := Rand (rng s)\<rparr>)"
    and "wellFormedFile s1 u f"
    and "resolve x g s1 = Some (ax, m, k, meta\<lparr>Last := Rand (rng s)\<rparr>)"
    and "wellFormedFile s1 x g"
    and "LoadFile x g s1 = Some (Inr c)"
proof -
  note d = wellFormedFileD [OF wu ru]
  let ?fk = "FileSourcekey meta"
  show st: "StoreFile u f c s = (Inr (), s1)"
    by (simp add: StoreFile_resolved [OF ru d(1)] s1_def)
  have t1: "datastore s1 = (datastore s)
       (Start meta \<mapsto> sealed ?fk (Rand (rng s + 1)) (JFile c (Rand (rng s))),
        m \<mapsto> sealed k (Rand (rng s + 2)) (JMeta (Start meta) (Rand (rng s)) ?fk))"
    and n1: "rng s < rng s1" by (simp_all add: s1_def)
  show "resolve u f s1 = Some (a, m, k, meta\<lparr>Last := Rand (rng s)\<rparr>)" "wellFormedFile s1 u f"
    using reader_after_write [OF ru wu t1 _ n1] by simp_all
  show rx1: "resolve x g s1 = Some (ax, m, k, meta\<lparr>Last := Rand (rng s)\<rparr>)"
    and "wellFormedFile s1 x g"
    using reader_after_write [OF rx wx t1 _ n1] by simp_all
  have neq: "Start meta \<noteq> Rand (rng s)" "m \<noteq> Start meta"
    using d by (auto dest: fresh_neq [where j = "rng s"])
  have b1: "datastore s1 (Start meta) = Some (sealed ?fk (Rand (rng s + 1)) (JFile c (Rand (rng s))))"
    using neq by (simp add: s1_def)
  have "LoadFile x g s1 = loadLoop (datastore s1) (Hkdf ?fk (Raw ''encrypt''))
      (Hkdf ?fk (Raw ''mac'')) (Rand (rng s)) (Start meta) []"
    using LoadFile_resolved [OF rx1] d(1) by simp
  also have "\<dots> = Some (Inr c)"
    using neq d(1) by (simp add: loadLoop_step [where ds = "datastore s1", OF _ b1] loadLoop_end)
  finally show "LoadFile x g s1 = Some (Inr c)" .
qed

lemma store_store_load:
  assumes ru: "resolve u f s = Some (a, m, k, meta)" and wu: "wellFormedFile s u f"
    and rx: "resolve x g s = Some (ax, m, k, meta)" and wx: "wellFormedFile s x g"
  shows "\<exists>s1 s2. StoreFile u f c1 s = (Inr (), s1) \<and> StoreFile u f c2 s1 = (Inr (), s2) \<and>
           LoadFile x g s2 = Some (Inr c2) \<and>
           s2 = s1\<lparr>rng := rng s1 + 3,
                  datastore := (datastore s1)
                    (Start meta \<mapsto> sealed (FileSourcekey meta) (Rand (rng s1 + 1))
                        (JFile c2 (Rand (rng s1))),
                     m \<mapsto> sealed k (Rand (rng s1 + 2))
                        (JMeta (Start meta) (Rand (rng s1)) (FileSourcekey meta)))\<rparr> \<and>
           resolve x g s2 =
             Some (ax, m, k, \<lparr>Start = Start meta, Last = Rand (rng s1),
                              FileSourcekey = FileSourcekey meta\<rparr>)"
proof -
  note a = store_load [OF ru wu rx wx, of c1]
  note b = store_load [OF a(2) a(3) a(4) a(5), of c2]
  have "meta\<lparr>Last := Rand (rng s), Last := Rand (rng s + 3)\<rparr> =
        \<lparr>Start = Start meta, Last = Rand (rng s + 3), FileSourcekey = FileSourcekey meta\<rparr>"
    by (cases meta) simp
  with a(1) b(1) b(6) b(4) show ?thesis by simp
qed

text \<open>two appends to a file of one block\<close>

lemma append_append_load:
  assumes ru: "resolve u f s = Some (a, m, k, meta)" and wu: "wellFormedFile s u f"
    and rx: "resolve x g s = Some (ax, m, k, meta)" and wx: "wellFormedFile s x g"
    and blk: "datastore s (Start meta) =
                Some (sealed (FileSourcekey meta) iv (JFile c1 (Last meta)))"
    and ne: "Start meta \<noteq> Last meta"
  shows "\<exists>s2 s3. AppendToFile u f c2 s = (Inr (), s2) \<and> AppendToFile u f c3 s2 = (Inr (), s3) \<and>
           LoadFile x g s3 = Some (Inr (c1 @ c2 @ c3))"
proof -
  note d = wellFormedFileD [OF wu ru]
  let ?fk = "FileSourcekey meta"
  let ?n = "rng s"
  let ?M = "\<lambda>i j. sealed k (Rand i) (JMeta (Start meta) (Rand j) ?fk)"
  let ?B = "\<lambda>i c j. sealed ?fk (Rand i) (JFile c (Rand j))"
  define s2 where "s2 = s\<lparr>rng := ?n + 3,
     datastore := (datastore s)(Last meta \<mapsto> ?B (?n + 1) c2 ?n, m \<mapsto> ?M (?n + 2) ?n)\<rparr>"
  define s3 where "s3 = s2\<lparr>rng := ?n + 6,
     datastore := (datastore s2)(Rand ?n \<mapsto> ?B (?n + 4) c3 (?n + 3), m \<mapsto> ?M (?n + 5) (?n + 3))\<rparr>"
  let ?meta2 = "meta\<lparr>Last := Rand ?n\<rparr>"
  let ?meta3 = "?meta2\<lparr>Last := Rand (?n + 3)\<rparr>"
  have st2: "AppendToFile u f c2 s = (Inr (), s2)"
    using AppendToFile_resolved [OF ru d(1), of c2] by (simp add: s2_def)
  have t2: "datastore s2 = (datastore s)(Last meta \<mapsto> ?B (?n + 1) c2 ?n, m \<mapsto> ?M (?n + 2) ?n)"
    and n2: "rng s2 = ?n + 3" by (simp_all add: s2_def)
  have ru2: "resolve u f s2 = Some (a, m, k, ?meta2)" and wu2: "wellFormedFile s2 u f"
    using reader_after_write [OF ru wu t2] n2 by simp_all
  have rx2: "resolve x g s2 = Some (ax, m, k, ?meta2)" and wx2: "wellFormedFile s2 x g"
    using reader_after_write [OF rx wx t2] n2 by simp_all
  have st3: "AppendToFile u f c3 s2 = (Inr (), s3)"
    using AppendToFile_resolved [OF ru2, of c3] d(1) by (simp add: s3_def n2 add.commute)
  have t3: "datastore s3 = (datastore s2)(Rand (rng s2 - 3) \<mapsto> ?B (?n + 4) c3 (?n + 3),
       m \<mapsto> sealed k (Rand (?n + 5)) (JMeta (Start ?meta2) (Rand (rng s2)) (FileSourcekey ?meta2)))"
    and n3: "rng s3 = ?n + 6" by (simp_all add: s3_def n2 add.commute)
  have rx3: "resolve x g s3 = Some (ax, m, k, ?meta3)"
    using reader_after_write(1) [OF rx2 wx2 t3] n2 n3 by simp
  have neq: "Start meta \<noteq> Rand ?n" "Start meta \<noteq> Rand (?n + 3)"
      "Last meta \<noteq> Rand ?n" "Last meta \<noteq> Rand (?n + 3)"
      "m \<noteq> Rand ?n" "m \<noteq> Start meta" "m \<noteq> Last meta"
    using d by (auto dest: fresh_neq [where j = "?n"] fresh_neq [where j = "?n + 3"])
  have b1: "datastore s3 (Start meta) = Some (sealed ?fk iv (JFile c1 (Last meta)))"
    and b2: "datastore s3 (Last meta) = Some (?B (?n + 1) c2 ?n)"
    and b3: "datastore s3 (Rand ?n) = Some (?B (?n + 4) c3 (?n + 3))"
    using neq ne blk by (auto simp add: s3_def s2_def)
  have "LoadFile x g s3 = loadLoop (datastore s3) (Hkdf ?fk (Raw ''encrypt'')) (Hkdf ?fk (Raw ''mac''))
      (Rand (?n + 3)) (Start meta) []"
    using LoadFile_resolved [OF rx3] d(1) by simp
  also have "\<dots> = Some (Inr (c1 @ c2 @ c3))"
    using neq d(1)
    by (simp add: loadLoop_step [where ds = "datastore s3", OF _ b1]
          loadLoop_step [where ds = "datastore s3", OF _ b2]
          loadLoop_step [where ds = "datastore s3", OF _ b3] loadLoop_end)
  finally show ?thesis using st2 st3 by blast
qed

text \<open>the state after the first \<open>StoreFile\<close> of a filename\<close>

lemma StoreFile_new_resolves:
  assumes l: "len16 (sourceKey u)" and n: "datastore s (Hkdf (sourceKey u) (Raw f)) = None"
  shows "\<exists>s1 a. StoreFile u f c s = (Inr (), s1) \<and>
     resolve u f s1 = Some (a, Rand (rng s + 4), Hkdf (sourceKey u) (Rand (rng s + 5)),
        \<lparr>Start = Rand (rng s), Last = Rand (rng s + 2),
         FileSourcekey = Hkdf (sourceKey u) (Rand (rng s + 1))\<rparr>) \<and>
     wellFormedFile s1 u f \<and>
     datastore s1 (Rand (rng s)) =
        Some (sealed (Hkdf (sourceKey u) (Rand (rng s + 1))) (Rand (rng s + 3))
               (JFile c (Rand (rng s + 2))))"
proof -
  let ?n = "rng s"
  let ?sk = "sourceKey u"
  let ?a = "\<lparr>Access.MetaUUID = Rand (?n + 4), Access.MetaSourcekey = Hkdf ?sk (Rand (?n + 5)),
     Access.InvitationUUID = uuid_Nil, Access.InvitationSourcekey = Raw [],
     InvitationList = Rand (?n + 9), ListKey = Hkdf ?sk (Rand (?n + 7)), IsOwner = True\<rparr>"
  define s1 where "s1 = snd (StoreFile u f c s)"
  note sf = StoreFile_new [OF l n, of c]
  have st: "StoreFile u f c s = (Inr (), s1)" by (simp add: s1_def sf)
  have n1: "rng s1 = ?n + 11" by (simp add: s1_def sf)
  have ba: "datastore s1 (Hkdf ?sk (Raw f)) =
      Some (sealed (Hkdf ?sk (Raw f)) (Rand (?n + 10)) (marshalAccess ?a))"
    by (simp add: s1_def sf marshalAccess_def)
  have bm: "datastore s1 (Rand (?n + 4)) = Some (sealed (Hkdf ?sk (Rand (?n + 5))) (Rand (?n + 6))
      (JMeta (Rand ?n) (Rand (?n + 2)) (Hkdf ?sk (Rand (?n + 1)))))"
    by (simp add: s1_def sf)
  have bf: "datastore s1 (Rand ?n) =
        Some (sealed (Hkdf ?sk (Rand (?n + 1))) (Rand (?n + 3)) (JFile c (Rand (?n + 2))))"
    by (simp add: s1_def sf)
  have r: "resolve u f s1 = Some (?a, Rand (?n + 4), Hkdf ?sk (Rand (?n + 5)),
        \<lparr>Start = Rand ?n, Last = Rand (?n + 2), FileSourcekey = Hkdf ?sk (Rand (?n + 1))\<rparr>)"
    by (rule resolveI [OF l ba _ _ bm]) (simp_all add: GetMeta_owner)
  have w: "wellFormedFile s1 u f"
    by (rule wellFormedFileI [OF r]) (simp_all add: n1)
  from st r w bf show ?thesis by blast
qed

lemma store_new_append_append_load:
  assumes l: "len16 (sourceKey u)" and n: "datastore s (Hkdf (sourceKey u) (Raw f)) = None"
  shows "\<exists>s1 s2 s3. StoreFile u f c1 s = (Inr (), s1) \<and> AppendToFile u f c2 s1 = (Inr (), s2) \<and>
           AppendToFile u f c3 s2 = (Inr (), s3) \<and> LoadFile u f s3 = Some (Inr (c1 @ c2 @ c3))"
proof -
  from StoreFile_new_resolves [OF l n, of c1] obtain s1 a where
    st: "StoreFile u f c1 s = (Inr (), s1)"
    and r: "resolve u f s1 = Some (a, Rand (rng s + 4), Hkdf (sourceKey u) (Rand (rng s + 5)),
        \<lparr>Start = Rand (rng s), Last = Rand (rng s + 2),
         FileSourcekey = Hkdf (sourceKey u) (Rand (rng s + 1))\<rparr>)"
    and w: "wellFormedFile s1 u f"
    and b: "datastore s1 (Rand (rng s)) =
        Some (sealed (Hkdf (sourceKey u) (Rand (rng s + 1))) (Rand (rng s + 3))
               (JFile c1 (Rand (rng s + 2))))"
    by blast
  from append_append_load [OF r w r w, of "Rand (rng s + 3)" c1 c2 c3] b st
  show ?thesis by auto
qed

lemma store_new_store_load:
  assumes l: "len16 (sourceKey u)" and n: "datastore s (Hkdf (sourceKey u) (Raw f)) = None"
  shows "\<exists>s1 s2. StoreFile u f c1 s = (Inr (), s1) \<and> StoreFile u f c2 s1 = (Inr (), s2) \<and>
           LoadFile u f s2 = Some (Inr c2)"
proof -
  from StoreFile_new_resolves [OF l n, of c1] obtain s1 a m k meta where
    st: "StoreFile u f c1 s = (Inr (), s1)"
    and r: "resolve u f s1 = Some (a, m, k, meta)"
    and w: "wellFormedFile s1 u f"
    by blast
  from store_load(1,6) [OF r w r w, of c2] st show ?thesis by blast
qed

text \<open>what \<open>AppendToFile\<close> reads: the Access, the Invitation and the Metadata\<close>

lemma AppendToFile_reads:
  assumes r: "resolve u f s = Some (a, m, k, meta)" and fk: "len16 (FileSourcekey meta)"
    and same: "\<forall>y \<in> {Hkdf (sourceKey u) (Raw f), Access.InvitationUUID a, m}. ds y = datastore s y"
  shows "AppendToFile u f c (s\<lparr>datastore := ds\<rparr>) =
     (Inr (), s\<lparr>rng := rng s + 3,
         datastore := ds
           (Last meta \<mapsto> sealed (FileSourcekey meta) (Rand (rng s + 1)) (JFile c (Rand (rng s))),
            m \<mapsto> sealed k (Rand (rng s + 2)) (JMeta (Start meta) (Rand (rng s)) (FileSourcekey meta)))\<rparr>)"
proof -
  have "resolve u f (s\<lparr>datastore := ds\<rparr>) = Some (a, m, k, meta)"
    by (rule resolve_frame [OF _ r]) (use same in simp_all)
  from AppendToFile_resolved [OF this fk, of c] show ?thesis by simp
qed

text \<open>the revoked recipient after a revocation: refused at the Metadata, but not by \<open>CreateInvitation\<close>\<close>

lemma revoked_create_invitation:
  assumes ru: "resolve u f s = Some (a, m, k, meta)" and wu: "wellFormedFile s u f"
    and own: "IsOwner a" and ld: "LoadFile u f s = Some (Inr c)"
    and lst: "datastore s (InvitationList a) =
                Some (sealed (ListKey a) ivl (JInvitationList (Some es)))"
    and lk: "len16 (ListKey a)"
    and il: "InvitationList a \<noteq> m" "InvitationList a \<noteq> Hkdf (sourceKey u) (Raw f)"
            "fresh s (InvitationList a)"
    and es: "distinct (map fst es)"
            "\<forall>e \<in> set es. len16 (snd e) \<and> fresh s (fst e) \<and>
                fst e \<notin> {m, Hkdf (sourceKey u) (Raw f), InvitationList a}"
    and fk: "k \<noteq> Hkdf (sourceKey u) (Rand (rng s + 4))"
    and lx: "len16 (sourceKey x)"
    and ax: "datastore s (Hkdf (sourceKey x) (Raw g)) =
               Some (sealed (Hkdf (sourceKey x) (Raw g)) iv (marshalAccess b))"
    and nb: "\<not> IsOwner b"
    and bi: "Access.InvitationUUID b = Hkdf (sourceKey u) (Raw (Username u @ f @ recipient))"
    and sh: "map_of es (Access.InvitationUUID b) = Some (Access.InvitationSourcekey b)"
    and ib: "datastore s (Access.InvitationUUID b) =
               Some (sealed (Access.InvitationSourcekey b) ivi (JInvitation m k))"
    and xn: "Hkdf (sourceKey x) (Raw g) \<notin>
               {m, InvitationList a, Hkdf (sourceKey u) (Raw f)} \<union> fst ` set es"
    and kr: "keystore s (r @ '' public key'') = Some (PKEEncKey pk)"
    and rn: "r \<noteq> Username x" and sx: "Sigkey x = DSSignKey sg"
  shows "\<exists>s'. RevokeAccess u f recipient s = Some (Inr (), s') \<and>
     LoadFile x g s' =
        Some (Inl ''integrity check failed: Meta struct has been tampered with'') \<and>
     (\<forall>c'. AppendToFile x g c' s' =
        (Inl ''integrity check failed: Meta struct has been tampered with'', s')) \<and>
     (\<forall>c'. StoreFile x g c' s' =
        (Inl ''integrity check failed: Meta struct has been tampered with'', s')) \<and>
     (\<exists>t. CreateInvitation x g r s' = (Inr (Rand (rng s' + 2)), t) \<and>
          datastore t (Hkdf (sourceKey x) (Raw (Username x @ g @ r))) =
            Some (sealed (Hkdf (sourceKey x) (Rand (rng s'))) (Rand (rng s' + 1))
                    (JInvitation m k)))"
proof -
  let ?I = "Hkdf (sourceKey u) (Raw (Username u @ f @ recipient))"
  let ?newk = "Hkdf (sourceKey u) (Rand (rng s + 4))"
  let ?es' = "AList.delete ?I es"
  have sh': "map_of es ?I \<noteq> None" using sh bi by simp
  from sh have mem: "(Access.InvitationUUID b, Access.InvitationSourcekey b) \<in> set es"
    by (rule map_of_SomeD)
  with es(2) have ik: "len16 (Access.InvitationSourcekey b)"
    and inot: "Access.InvitationUUID b \<notin> {m, Hkdf (sourceKey u) (Raw f), InvitationList a}"
    by fastforce+
  have sub: "set ?es' \<subseteq> set es" by (rule delete_subset)
  from RevokeAccess_post [OF ru wu own ld lst lk il es sh']
  obtain s' ivm where
    rv: "RevokeAccess u f recipient s = Some (Inr (), s')"
    and ks: "keystore s' = keystore s"
    and pm: "datastore s' m = Some (sealed ?newk ivm
               (JMeta (Rand (rng s)) (Rand (rng s + 2)) (Hkdf (sourceKey u) (Rand (rng s + 1)))))"
    and fr: "\<forall>y. y \<notin> {Rand (rng s), m, InvitationList a, Hkdf (sourceKey u) (Raw f)} \<union> fst ` set ?es'
          \<longrightarrow> datastore s' y = datastore s y"
    by blast
  have "Access.InvitationUUID b \<notin> fst ` set ?es'"
    unfolding bi by (rule delete_notin_dom)
  then have "datastore s' (Access.InvitationUUID b) = datastore s (Access.InvitationUUID b)"
    using inot fr by (auto simp add: bi)
  then have 1: "datastore s' (Access.InvitationUUID b) =
        Some (sealed (Access.InvitationSourcekey b) ivi (JInvitation m k))"
    by (simp add: ib)
  have 2: "GetMetaUUIDAndSourceKey b s' = Inr (m, k)"
    by (rule GetMeta_sharee [OF nb ik 1])
  have acc: "datastore s' (Hkdf (sourceKey x) (Raw g)) =
               Some (sealed (Hkdf (sourceKey x) (Raw g)) iv (marshalAccess b))"
  proof -
    have "Hkdf (sourceKey x) (Raw g) \<notin> fst ` set ?es'" using xn sub by blast
    then have "datastore s' (Hkdf (sourceKey x) (Raw g)) = datastore s (Hkdf (sourceKey x) (Raw g))"
      using xn fr by simp
    then show ?thesis by (simp add: ax)
  qed
  have k: "len16 k" using resolve_SomeD(4) [OF ru] by (auto simp add: opens_Some_iff)
  have 3: "opens (datastore s' m) k = None" using fk by (simp add: pm)
  note ci = CreateInvitation_sharee [where s = s' and u = x and f = g and r = r and pk = pk
      and sg = sg and a = b and m = m and k = k and p = "marshalAccess b"]
  have 4: "\<exists>t. CreateInvitation x g r s' = (Inr (Rand (rng s' + 2)), t) \<and>
          datastore t (Hkdf (sourceKey x) (Raw (Username x @ g @ r))) =
            Some (sealed (Hkdf (sourceKey x) (Rand (rng s'))) (Rand (rng s' + 1))
                    (JInvitation m k))"
    by (subst ci) (use kr rn lx nb 2 sx in \<open>simp_all add: ks acc\<close>)
  from meta_rekeyed [OF lx acc 2 k pm] fk rv 4 show ?thesis by simp
qed






lemma init1: "InitUser ''alice'' ''password'' emptyWorld = (Inr alice, w1)"
  and w1: "rng w1 = 3"
    "keystore w1 = [''alice public key'' \<mapsto> PKEEncKey 0, ''alice signature key'' \<mapsto> DSVerifyKey 1]"
    "datastore w1 = [Argon2 (Raw ''alice'') (Raw ''UUID'') \<mapsto>
        sealed skA (Rand 2) (JUser ''alice'' (PKEDecKey 0) (DSSignKey 1))]"
  by (simp_all add: w1_def InitUser_new emptyWorld_def alice_def KeystoreSet_def sealed_def)

lemma init2: "InitUser ''bob'' ''password'' w1 = (Inr bob, w2)"
  and w2: "rng w2 = 6"
    "keystore w2 = (keystore w1)(''bob public key'' \<mapsto> PKEEncKey 3,
        ''bob signature key'' \<mapsto> DSVerifyKey 4)"
    "datastore w2 = (datastore w1)(Argon2 (Raw ''bob'') (Raw ''UUID'') \<mapsto>
        sealed skB (Rand 5) (JUser ''bob'' (PKEDecKey 3) (DSSignKey 4)))"
  by (simp_all add: w2_def InitUser_new w1 bob_def KeystoreSet_def sealed_def)

lemma init3: "InitUser ''charles'' ''password'' w2 = (Inr charles, w3)"
  and w3: "rng w3 = 9"
    "keystore w3 = (keystore w2)(''charles public key'' \<mapsto> PKEEncKey 6,
        ''charles signature key'' \<mapsto> DSVerifyKey 7)"
    "datastore w3 = (datastore w2)(Argon2 (Raw ''charles'') (Raw ''UUID'') \<mapsto>
        sealed skC (Rand 8) (JUser ''charles'' (PKEDecKey 6) (DSSignKey 7)))"
  by (simp_all add: w3_def InitUser_new w1 w2 charles_def KeystoreSet_def sealed_def)

lemma store4: "StoreFile alice ''a'' ''hello'' w3 = (Inr (), w4)"
  and w4: "rng w4 = 20" "keystore w4 = keystore w3"
    "datastore w4 = (datastore w3)
       (Rand 9 \<mapsto> sealed (Hkdf skA (Rand 10)) (Rand 12) (JFile ''hello'' (Rand 11)),
        Rand 13 \<mapsto> sealed (Hkdf skA (Rand 14)) (Rand 15) (JMeta (Rand 9) (Rand 11) (Hkdf skA (Rand 10))),
        Rand 18 \<mapsto> sealed (Hkdf skA (Rand 16)) (Rand 17) (JInvitationList (Some [])),
        Hkdf skA (Raw ''a'') \<mapsto> sealed (Hkdf skA (Raw ''a'')) (Rand 19)
          (JAccess (Rand 13) (Hkdf skA (Rand 14)) uuid_Nil (Raw []) (Rand 18) (Hkdf skA (Rand 16)) True))"
  by (simp_all add: w4_def StoreFile_new w1 w2 w3 alice_def)

lemmas ws = w1 w2 w3 w4

lemma invite5: "CreateInvitation alice ''a'' ''bob'' w4 = (Inr (Rand 22), w5)"
  and w5: "rng w5 = 24" "keystore w5 = keystore w4"
    "datastore w5 = (datastore w4)
       (invB \<mapsto> sealed (Hkdf skA (Rand 20)) (Rand 21) (JInvitation (Rand 13) (Hkdf skA (Rand 14))),
        Rand 22 \<mapsto> pointer 3 1 invB (Hkdf skA (Rand 20)),
        Rand 18 \<mapsto> sealed (Hkdf skA (Rand 16)) (Rand 23)
           (JInvitationList (Some [(invB, Hkdf skA (Rand 20))])))"
proof -
  have "CreateInvitation alice ''a'' ''bob'' w4 = (Inr (Rand 22),
     w4\<lparr>rng := 24, datastore := (datastore w4)
       (invB \<mapsto> sealed (Hkdf skA (Rand 20)) (Rand 21) (JInvitation (Rand 13) (Hkdf skA (Rand 14))),
        Rand 22 \<mapsto> pointer 3 1 invB (Hkdf skA (Rand 20)),
        Rand 18 \<mapsto> sealed (Hkdf skA (Rand 16)) (Rand 23)
           (JInvitationList (Some [(invB, Hkdf skA (Rand 20))])))\<rparr>)"
    by (subst CreateInvitation_owner [where a = accA and pk = 3 and sg = 1 and es = "[]"
          and ivl = "Rand 17"
          and p = "JAccess (Rand 13) (Hkdf skA (Rand 14)) uuid_Nil (Raw []) (Rand 18) (Hkdf skA (Rand 16)) True"])
       (simp_all add: ws alice_def)
  then show "CreateInvitation alice ''a'' ''bob'' w4 = (Inr (Rand 22), w5)"
    and "rng w5 = 24" "keystore w5 = keystore w4"
    "datastore w5 = (datastore w4)
       (invB \<mapsto> sealed (Hkdf skA (Rand 20)) (Rand 21) (JInvitation (Rand 13) (Hkdf skA (Rand 14))),
        Rand 22 \<mapsto> pointer 3 1 invB (Hkdf skA (Rand 20)),
        Rand 18 \<mapsto> sealed (Hkdf skA (Rand 16)) (Rand 23)
           (JInvitationList (Some [(invB, Hkdf skA (Rand 20))])))"
    by (simp_all add: w5_def)
qed

lemma accept6: "AcceptInvitation bob ''alice'' (Rand 22) ''b'' w5 = (Inr (), w6)"
  and w6: "rng w6 = 25" "keystore w6 = keystore w5"
    "datastore w6 = (datastore w5)
       (Hkdf skB (Raw ''b'') \<mapsto> sealed (Hkdf skB (Raw ''b'')) (Rand 24)
          (JAccess uuid_Nil (Raw []) invB (Hkdf skA (Rand 20)) uuid_Nil (Raw []) False))"
proof -
  have "AcceptInvitation bob ''alice'' (Rand 22) ''b'' w5 = (Inr (),
     w5\<lparr>rng := 25, datastore := (datastore w5)
       (Hkdf skB (Raw ''b'') \<mapsto> sealed (Hkdf skB (Raw ''b'')) (Rand 24)
          (JAccess uuid_Nil (Raw []) invB (Hkdf skA (Rand 20)) uuid_Nil (Raw []) False))\<rparr>)"
    by (subst AcceptInvitation_ok [where pk = 3 and sg = 1 and i = invB
          and ik = "Hkdf skA (Rand 20)" and iv = "Rand 21"
          and pl = "JInvitation (Rand 13) (Hkdf skA (Rand 14))"])
       (simp_all add: ws w5 bob_def)
  then show "AcceptInvitation bob ''alice'' (Rand 22) ''b'' w5 = (Inr (), w6)"
    and "rng w6 = 25" "keystore w6 = keystore w5"
    "datastore w6 = (datastore w5)
       (Hkdf skB (Raw ''b'') \<mapsto> sealed (Hkdf skB (Raw ''b'')) (Rand 24)
          (JAccess uuid_Nil (Raw []) invB (Hkdf skA (Rand 20)) uuid_Nil (Raw []) False))"
    by (simp_all add: w6_def)
qed

lemma invite7: "CreateInvitation alice ''a'' ''charles'' w6 = (Inr (Rand 27), w7)"
  and w7: "rng w7 = 29" "keystore w7 = keystore w6"
    "datastore w7 = (datastore w6)
       (invC \<mapsto> sealed (Hkdf skA (Rand 25)) (Rand 26) (JInvitation (Rand 13) (Hkdf skA (Rand 14))),
        Rand 27 \<mapsto> pointer 6 1 invC (Hkdf skA (Rand 25)),
        Rand 18 \<mapsto> sealed (Hkdf skA (Rand 16)) (Rand 28)
           (JInvitationList (Some [(invB, Hkdf skA (Rand 20)), (invC, Hkdf skA (Rand 25))])))"
proof -
  have "CreateInvitation alice ''a'' ''charles'' w6 = (Inr (Rand 27),
     w6\<lparr>rng := 29, datastore := (datastore w6)
       (invC \<mapsto> sealed (Hkdf skA (Rand 25)) (Rand 26) (JInvitation (Rand 13) (Hkdf skA (Rand 14))),
        Rand 27 \<mapsto> pointer 6 1 invC (Hkdf skA (Rand 25)),
        Rand 18 \<mapsto> sealed (Hkdf skA (Rand 16)) (Rand 28)
           (JInvitationList (Some [(invB, Hkdf skA (Rand 20)), (invC, Hkdf skA (Rand 25))])))\<rparr>)"
    by (subst CreateInvitation_owner [where a = accA and pk = 6 and sg = 1
          and es = "[(invB, Hkdf skA (Rand 20))]" and ivl = "Rand 23"
          and p = "JAccess (Rand 13) (Hkdf skA (Rand 14)) uuid_Nil (Raw []) (Rand 18) (Hkdf skA (Rand 16)) True"])
       (simp_all add: ws w5 w6 alice_def)
  then show "CreateInvitation alice ''a'' ''charles'' w6 = (Inr (Rand 27), w7)"
    and "rng w7 = 29" "keystore w7 = keystore w6"
    "datastore w7 = (datastore w6)
       (invC \<mapsto> sealed (Hkdf skA (Rand 25)) (Rand 26) (JInvitation (Rand 13) (Hkdf skA (Rand 14))),
        Rand 27 \<mapsto> pointer 6 1 invC (Hkdf skA (Rand 25)),
        Rand 18 \<mapsto> sealed (Hkdf skA (Rand 16)) (Rand 28)
           (JInvitationList (Some [(invB, Hkdf skA (Rand 20)), (invC, Hkdf skA (Rand 25))])))"
    by (simp_all add: w7_def)
qed

lemma accept8: "AcceptInvitation charles ''alice'' (Rand 27) ''c'' w7 = (Inr (), w8)"
  and w8: "rng w8 = 30" "keystore w8 = keystore w7"
    "datastore w8 = (datastore w7)
       (Hkdf skC (Raw ''c'') \<mapsto> sealed (Hkdf skC (Raw ''c'')) (Rand 29)
          (JAccess uuid_Nil (Raw []) invC (Hkdf skA (Rand 25)) uuid_Nil (Raw []) False))"
proof -
  have "AcceptInvitation charles ''alice'' (Rand 27) ''c'' w7 = (Inr (),
     w7\<lparr>rng := 30, datastore := (datastore w7)
       (Hkdf skC (Raw ''c'') \<mapsto> sealed (Hkdf skC (Raw ''c'')) (Rand 29)
          (JAccess uuid_Nil (Raw []) invC (Hkdf skA (Rand 25)) uuid_Nil (Raw []) False))\<rparr>)"
    by (subst AcceptInvitation_ok [where pk = 6 and sg = 1 and i = invC
          and ik = "Hkdf skA (Rand 25)" and iv = "Rand 26"
          and pl = "JInvitation (Rand 13) (Hkdf skA (Rand 14))"])
       (simp_all add: ws w5 w6 w7 charles_def)
  then show "AcceptInvitation charles ''alice'' (Rand 27) ''c'' w7 = (Inr (), w8)"
    and "rng w8 = 30" "keystore w8 = keystore w7"
    "datastore w8 = (datastore w7)
       (Hkdf skC (Raw ''c'') \<mapsto> sealed (Hkdf skC (Raw ''c'')) (Rand 29)
          (JAccess uuid_Nil (Raw []) invC (Hkdf skA (Rand 25)) uuid_Nil (Raw []) False))"
    by (simp_all add: w8_def)
qed

lemmas ws8 = w1 w2 w3 w4 w5 w6 w7 w8

text \<open>the blobs of state \<open>w8\<close>\<close>

lemma blobs8:
  shows "datastore w8 (Hkdf skA (Raw ''a'')) = Some (sealed (Hkdf skA (Raw ''a'')) (Rand 19) (marshalAccess accA))"
    and "datastore w8 (Hkdf skB (Raw ''b'')) = Some (sealed (Hkdf skB (Raw ''b'')) (Rand 24) (marshalAccess accB))"
    and "datastore w8 (Hkdf skC (Raw ''c'')) = Some (sealed (Hkdf skC (Raw ''c'')) (Rand 29) (marshalAccess accC))"
    and "datastore w8 (Rand 13) = Some (sealed (Hkdf skA (Rand 14)) (Rand 15) (JMeta (Rand 9) (Rand 11) (Hkdf skA (Rand 10))))"
    and "datastore w8 (Rand 9) = Some (sealed (Hkdf skA (Rand 10)) (Rand 12) (JFile ''hello'' (Rand 11)))"
    and "datastore w8 invB = Some (sealed (Hkdf skA (Rand 20)) (Rand 21) (JInvitation (Rand 13) (Hkdf skA (Rand 14))))"
    and "datastore w8 invC = Some (sealed (Hkdf skA (Rand 25)) (Rand 26) (JInvitation (Rand 13) (Hkdf skA (Rand 14))))"
    and "datastore w8 (Rand 18) = Some (sealed (Hkdf skA (Rand 16)) (Rand 28)
           (JInvitationList (Some [(invB, Hkdf skA (Rand 20)), (invC, Hkdf skA (Rand 25))])))"
  by (simp_all add: ws8 marshalAccess_def)

lemma keys8:
  "keystore w8 ''alice public key'' = Some (PKEEncKey 0)"
  "keystore w8 ''bob public key'' = Some (PKEEncKey 3)"
  "keystore w8 ''charles public key'' = Some (PKEEncKey 6)"
  "keystore w8 ''dave public key'' = None"
  by (simp_all add: ws8)

lemma getmeta8:
  "GetMetaUUIDAndSourceKey accA w8 = Inr (Rand 13, Hkdf skA (Rand 14))"
  "GetMetaUUIDAndSourceKey accB w8 = Inr (Rand 13, Hkdf skA (Rand 14))"
  "GetMetaUUIDAndSourceKey accC w8 = Inr (Rand 13, Hkdf skA (Rand 14))"
    apply (simp add: GetMeta_owner)
   apply (rule GetMeta_sharee [where iv = "Rand 21"]; simp add: blobs8)
  apply (rule GetMeta_sharee [where iv = "Rand 26"]; simp add: blobs8)
  done

lemma resolve8:
  "resolve alice ''a'' w8 = Some (accA, Rand 13, Hkdf skA (Rand 14), metaA)"
  "resolve bob ''b'' w8 = Some (accB, Rand 13, Hkdf skA (Rand 14), metaA)"
  "resolve charles ''c'' w8 = Some (accC, Rand 13, Hkdf skA (Rand 14), metaA)"
  by (rule resolveI [OF _ _ _ _ blobs8(4)];
      simp add: alice_def bob_def charles_def blobs8 getmeta8)+

lemma wellFormed8:
  "wellFormedFile w8 alice ''a''" "wellFormedFile w8 bob ''b''" "wellFormedFile w8 charles ''c''"
    apply (rule wellFormedFileI [OF resolve8(1)]; simp add: w8 alice_def)
   apply (rule wellFormedFileI [OF resolve8(2)]; simp add: w8 bob_def fresh_def)
  apply (rule wellFormedFileI [OF resolve8(3)]; simp add: w8 charles_def fresh_def)
  done

lemma load8:
  "LoadFile alice ''a'' w8 = Some (Inr ''hello'')"
  "LoadFile bob ''b'' w8 = Some (Inr ''hello'')"
  "LoadFile charles ''c'' w8 = Some (Inr ''hello'')"
  by (simp_all add: LoadFile_resolved [OF resolve8(1)] LoadFile_resolved [OF resolve8(2)]
        LoadFile_resolved [OF resolve8(3)]
        loadLoop_step [where ds = "datastore w8", OF _ blobs8(5)] loadLoop_end)

text \<open>the state a successful call returns\<close>

lemma the_result:
  "\<exists>s'. r = Some (Inr (), s') \<and> Q s' \<Longrightarrow> r = Some (Inr (), snd (the r)) \<and> Q (snd (the r))"
  by auto

lemma revoke8_hyps:
  shows "IsOwner accA" "len16 (ListKey accA)"
      "InvitationList accA \<noteq> Rand 13" "InvitationList accA \<noteq> Hkdf (sourceKey alice) (Raw ''a'')"
      "fresh w8 (InvitationList accA)"
      "distinct (map fst [(invB, Hkdf skA (Rand 20)), (invC, Hkdf skA (Rand 25))])"
      "\<forall>e \<in> set [(invB, Hkdf skA (Rand 20)), (invC, Hkdf skA (Rand 25))].
          len16 (snd e) \<and> fresh w8 (fst e) \<and>
          fst e \<notin> {Rand 13, Hkdf (sourceKey alice) (Raw ''a''), InvitationList accA}"
      "map_of [(invB, Hkdf skA (Rand 20)), (invC, Hkdf skA (Rand 25))]
          (Hkdf (sourceKey alice) (Raw (Username alice @ ''a'' @ ''bob''))) \<noteq> None"
      "Hkdf skA (Rand 14) \<noteq> Hkdf (sourceKey alice) (Rand (rng w8 + 4))"
    and "datastore w8 (InvitationList accA) = Some (sealed (ListKey accA) (Rand 28)
      (JInvitationList (Some [(invB, Hkdf skA (Rand 20)), (invC, Hkdf skA (Rand 25))])))"
  by (simp_all add: alice_def w8(1) fresh_def blobs8)


section \<open>Registration and login\<close>

text \<open>
  C8. \<open>InitUser\<close> fails on the empty username, and fails when a value is already stored at
  the user UUID of the username; in both cases the state it returns is the state it was
  given: neither the Datastore nor the Keystore (nor the random source) has changed.
\<close>

theorem InitUser_rejects:
  "InitUser [] password s = (Inl ''username cannot be empty'', s) \<and>
   (username \<noteq> [] \<and> GetUserUUID username = Inr userUUID \<and> datastore s userUUID \<noteq> None
      \<longrightarrow> InitUser username password s = (Inl ''username already exists'', s))"
  by (auto simp add: InitUser_def GetUserUUID_def uuid_FromBytes_def Argon2Key_def
        DatastoreGet_def LENGTH_def)

theorem InitUser_rejects_witness:
  "GetUserUUID ''alice'' = Inr (Argon2 (Raw ''alice'') (Raw ''UUID'')) \<and>
   datastore (snd (InitUser ''alice'' ''password'' emptyWorld))
     (Argon2 (Raw ''alice'') (Raw ''UUID'')) \<noteq> None \<and>
   InitUser ''alice'' ''password'' (snd (InitUser ''alice'' ''password'' emptyWorld)) =
     (Inl ''username already exists'', snd (InitUser ''alice'' ''password'' emptyWorld))"
proof -
  have uuid: "GetUserUUID ''alice'' = Inr (Argon2 (Raw ''alice'') (Raw ''UUID''))"
    by (simp add: GetUserUUID_def uuid_FromBytes_def Argon2Key_def)
  have taken: "datastore (snd (InitUser ''alice'' ''password'' emptyWorld))
     (Argon2 (Raw ''alice'') (Raw ''UUID'')) \<noteq> None"
    by (simp add: InitUser_new emptyWorld_def)
  from InitUser_rejects [of "''password''" "snd (InitUser ''alice'' ''password'' emptyWorld)"
      "''alice''" "Argon2 (Raw ''alice'') (Raw ''UUID'')"] uuid taken
  show ?thesis by simp
qed



text \<open>
  C9. \<open>GetUser\<close> fails when the username is empty, when nothing is stored at the user UUID,
  when the HMAC check of the stored record under the key derived from
  \<open>Argon2(password, username)\<close> fails, and when the decoded username differs from the one
  given. Conversely, when it returns a session, the username is non-empty and every one of
  these checks has passed.
\<close>

theorem GetUser_identity_binding:
  "(username = [] \<longrightarrow> isl (GetUser username password s)) \<and>
   (GetUserUUID username = Inr userUUID \<and> datastore s userUUID = None
      \<longrightarrow> isl (GetUser username password s)) \<and>
   (GetUserUUID username = Inr userUUID \<and> datastore s userUUID = Some v \<and>
    UnpackValue v = Inr (msg, tag) \<and>
    GetTwoHASHKDFKeys (GetSourceKey username password) ENCRYPT MAC = Inr (encryptKey, hmacKey) \<and>
    CheckTag msg tag hmacKey \<noteq> Inr ()
      \<longrightarrow> isl (GetUser username password s)) \<and>
   (GetUserUUID username = Inr userUUID \<and> datastore s userUUID = Some v \<and>
    UnpackValue v = Inr (msg, tag) \<and>
    GetTwoHASHKDFKeys (GetSourceKey username password) ENCRYPT MAC = Inr (encryptKey, hmacKey) \<and>
    SymDec encryptKey msg = Some plaintext \<and> unmarshalUser plaintext = Inr decoded \<and>
    Username decoded \<noteq> username
      \<longrightarrow> isl (GetUser username password s)) \<and>
   (GetUser username password s = Inr userdata
      \<longrightarrow> username \<noteq> [] \<and>
          (\<exists>uid v' msg' tag' encryptKey' hmacKey' plaintext' decoded'.
             GetUserUUID username = Inr uid \<and> datastore s uid = Some v' \<and>
             UnpackValue v' = Inr (msg', tag') \<and>
             GetTwoHASHKDFKeys (GetSourceKey username password) ENCRYPT MAC =
               Inr (encryptKey', hmacKey') \<and>
             CheckTag msg' tag' hmacKey' = Inr () \<and>
             SymDec encryptKey' msg' = Some plaintext' \<and>
             unmarshalUser plaintext' = Inr decoded' \<and>
             Username decoded' = username \<and>
             userdata = decoded'\<lparr>sourceKey := GetSourceKey username password\<rparr>))"
proof (intro conjI impI)
  assume "username = []"
  then show "isl (GetUser username password s)" by (simp add: GetUser_def)
next
  assume "GetUserUUID username = Inr userUUID \<and> datastore s userUUID = None"
  then show "isl (GetUser username password s)"
    by (simp add: GetUser_def DatastoreGet_def)
next
  assume "GetUserUUID username = Inr userUUID \<and> datastore s userUUID = Some v \<and>
    UnpackValue v = Inr (msg, tag) \<and>
    GetTwoHASHKDFKeys (GetSourceKey username password) ENCRYPT MAC = Inr (encryptKey, hmacKey) \<and>
    CheckTag msg tag hmacKey \<noteq> Inr ()"
  then show "isl (GetUser username password s)"
    by (auto simp add: GetUser_def DatastoreGet_def Let_def split: sum.splits)
next
  assume "GetUserUUID username = Inr userUUID \<and> datastore s userUUID = Some v \<and>
    UnpackValue v = Inr (msg, tag) \<and>
    GetTwoHASHKDFKeys (GetSourceKey username password) ENCRYPT MAC = Inr (encryptKey, hmacKey) \<and>
    SymDec encryptKey msg = Some plaintext \<and> unmarshalUser plaintext = Inr decoded \<and>
    Username decoded \<noteq> username"
  then show "isl (GetUser username password s)"
    by (auto simp add: GetUser_def DatastoreGet_def Let_def split: sum.splits)
next
  assume ok: "GetUser username password s = Inr userdata"
  then show "username \<noteq> []" by (auto simp add: GetUser_def)
  from ok show "\<exists>uid v' msg' tag' encryptKey' hmacKey' plaintext' decoded'.
             GetUserUUID username = Inr uid \<and> datastore s uid = Some v' \<and>
             UnpackValue v' = Inr (msg', tag') \<and>
             GetTwoHASHKDFKeys (GetSourceKey username password) ENCRYPT MAC =
               Inr (encryptKey', hmacKey') \<and>
             CheckTag msg' tag' hmacKey' = Inr () \<and>
             SymDec encryptKey' msg' = Some plaintext' \<and>
             unmarshalUser plaintext' = Inr decoded' \<and>
             Username decoded' = username \<and>
             userdata = decoded'\<lparr>sourceKey := GetSourceKey username password\<rparr>"
    by (auto simp add: GetUser_def DatastoreGet_def Let_def
          split: if_splits sum.splits option.splits prod.splits)
qed

theorem GetUser_identity_binding_witness:
  "GetUser ''alice'' ''password'' (snd (InitUser ''alice'' ''password'' emptyWorld)) =
     Inr \<lparr>Username = ''alice'', RSAkey = PKEDecKey 0, Sigkey = DSSignKey 1,
           sourceKey = Argon2 (Raw ''password'') (Raw ''alice'')\<rparr> \<and>
   isl (GetUser ''alice'' ''wrong'' (snd (InitUser ''alice'' ''password'' emptyWorld))) \<and>
   isl (GetUser ''bob'' ''password'' (snd (InitUser ''alice'' ''password'' emptyWorld))) \<and>
   isl (GetUser [] ''password'' (snd (InitUser ''alice'' ''password'' emptyWorld)))"
proof -
  let ?s = "snd (InitUser ''alice'' ''password'' emptyWorld)"
  let ?ct = "Ciphertext (Hkdf (Argon2 (Raw ''password'') (Raw ''alice'')) (Raw ''encrypt''))
               (Rand 2) (JUser ''alice'' (PKEDecKey 0) (DSSignKey 1))"
  let ?tg = "Tag (Hkdf (Argon2 (Raw ''password'') (Raw ''alice'')) (Raw ''mac'')) ?ct"
  have ds: "datastore ?s (Argon2 (Raw ''alice'') (Raw ''UUID'')) = Some (JEnvelope ?ct ?tg)"
      "datastore ?s (Argon2 (Raw ''bob'') (Raw ''UUID'')) = None"
    by (simp_all add: InitUser_new emptyWorld_def)
  have good: "GetUser ''alice'' ''password'' ?s =
     Inr \<lparr>Username = ''alice'', RSAkey = PKEDecKey 0, Sigkey = DSSignKey 1,
           sourceKey = Argon2 (Raw ''password'') (Raw ''alice'')\<rparr>"
    by (simp add: GetUser_Inr_iff ds)
  have u: "GetUserUUID ''alice'' = Inr (Argon2 (Raw ''alice'') (Raw ''UUID''))"
    and b: "GetUserUUID ''bob'' = Inr (Argon2 (Raw ''bob'') (Raw ''UUID''))"
    by (simp_all add: GetUserUUID_def uuid_FromBytes_def Argon2Key_def)
  have k: "GetTwoHASHKDFKeys (GetSourceKey ''alice'' ''wrong'') ENCRYPT MAC =
      Inr (Hkdf (Argon2 (Raw ''wrong'') (Raw ''alice'')) (Raw ''encrypt''),
           Hkdf (Argon2 (Raw ''wrong'') (Raw ''alice'')) (Raw ''mac''))"
    by (simp add: prim_defs)
  have c: "CheckTag ?ct ?tg (Hkdf (Argon2 (Raw ''wrong'') (Raw ''alice'')) (Raw ''mac'')) \<noteq> Inr ()"
    by (simp add: prim_defs)
  note gb = GetUser_identity_binding
  have wrong: "isl (GetUser ''alice'' ''wrong'' ?s)"
    using gb [of "''alice''" "''wrong''" ?s "Argon2 (Raw ''alice'') (Raw ''UUID'')"
        "JEnvelope ?ct ?tg" ?ct ?tg
        "Hkdf (Argon2 (Raw ''wrong'') (Raw ''alice'')) (Raw ''encrypt'')"
        "Hkdf (Argon2 (Raw ''wrong'') (Raw ''alice'')) (Raw ''mac'')"] u k c
    by (simp add: ds)
  have missing: "isl (GetUser ''bob'' ''password'' ?s)"
    using gb [of "''bob''" "''password''" ?s "Argon2 (Raw ''bob'') (Raw ''UUID'')"] b
    by (simp add: ds)
  have empty: "isl (GetUser [] ''password'' ?s)"
    using gb [of "[]" "''password''" ?s] by simp
  from good wrong missing empty show ?thesis by simp
qed






section \<open>Storing, appending and loading\<close>

text \<open>
  Claim C2. After \<open>StoreFile\<close> of \<open>c1\<close> and two \<open>AppendToFile\<close> of \<open>c2\<close> and \<open>c3\<close>, \<open>LoadFile\<close> returns
  \<open>c1 @ c2 @ c3\<close>: for a filename that is new in the user's namespace, and for an existing file,
  where the load may be done by any user whose Access resolves to the same Metadata. An append
  reads the Access, the Invitation and the Metadata only: whatever the blob store holds at the
  other UUIDs, the File blocks included, it writes one File block at the Metadata's \<open>Last\<close>, with
  the appended bytes and a new random \<open>next\<close>, and writes the Metadata again with \<open>Last\<close> set to
  that \<open>next\<close>. The random UUIDs and keys drawn by the calls are taken to be new
  (\<open>wellFormedFile\<close>).
\<close>

theorem store_append_append_load_concat:
  "(len16 (sourceKey u) \<and> datastore s (Hkdf (sourceKey u) (Raw f)) = None \<longrightarrow>
      (\<exists>s1 s2 s3. StoreFile u f c1 s = (Inr (), s1) \<and> AppendToFile u f c2 s1 = (Inr (), s2) \<and>
          AppendToFile u f c3 s2 = (Inr (), s3) \<and> LoadFile u f s3 = Some (Inr (c1 @ c2 @ c3)))) \<and>
   (resolve u f s = Some (a, m, k, meta) \<and> wellFormedFile s u f \<and>
    resolve x g s = Some (ax, m, k, meta) \<and> wellFormedFile s x g \<longrightarrow>
      (\<exists>s1 s2 s3. StoreFile u f c1 s = (Inr (), s1) \<and> AppendToFile u f c2 s1 = (Inr (), s2) \<and>
          AppendToFile u f c3 s2 = (Inr (), s3) \<and> LoadFile x g s3 = Some (Inr (c1 @ c2 @ c3)))) \<and>
   (resolve u f s = Some (a, m, k, meta) \<and> len16 (FileSourcekey meta) \<and>
    (\<forall>y \<in> {Hkdf (sourceKey u) (Raw f), Access.InvitationUUID a, m}. ds y = datastore s y) \<longrightarrow>
      AppendToFile u f c (s\<lparr>datastore := ds\<rparr>) =
        (Inr (), s\<lparr>rng := rng s + 3,
           datastore := ds
             (Last meta \<mapsto> sealed (FileSourcekey meta) (Rand (rng s + 1)) (JFile c (Rand (rng s))),
              m \<mapsto> sealed k (Rand (rng s + 2))
                     (JMeta (Start meta) (Rand (rng s)) (FileSourcekey meta)))\<rparr>))"
proof (intro conjI impI)
  assume h: "len16 (sourceKey u) \<and> datastore s (Hkdf (sourceKey u) (Raw f)) = None"
  show "\<exists>s1 s2 s3. StoreFile u f c1 s = (Inr (), s1) \<and> AppendToFile u f c2 s1 = (Inr (), s2) \<and>
          AppendToFile u f c3 s2 = (Inr (), s3) \<and> LoadFile u f s3 = Some (Inr (c1 @ c2 @ c3))"
    by (rule store_new_append_append_load [OF h [THEN conjunct1] h [THEN conjunct2]])
next
  assume h: "resolve u f s = Some (a, m, k, meta) \<and> wellFormedFile s u f \<and>
    resolve x g s = Some (ax, m, k, meta) \<and> wellFormedFile s x g"
  show "\<exists>s1 s2 s3. StoreFile u f c1 s = (Inr (), s1) \<and> AppendToFile u f c2 s1 = (Inr (), s2) \<and>
          AppendToFile u f c3 s2 = (Inr (), s3) \<and> LoadFile x g s3 = Some (Inr (c1 @ c2 @ c3))"
    by (rule store_append_append_load [OF h [THEN conjunct1] h [THEN conjunct2, THEN conjunct1]
          h [THEN conjunct2, THEN conjunct2, THEN conjunct1]
          h [THEN conjunct2, THEN conjunct2, THEN conjunct2]])
next
  assume h: "resolve u f s = Some (a, m, k, meta) \<and> len16 (FileSourcekey meta) \<and>
    (\<forall>y \<in> {Hkdf (sourceKey u) (Raw f), Access.InvitationUUID a, m}. ds y = datastore s y)"
  show "AppendToFile u f c (s\<lparr>datastore := ds\<rparr>) =
        (Inr (), s\<lparr>rng := rng s + 3,
           datastore := ds
             (Last meta \<mapsto> sealed (FileSourcekey meta) (Rand (rng s + 1)) (JFile c (Rand (rng s))),
              m \<mapsto> sealed k (Rand (rng s + 2))
                     (JMeta (Start meta) (Rand (rng s)) (FileSourcekey meta)))\<rparr>)"
    by (rule AppendToFile_reads [OF h [THEN conjunct1] h [THEN conjunct2, THEN conjunct1]
          h [THEN conjunct2, THEN conjunct2]])
qed

theorem store_append_append_load_concat_witness:
  "(\<exists>s1 s2 s3. StoreFile alice ''a'' ''x'' w3 = (Inr (), s1) \<and>
        AppendToFile alice ''a'' ''y'' s1 = (Inr (), s2) \<and>
        AppendToFile alice ''a'' ''z'' s2 = (Inr (), s3) \<and>
        LoadFile alice ''a'' s3 = Some (Inr ''xyz'')) \<and>
   (\<exists>s1 s2 s3. StoreFile alice ''a'' ''x'' w8 = (Inr (), s1) \<and>
        AppendToFile alice ''a'' ''y'' s1 = (Inr (), s2) \<and>
        AppendToFile alice ''a'' ''z'' s2 = (Inr (), s3) \<and>
        LoadFile bob ''b'' s3 = Some (Inr ''xyz'')) \<and>
   AppendToFile bob ''b'' ''!'' (w8\<lparr>datastore := (datastore w8)(Rand 9 := None)\<rparr>) =
     (Inr (), w8\<lparr>rng := 33,
        datastore := ((datastore w8)(Rand 9 := None))
          (Rand 11 \<mapsto> sealed (Hkdf skA (Rand 10)) (Rand 31) (JFile ''!'' (Rand 30)),
           Rand 13 \<mapsto> sealed (Hkdf skA (Rand 14)) (Rand 32)
                     (JMeta (Rand 9) (Rand 30) (Hkdf skA (Rand 10))))\<rparr>)"
proof -
  have n: "len16 (sourceKey alice) \<and> datastore w3 (Hkdf (sourceKey alice) (Raw ''a'')) = None"
    by (simp add: alice_def w1 w2 w3)
  have e: "resolve alice ''a'' w8 = Some (accA, Rand 13, Hkdf skA (Rand 14), metaA) \<and>
      wellFormedFile w8 alice ''a'' \<and>
      resolve bob ''b'' w8 = Some (accB, Rand 13, Hkdf skA (Rand 14), metaA) \<and>
      wellFormedFile w8 bob ''b''"
    by (simp add: resolve8 wellFormed8)
  have r: "resolve bob ''b'' w8 = Some (accB, Rand 13, Hkdf skA (Rand 14), metaA) \<and>
      len16 (FileSourcekey metaA) \<and>
      (\<forall>y \<in> {Hkdf (sourceKey bob) (Raw ''b''), Access.InvitationUUID accB, Rand 13}.
          ((datastore w8)(Rand 9 := None)) y = datastore w8 y)"
    using resolve8(2) by (simp add: bob_def)
  note T1 = store_append_append_load_concat [where u = alice and f = "''a''" and s = w3
      and ?c1.0 = "''x''" and ?c2.0 = "''y''" and ?c3.0 = "''z''", THEN conjunct1, THEN mp, OF n]
  note T2 = store_append_append_load_concat [where u = alice and f = "''a''" and s = w8
      and x = bob and g = "''b''"
      and ?c1.0 = "''x''" and ?c2.0 = "''y''" and ?c3.0 = "''z''",
      THEN conjunct2, THEN conjunct1, THEN mp, OF e]
  note T3 = store_append_append_load_concat [where u = bob and f = "''b''" and s = w8
      and c = "''!''" and ds = "(datastore w8)(Rand 9 := None)", THEN conjunct2, THEN conjunct2, THEN mp, OF r]
  from T1 T2 T3 show ?thesis by (simp add: w8(1))
qed

text \<open>
  Claim C3. Two \<open>StoreFile\<close> of \<open>c1\<close> and then \<open>c2\<close> under the same filename, followed by
  \<open>LoadFile\<close>, return \<open>c2\<close>. For a file that exists, the second \<open>StoreFile\<close> writes one File block
  at the Metadata's \<open>Start\<close> and writes the Metadata again with a new \<open>Last\<close> and the same \<open>Start\<close>
  and \<open>FileSourcekey\<close>, under the same Metadata key; every user whose Access resolves to the same
  Metadata still resolves to it and loads \<open>c2\<close>. The same holds when the first \<open>StoreFile\<close>
  creates the file. The random UUIDs and keys drawn by the calls are taken to be new
  (\<open>wellFormedFile\<close>).
\<close>

theorem store_store_load_overwrites:
  "(resolve u f s = Some (a, m, k, meta) \<and> wellFormedFile s u f \<and>
    resolve x g s = Some (ax, m, k, meta) \<and> wellFormedFile s x g \<longrightarrow>
      (\<exists>s1 s2. StoreFile u f c1 s = (Inr (), s1) \<and> StoreFile u f c2 s1 = (Inr (), s2) \<and>
           LoadFile x g s2 = Some (Inr c2) \<and>
           s2 = s1\<lparr>rng := rng s1 + 3,
                  datastore := (datastore s1)
                    (Start meta \<mapsto> sealed (FileSourcekey meta) (Rand (rng s1 + 1))
                        (JFile c2 (Rand (rng s1))),
                     m \<mapsto> sealed k (Rand (rng s1 + 2))
                        (JMeta (Start meta) (Rand (rng s1)) (FileSourcekey meta)))\<rparr> \<and>
           resolve x g s2 =
             Some (ax, m, k, \<lparr>Start = Start meta, Last = Rand (rng s1),
                              FileSourcekey = FileSourcekey meta\<rparr>))) \<and>
   (len16 (sourceKey u) \<and> datastore s (Hkdf (sourceKey u) (Raw f)) = None \<longrightarrow>
      (\<exists>s1 s2. StoreFile u f c1 s = (Inr (), s1) \<and> StoreFile u f c2 s1 = (Inr (), s2) \<and>
           LoadFile u f s2 = Some (Inr c2)))"
proof (intro conjI impI)
  assume h: "resolve u f s = Some (a, m, k, meta) \<and> wellFormedFile s u f \<and>
    resolve x g s = Some (ax, m, k, meta) \<and> wellFormedFile s x g"
  show "\<exists>s1 s2. StoreFile u f c1 s = (Inr (), s1) \<and> StoreFile u f c2 s1 = (Inr (), s2) \<and>
           LoadFile x g s2 = Some (Inr c2) \<and>
           s2 = s1\<lparr>rng := rng s1 + 3,
                  datastore := (datastore s1)
                    (Start meta \<mapsto> sealed (FileSourcekey meta) (Rand (rng s1 + 1))
                        (JFile c2 (Rand (rng s1))),
                     m \<mapsto> sealed k (Rand (rng s1 + 2))
                        (JMeta (Start meta) (Rand (rng s1)) (FileSourcekey meta)))\<rparr> \<and>
           resolve x g s2 =
             Some (ax, m, k, \<lparr>Start = Start meta, Last = Rand (rng s1),
                              FileSourcekey = FileSourcekey meta\<rparr>)"
    by (rule store_store_load [OF h [THEN conjunct1] h [THEN conjunct2, THEN conjunct1]
          h [THEN conjunct2, THEN conjunct2, THEN conjunct1]
          h [THEN conjunct2, THEN conjunct2, THEN conjunct2]])
next
  assume h: "len16 (sourceKey u) \<and> datastore s (Hkdf (sourceKey u) (Raw f)) = None"
  show "\<exists>s1 s2. StoreFile u f c1 s = (Inr (), s1) \<and> StoreFile u f c2 s1 = (Inr (), s2) \<and>
           LoadFile u f s2 = Some (Inr c2)"
    by (rule store_new_store_load [OF h [THEN conjunct1] h [THEN conjunct2]])
qed

theorem store_store_load_overwrites_witness:
  "(\<exists>s1 s2. StoreFile alice ''a'' ''x'' w8 = (Inr (), s1) \<and>
        StoreFile alice ''a'' ''y'' s1 = (Inr (), s2) \<and>
        LoadFile bob ''b'' s2 = Some (Inr ''y'') \<and>
        s2 = s1\<lparr>rng := rng s1 + 3,
               datastore := (datastore s1)
                 (Rand 9 \<mapsto> sealed (Hkdf skA (Rand 10)) (Rand (rng s1 + 1))
                     (JFile ''y'' (Rand (rng s1))),
                  Rand 13 \<mapsto> sealed (Hkdf skA (Rand 14)) (Rand (rng s1 + 2))
                     (JMeta (Rand 9) (Rand (rng s1)) (Hkdf skA (Rand 10))))\<rparr> \<and>
        resolve bob ''b'' s2 =
          Some (accB, Rand 13, Hkdf skA (Rand 14),
                \<lparr>Start = Rand 9, Last = Rand (rng s1), FileSourcekey = Hkdf skA (Rand 10)\<rparr>)) \<and>
   (\<exists>s1 s2. StoreFile alice ''a'' ''x'' w3 = (Inr (), s1) \<and>
        StoreFile alice ''a'' ''y'' s1 = (Inr (), s2) \<and>
        LoadFile alice ''a'' s2 = Some (Inr ''y''))"
proof -
  have n: "len16 (sourceKey alice) \<and> datastore w3 (Hkdf (sourceKey alice) (Raw ''a'')) = None"
    by (simp add: alice_def w1 w2 w3)
  have e: "resolve alice ''a'' w8 = Some (accA, Rand 13, Hkdf skA (Rand 14), metaA) \<and>
      wellFormedFile w8 alice ''a'' \<and>
      resolve bob ''b'' w8 = Some (accB, Rand 13, Hkdf skA (Rand 14), metaA) \<and>
      wellFormedFile w8 bob ''b''"
    by (simp add: resolve8 wellFormed8)
  note T1 = store_store_load_overwrites [where u = alice and f = "''a''" and s = w8
      and x = bob and g = "''b''" and ?c1.0 = "''x''" and ?c2.0 = "''y''",
      THEN conjunct1, THEN mp, OF e]
  note T2 = store_store_load_overwrites [where u = alice and f = "''a''" and s = w3
      and ?c1.0 = "''x''" and ?c2.0 = "''y''", THEN conjunct2, THEN mp, OF n]
  from T1 T2 show ?thesis by simp
qed

section \<open>Creating invitations\<close>





section \<open>Invitation tokens\<close>

text \<open>A second accept of the same token, under another filename.\<close>

lemma AcceptInvitation_repeat:
  assumes ok: "AcceptInvitation x sender tok g s = (Inr (), s')"
    and g': "g' \<noteq> g" "datastore s (Hkdf (sourceKey x) (Raw g')) = None"
  shows "datastore s' tok = datastore s tok \<and>
         (\<exists>s''. AcceptInvitation x sender tok g' s' = (Inr (), s''))"
proof -
  from AcceptInvitation_Inr [OF ok] obtain v where
    a: "datastore s (Hkdf (sourceKey x) (Raw g)) = None" "datastore s tok \<noteq> None"
    and s': "s' = s\<lparr>rng := rng s + 1,
                    datastore := (datastore s)(Hkdf (sourceKey x) (Raw g) \<mapsto> v)\<rparr>"
    by blast
  have 1: "datastore s' tok = datastore s tok" using a by (auto simp add: s')
  have ext: "\<And>y. datastore s y \<noteq> None \<Longrightarrow> datastore s' y = datastore s y"
    using a by (auto simp add: s')
  have ks: "keystore s' = keystore s" by (simp add: s')
  have free: "datastore s' (Hkdf (sourceKey x) (Raw g')) = None"
    using g' by (simp add: s')
  from AcceptInvitation_again [OF ok ext ks free] 1 show ?thesis by simp
qed

text \<open>
  Claim C6 (as amended). The claim says that the blob at an invitation token is consumed by
  the sharee's successful \<open>AcceptInvitation\<close>, so that a second accept with the same token
  cannot succeed. \<open>AcceptInvitation\<close> only reads the token: its single write is the sharee's
  new Access blob. After a successful accept the blob at the token is what it was before, and
  the same recipient accepts the same token again under every other filename that is still free
  in its namespace.
\<close>

theorem AcceptInvitation_token_reusable:
  assumes "AcceptInvitation x sender tok g s = (Inr (), s')"
    and "g' \<noteq> g" and "datastore s (Hkdf (sourceKey x) (Raw g')) = None"
  shows "datastore s' tok = datastore s tok \<and>
         (\<exists>s''. AcceptInvitation x sender tok g' s' = (Inr (), s''))"
  using assms by (rule AcceptInvitation_repeat)

theorem AcceptInvitation_token_reusable_witness:
  "AcceptInvitation bob ''alice'' (Rand 22) ''b'' w5 = (Inr (), w6) \<and>
   datastore w6 (Rand 22) = datastore w5 (Rand 22) \<and>
   (\<exists>s''. AcceptInvitation bob ''alice'' (Rand 22) ''b2'' w6 = (Inr (), s''))"
proof -
  have h: "datastore w5 (Hkdf (sourceKey bob) (Raw ''b2'')) = None"
    by (simp add: ws w5 bob_def)
  from AcceptInvitation_token_reusable [OF accept6 _ h] show ?thesis
    by (simp add: accept6)
qed

theorem AcceptInvitation_twice:
  "fst (AcceptInvitation bob ''alice'' (Rand 22) ''b'' w5) = Inr () \<and>
   fst (AcceptInvitation bob ''alice'' (Rand 22) ''b2''
          (snd (AcceptInvitation bob ''alice'' (Rand 22) ''b'' w5))) = Inr ()"
proof -
  have h: "datastore w5 (Hkdf (sourceKey bob) (Raw ''b2'')) = None"
    by (simp add: ws w5 bob_def)
  from AcceptInvitation_repeat [OF accept6 _ h] show ?thesis
    by (auto simp add: accept6)
qed

section \<open>Revocation\<close>

text \<open>
  Claim C1 does not hold for the code. After a successful \<open>RevokeAccess\<close> the revoked
  recipient is refused by \<open>LoadFile\<close>, \<open>AppendToFile\<close> and \<open>StoreFile\<close>, which check the MAC of
  the Metadata under the key that \<open>GetMetaUUIDAndSourceKey\<close> returns and find it sealed under
  the new key. \<open>CreateInvitation\<close> calls \<open>GetMetaUUIDAndSourceKey\<close> too, but never opens the
  Metadata: for the revoked recipient it still returns a token and stores an Invitation that
  carries the old Metadata key. (That the owner and the holders of the Invitations that stay
  in the owner's list still load the same contents and append is lemma \<open>revocation_sound\<close>.)
\<close>

theorem RevokeAccess_then_CreateInvitation:
  assumes ru: "resolve u f s = Some (a, m, k, meta)" and wu: "wellFormedFile s u f"
    and own: "IsOwner a" and ld: "LoadFile u f s = Some (Inr c)"
    and lst: "datastore s (InvitationList a) =
                Some (sealed (ListKey a) ivl (JInvitationList (Some es)))"
    and lk: "len16 (ListKey a)"
    and il: "InvitationList a \<noteq> m" "InvitationList a \<noteq> Hkdf (sourceKey u) (Raw f)"
            "fresh s (InvitationList a)"
    and es: "distinct (map fst es)"
            "\<forall>e \<in> set es. len16 (snd e) \<and> fresh s (fst e) \<and>
                fst e \<notin> {m, Hkdf (sourceKey u) (Raw f), InvitationList a}"
    and fk: "k \<noteq> Hkdf (sourceKey u) (Rand (rng s + 4))"
    and lx: "len16 (sourceKey x)"
    and ax: "datastore s (Hkdf (sourceKey x) (Raw g)) =
               Some (sealed (Hkdf (sourceKey x) (Raw g)) iv (marshalAccess b))"
    and nb: "\<not> IsOwner b"
    and bi: "Access.InvitationUUID b = Hkdf (sourceKey u) (Raw (Username u @ f @ recipient))"
    and sh: "map_of es (Access.InvitationUUID b) = Some (Access.InvitationSourcekey b)"
    and ib: "datastore s (Access.InvitationUUID b) =
               Some (sealed (Access.InvitationSourcekey b) ivi (JInvitation m k))"
    and xn: "Hkdf (sourceKey x) (Raw g) \<notin>
               {m, InvitationList a, Hkdf (sourceKey u) (Raw f)} \<union> fst ` set es"
    and kr: "keystore s (r @ '' public key'') = Some (PKEEncKey pk)"
    and rn: "r \<noteq> Username x" and sx: "Sigkey x = DSSignKey sg"
  shows "\<exists>s'. RevokeAccess u f recipient s = Some (Inr (), s') \<and>
     LoadFile x g s' =
        Some (Inl ''integrity check failed: Meta struct has been tampered with'') \<and>
     (\<forall>c'. AppendToFile x g c' s' =
        (Inl ''integrity check failed: Meta struct has been tampered with'', s')) \<and>
     (\<forall>c'. StoreFile x g c' s' =
        (Inl ''integrity check failed: Meta struct has been tampered with'', s')) \<and>
     (\<exists>t. CreateInvitation x g r s' = (Inr (Rand (rng s' + 2)), t) \<and>
          datastore t (Hkdf (sourceKey x) (Raw (Username x @ g @ r))) =
            Some (sealed (Hkdf (sourceKey x) (Rand (rng s'))) (Rand (rng s' + 1))
                    (JInvitation m k)))"
  using assms by (rule revoked_create_invitation)

theorem RevokeAccess_then_CreateInvitation_witness:
  "RevokeAccess alice ''a'' ''bob'' w8 = Some (Inr (), w9) \<and>
   LoadFile bob ''b'' w9 =
     Some (Inl ''integrity check failed: Meta struct has been tampered with'') \<and>
   AppendToFile bob ''b'' ''!'' w9 =
     (Inl ''integrity check failed: Meta struct has been tampered with'', w9) \<and>
   StoreFile bob ''b'' ''!'' w9 =
     (Inl ''integrity check failed: Meta struct has been tampered with'', w9) \<and>
   fst (CreateInvitation bob ''b'' ''charles'' w9) = Inr (Rand (rng w9 + 2))"
proof -
  have b: "len16 (sourceKey bob)"
      "datastore w8 (Hkdf (sourceKey bob) (Raw ''b'')) =
         Some (sealed (Hkdf (sourceKey bob) (Raw ''b'')) (Rand 24) (marshalAccess accB))"
      "\<not> IsOwner accB"
      "Access.InvitationUUID accB = Hkdf (sourceKey alice) (Raw (Username alice @ ''a'' @ ''bob''))"
      "map_of [(invB, Hkdf skA (Rand 20)), (invC, Hkdf skA (Rand 25))] (Access.InvitationUUID accB)
         = Some (Access.InvitationSourcekey accB)"
      "datastore w8 (Access.InvitationUUID accB) =
         Some (sealed (Access.InvitationSourcekey accB) (Rand 21)
            (JInvitation (Rand 13) (Hkdf skA (Rand 14))))"
      "Hkdf (sourceKey bob) (Raw ''b'') \<notin>
         {Rand 13, InvitationList accA, Hkdf (sourceKey alice) (Raw ''a'')} \<union>
         fst ` set [(invB, Hkdf skA (Rand 20)), (invC, Hkdf skA (Rand 25))]"
      "keystore w8 (''charles'' @ '' public key'') = Some (PKEEncKey 6)"
      "''charles'' \<noteq> Username bob" "Sigkey bob = DSSignKey 4"
    using blobs8(2,6) keys8(3) by (simp_all add: alice_def bob_def)
  note T = the_result [OF RevokeAccess_then_CreateInvitation [OF resolve8(1) wellFormed8(1)
      revoke8_hyps(1) load8(1) revoke8_hyps(10) revoke8_hyps(2-7) revoke8_hyps(9) b],
      folded w9_def]
  note rv = T [THEN conjunct1]
  note lo = T [THEN conjunct2, THEN conjunct1]
  note ap = T [THEN conjunct2, THEN conjunct2, THEN conjunct1, THEN spec [where x = "''!''"]]
  note st = T [THEN conjunct2, THEN conjunct2, THEN conjunct2, THEN conjunct1,
      THEN spec [where x = "''!''"]]
  note ci = T [THEN conjunct2, THEN conjunct2, THEN conjunct2, THEN conjunct2]
  from ci have c: "fst (CreateInvitation bob ''b'' ''charles'' w9) = Inr (Rand (rng w9 + 2))"
    by auto
  show ?thesis by (intro conjI rv lo ap st c)
qed

lemma the_refusal:
  "\<exists>s'. r = Some (Inl e, s') \<and> Q s' \<Longrightarrow> r = Some (Inl e, snd (the r)) \<and> Q (snd (the r))"
  by auto

text \<open>
  Claim C4 does not hold for the code. \<open>RevokeAccess\<close> looks the recipient up in the
  Invitation List only after it has written the file again under a new key and sealed the
  Metadata under a new Metadata key. When the recipient is not in the list the call returns the
  error \<open>filename was not shared with recipientUsername\<close>, but the two writes stay: the
  Metadata blob has changed, the owner's Access and every Invitation still hold the old Metadata
  key, and from then on \<open>LoadFile\<close>, \<open>AppendToFile\<close> and \<open>StoreFile\<close> fail with the Metadata
  integrity error for the owner and for every sharee.
\<close>

theorem RevokeAccess_refusal_not_atomic:
  assumes ru: "resolve u f s = Some (a, m, k, meta)"
    and own: "IsOwner a" and ld: "LoadFile u f s = Some (Inr c)"
    and lst: "datastore s (InvitationList a) =
                Some (sealed (ListKey a) ivl (JInvitationList (Some es)))"
    and lk: "len16 (ListKey a)"
    and il: "InvitationList a \<noteq> m" "fresh s (InvitationList a)"
    and ns: "map_of es (Hkdf (sourceKey u) (Raw (Username u @ f @ recipient))) = None"
    and fk: "k \<noteq> Hkdf (sourceKey u) (Rand (rng s + 4))"
  shows "\<exists>s'. RevokeAccess u f recipient s =
            Some (Inl ''filename was not shared with recipientUsername'', s') \<and>
     datastore s' m \<noteq> datastore s m \<and>
     (\<forall>x g ax. resolve x g s = Some (ax, m, k, meta) \<and> wellFormedFile s x g
        \<longrightarrow> LoadFile x g s' =
              Some (Inl ''integrity check failed: Meta struct has been tampered with'') \<and>
            (\<forall>c'. AppendToFile x g c' s' =
              (Inl ''integrity check failed: Meta struct has been tampered with'', s')) \<and>
            (\<forall>c'. StoreFile x g c' s' =
              (Inl ''integrity check failed: Meta struct has been tampered with'', s')))"
  using assms by (rule refused_revocation)

theorem RevokeAccess_refusal_not_atomic_witness:
  "LoadFile alice ''a'' w8 = Some (Inr ''hello'') \<and>
   LoadFile bob ''b'' w8 = Some (Inr ''hello'') \<and>
   LoadFile charles ''c'' w8 = Some (Inr ''hello'') \<and>
   RevokeAccess alice ''a'' ''dave'' w8 =
     Some (Inl ''filename was not shared with recipientUsername'', w10) \<and>
   datastore w10 (Rand 13) \<noteq> datastore w8 (Rand 13) \<and>
   LoadFile alice ''a'' w10 =
     Some (Inl ''integrity check failed: Meta struct has been tampered with'') \<and>
   LoadFile bob ''b'' w10 =
     Some (Inl ''integrity check failed: Meta struct has been tampered with'') \<and>
   LoadFile charles ''c'' w10 =
     Some (Inl ''integrity check failed: Meta struct has been tampered with'')"
proof -
  have n: "map_of [(invB, Hkdf skA (Rand 20)), (invC, Hkdf skA (Rand 25))]
      (Hkdf (sourceKey alice) (Raw (Username alice @ ''a'' @ ''dave''))) = None"
    by (simp add: alice_def)
  note T = the_refusal [OF RevokeAccess_refusal_not_atomic [OF resolve8(1) revoke8_hyps(1) load8(1)
      revoke8_hyps(10) revoke8_hyps(2,3,5) n revoke8_hyps(9)], folded w10_def]
  note rv = T [THEN conjunct1]
  note ne = T [THEN conjunct2, THEN conjunct1]
  note rd = T [THEN conjunct2, THEN conjunct2]
  have A: "LoadFile alice ''a'' w10 =
     Some (Inl ''integrity check failed: Meta struct has been tampered with'')"
    using rd [THEN spec [where x = alice], THEN spec [where x = "''a''"],
        THEN spec [where x = accA], THEN mp, THEN conjunct1]
    by (simp add: resolve8 wellFormed8)
  have B: "LoadFile bob ''b'' w10 =
     Some (Inl ''integrity check failed: Meta struct has been tampered with'')"
    using rd [THEN spec [where x = bob], THEN spec [where x = "''b''"],
        THEN spec [where x = accB], THEN mp, THEN conjunct1]
    by (simp add: resolve8 wellFormed8)
  have C: "LoadFile charles ''c'' w10 =
     Some (Inl ''integrity check failed: Meta struct has been tampered with'')"
    using rd [THEN spec [where x = charles], THEN spec [where x = "''c''"],
        THEN spec [where x = accC], THEN mp, THEN conjunct1]
    by (simp add: resolve8 wellFormed8)
  show ?thesis
    by (intro conjI load8 rv ne A B C)
qed

text \<open>
  Claim C5 (as amended). The claim says that a successful \<open>RevokeAccess\<close> rewrites or deletes
  the Invitation blob of the revoked sharee, so that the sharee's MAC check on that blob fails.
  \<open>RevokeAccess\<close> rewrites only the Invitations that stay in the owner's list and removes the
  revoked entry from the list; it never touches the blob at the revoked Invitation UUID. After
  the revocation that blob is what it was, it still opens under the key the revoked sharee
  retained and still yields the old Metadata key. The revoked sharee is stopped one step later:
  the Metadata has been sealed again under a new key, so the Metadata MAC check fails and
  \<open>LoadFile\<close> and \<open>AppendToFile\<close> return the Metadata integrity error.
\<close>

theorem RevokeAccess_keeps_revoked_invitation:
  assumes ru: "resolve u f s = Some (a, m, k, meta)" and wu: "wellFormedFile s u f"
    and own: "IsOwner a" and ld: "LoadFile u f s = Some (Inr c)"
    and lst: "datastore s (InvitationList a) =
                Some (sealed (ListKey a) ivl (JInvitationList (Some es)))"
    and lk: "len16 (ListKey a)"
    and il: "InvitationList a \<noteq> m" "InvitationList a \<noteq> Hkdf (sourceKey u) (Raw f)"
            "fresh s (InvitationList a)"
    and es: "distinct (map fst es)"
            "\<forall>e \<in> set es. len16 (snd e) \<and> fresh s (fst e) \<and>
                fst e \<notin> {m, Hkdf (sourceKey u) (Raw f), InvitationList a}"
    and fk: "k \<noteq> Hkdf (sourceKey u) (Rand (rng s + 4))"
    and lx: "len16 (sourceKey x)"
    and ax: "datastore s (Hkdf (sourceKey x) (Raw g)) =
               Some (sealed (Hkdf (sourceKey x) (Raw g)) iv (marshalAccess b))"
    and nb: "\<not> IsOwner b"
    and bi: "Access.InvitationUUID b = Hkdf (sourceKey u) (Raw (Username u @ f @ recipient))"
    and sh: "map_of es (Access.InvitationUUID b) = Some (Access.InvitationSourcekey b)"
    and ib: "datastore s (Access.InvitationUUID b) =
               Some (sealed (Access.InvitationSourcekey b) ivi (JInvitation m k))"
    and xn: "Hkdf (sourceKey x) (Raw g) \<notin>
               {m, InvitationList a, Hkdf (sourceKey u) (Raw f)} \<union> fst ` set es"
  shows "\<exists>s'. RevokeAccess u f recipient s = Some (Inr (), s') \<and>
     datastore s' (Access.InvitationUUID b) =
        Some (sealed (Access.InvitationSourcekey b) ivi (JInvitation m k)) \<and>
     opens (datastore s' (Access.InvitationUUID b)) (Access.InvitationSourcekey b) =
        Some (JInvitation m k) \<and>
     GetMetaUUIDAndSourceKey b s' = Inr (m, k) \<and>
     opens (datastore s' m) k = None \<and>
     LoadFile x g s' =
        Some (Inl ''integrity check failed: Meta struct has been tampered with'') \<and>
     (\<forall>c'. AppendToFile x g c' s' =
        (Inl ''integrity check failed: Meta struct has been tampered with'', s'))"
  using assms by (rule revoked_invitation_kept)

theorem RevokeAccess_keeps_revoked_invitation_witness:
  "RevokeAccess alice ''a'' ''bob'' w8 = Some (Inr (), w9) \<and>
   datastore w9 invB =
     Some (sealed (Hkdf skA (Rand 20)) (Rand 21) (JInvitation (Rand 13) (Hkdf skA (Rand 14)))) \<and>
   GetMetaUUIDAndSourceKey accB w9 = Inr (Rand 13, Hkdf skA (Rand 14)) \<and>
   opens (datastore w9 (Rand 13)) (Hkdf skA (Rand 14)) = None \<and>
   LoadFile bob ''b'' w9 =
     Some (Inl ''integrity check failed: Meta struct has been tampered with'')"
proof -
  have b: "len16 (sourceKey bob)"
      "datastore w8 (Hkdf (sourceKey bob) (Raw ''b'')) =
         Some (sealed (Hkdf (sourceKey bob) (Raw ''b'')) (Rand 24) (marshalAccess accB))"
      "\<not> IsOwner accB"
      "Access.InvitationUUID accB = Hkdf (sourceKey alice) (Raw (Username alice @ ''a'' @ ''bob''))"
      "map_of [(invB, Hkdf skA (Rand 20)), (invC, Hkdf skA (Rand 25))] (Access.InvitationUUID accB)
         = Some (Access.InvitationSourcekey accB)"
      "datastore w8 (Access.InvitationUUID accB) =
         Some (sealed (Access.InvitationSourcekey accB) (Rand 21)
            (JInvitation (Rand 13) (Hkdf skA (Rand 14))))"
      "Hkdf (sourceKey bob) (Raw ''b'') \<notin>
         {Rand 13, InvitationList accA, Hkdf (sourceKey alice) (Raw ''a'')} \<union>
         fst ` set [(invB, Hkdf skA (Rand 20)), (invC, Hkdf skA (Rand 25))]"
    using blobs8(2,6) by (simp_all add: alice_def bob_def)
  note T = the_result [OF RevokeAccess_keeps_revoked_invitation [OF resolve8(1) wellFormed8(1) revoke8_hyps(1) load8(1)
      revoke8_hyps(10) revoke8_hyps(2-7) revoke8_hyps(9) b], folded w9_def]
  note rv = T [THEN conjunct1]
  note i1 = T [THEN conjunct2, THEN conjunct1]
  note i2 = T [THEN conjunct2, THEN conjunct2, THEN conjunct1]
  note i3 = T [THEN conjunct2, THEN conjunct2, THEN conjunct2, THEN conjunct1]
  note i4 = T [THEN conjunct2, THEN conjunct2, THEN conjunct2, THEN conjunct2, THEN conjunct1]
  note i5 = T [THEN conjunct2, THEN conjunct2, THEN conjunct2, THEN conjunct2, THEN conjunct2,
      THEN conjunct1]
  have "datastore w9 invB = datastore w8 invB" using i1 by (simp add: blobs8)
  with rv i1 i2 i3 i4 i5 show ?thesis by simp
qed

text \<open>The blob at the revoked Invitation UUID is neither rewritten nor deleted.\<close>

theorem revoked_invitation_still_opens:
  "RevokeAccess alice ''a'' ''bob'' w8 = Some (Inr (), w9) \<and>
   datastore w9 invB = datastore w8 invB \<and>
   opens (datastore w9 invB) (Hkdf skA (Rand 20)) =
     Some (JInvitation (Rand 13) (Hkdf skA (Rand 14)))"
proof -
  have b: "len16 (sourceKey bob)"
      "datastore w8 (Hkdf (sourceKey bob) (Raw ''b'')) =
         Some (sealed (Hkdf (sourceKey bob) (Raw ''b'')) (Rand 24) (marshalAccess accB))"
      "\<not> IsOwner accB"
      "Access.InvitationUUID accB = Hkdf (sourceKey alice) (Raw (Username alice @ ''a'' @ ''bob''))"
      "map_of [(invB, Hkdf skA (Rand 20)), (invC, Hkdf skA (Rand 25))] (Access.InvitationUUID accB)
         = Some (Access.InvitationSourcekey accB)"
      "datastore w8 (Access.InvitationUUID accB) =
         Some (sealed (Access.InvitationSourcekey accB) (Rand 21)
            (JInvitation (Rand 13) (Hkdf skA (Rand 14))))"
      "Hkdf (sourceKey bob) (Raw ''b'') \<notin>
         {Rand 13, InvitationList accA, Hkdf (sourceKey alice) (Raw ''a'')} \<union>
         fst ` set [(invB, Hkdf skA (Rand 20)), (invC, Hkdf skA (Rand 25))]"
    using blobs8(2,6) by (simp_all add: alice_def bob_def)
  note T = the_result [OF revoked_invitation_kept [OF resolve8(1) wellFormed8(1) revoke8_hyps(1) load8(1)
      revoke8_hyps(10) revoke8_hyps(2-7) revoke8_hyps(9) b], folded w9_def]
  note rv = T [THEN conjunct1]
  note i1 = T [THEN conjunct2, THEN conjunct1]
  note i2 = T [THEN conjunct2, THEN conjunct2, THEN conjunct1]
  note i3 = T [THEN conjunct2, THEN conjunct2, THEN conjunct2, THEN conjunct1]
  note i4 = T [THEN conjunct2, THEN conjunct2, THEN conjunct2, THEN conjunct2, THEN conjunct1]
  note i5 = T [THEN conjunct2, THEN conjunct2, THEN conjunct2, THEN conjunct2, THEN conjunct2,
      THEN conjunct1]
  have "datastore w9 invB = datastore w8 invB" using i1 by (simp add: blobs8)
  with rv i1 i2 i3 i4 i5 show ?thesis by simp
qed

end
